(* ===== verification/Prelude.thy ===== *)
theory Prelude
  imports Complex_Main "HOL-Library.AList" "HOL-Library.Multiset"
begin

text \<open>
  Shared vocabulary of the development: the names of the model's types (paths, keys,
  argument vectors, the set of existing files), the collection \<open>model_defs\<close> into which
  every component puts the equations of its non-recursive definitions, and the generic
  facts on lists, sets and association lists that several components use.
\<close>

section \<open>Types of the model\<close>

type_synonym path = string
type_synonym key = string
type_synonym argv = "string list"

text \<open>The part of the file system the script observes: the set of paths that exist.\<close>
type_synonym fs = "path set"

named_theorems model_defs "equations of the model's non-recursive definitions"
named_theorems eval_simps "rules that let the simplifier evaluate the model on concrete inputs"

declare char_of_def [eval_simps] bit_0 [eval_simps]

section \<open>Generic lemmas\<close>

subsection \<open>Lists\<close>

lemma take_drop_subset_take:
  "set (take n (drop m xs)) \<subseteq> set (take (m + n) xs)"
proof -
  have "take n (drop m xs) = drop m (take (n + m) xs)" by (rule take_drop)
  then show ?thesis by (metis add.commute set_drop_subset)
qed

lemma take_drop_subset_drop:
  "set (take n (drop m xs)) \<subseteq> set (drop m xs)"
  by (rule set_take_subset)

lemma distinct_take_drop_disjoint:
  assumes "distinct xs" and "i \<le> j"
  shows "set (take i xs) \<inter> set (drop j xs) = {}"
  using assms by (rule set_take_disj_set_drop_if_distinct)

lemma card_set_take_drop:
  "distinct xs \<Longrightarrow> card (set (take n (drop m xs))) = min n (length xs - m)"
  by (simp add: distinct_card)

lemma sorted_map_filter [intro]:
  "sorted (map f xs) \<Longrightarrow> sorted (map f (filter P xs))"
  by (induction xs) auto

lemma last_snoc_map [simp]: "last (map f (xs @ [x])) = f x"
  by simp

subsection \<open>Association lists as Python dictionaries\<close>

text \<open>
  A Python \<open>dict\<close> keeps its keys in insertion order; assigning to a present key
  replaces the value in place, a new key goes to the end. That is \<open>AList.update\<close>.
\<close>

text \<open>The key set of a dictionary.\<close>

abbreviation dict_keys :: "('k \<times> 'v) list \<Rightarrow> 'k set" where
  "dict_keys d \<equiv> fst ` set d"

lemma map_of_update_iff [simp]:
  "map_of (AList.update k v al) k' = (if k' = k then Some v else map_of al k')"
  by (simp add: AList.update_conv')

lemma keys_update [simp]:
  "dict_keys (AList.update k v al) = insert k (dict_keys al)"
  by (simp add: AList.dom_update)

lemma map_of_Some_keys:
  "map_of al k = Some v \<Longrightarrow> k \<in> dict_keys al"
  by (metis domI dom_map_of_conv_image_fst)

lemma keys_map_of_Some:
  "k \<in> dict_keys al \<Longrightarrow> \<exists>v. map_of al k = Some v"
  by (metis domD dom_map_of_conv_image_fst)

end
