(* ===== verification/PyLib.thy ===== *)
theory PyLib
  imports Prelude
begin

text \<open>
  The Python runtime operations the script calls and whose behaviour its correctness
  depends on, modelled from the CPython semantics: \<open>int()\<close> on a string, \<open>str.lower\<close>
  and \<open>str.endswith\<close>, \<open>os.path.splitext\<close> and \<open>os.path.join\<close> (POSIX), slicing
  with integer bounds, \<open>sorted(..., key=int)\<close> and \<open>random.shuffle\<close> (Fisher-Yates,
  with the random source as a parameter). Characters are the Latin-1 subset of
  Python's code points (\<open>of_char c < 256\<close>); on that subset the definitions below are
  exact.
\<close>

section \<open>Exceptions\<close>

datatype py_error =
    ValueError string   \<comment> \<open>\<open>int(s)\<close> of a string that is not an integer literal\<close>
  | KeyError string     \<comment> \<open>lookup of a missing dictionary key\<close>
  | OSError path        \<comment> \<open>\<open>listdir\<close>, \<open>makedirs\<close>, \<open>open\<close>, spawning a process\<close>
  | MP3Error path       \<comment> \<open>mutagen cannot read the file as MP3\<close>

section \<open>Characters and strings\<close>

definition py_isspace :: "char \<Rightarrow> bool" where
  "py_isspace c \<longleftrightarrow>
     (let n = of_char c :: nat in
      n = 32 \<or> (9 \<le> n \<and> n \<le> 13) \<or> (28 \<le> n \<and> n \<le> 31) \<or> n = 133 \<or> n = 160)"

definition py_isdigit :: "char \<Rightarrow> bool" where
  "py_isdigit c \<longleftrightarrow> (let n = of_char c :: nat in 48 \<le> n \<and> n \<le> 57)"

definition digit_value :: "char \<Rightarrow> int" where
  "digit_value c = int (of_char c) - 48"

definition py_strip :: "string \<Rightarrow> string" where
  "py_strip s = rev (dropWhile py_isspace (rev (dropWhile py_isspace s)))"

text \<open>
  The digits of a base-10 literal: at least one digit, single underscores allowed
  between digits only. The flag says whether the previous character was a digit.
\<close>

fun parse_digits :: "int \<Rightarrow> bool \<Rightarrow> string \<Rightarrow> int option" where
  "parse_digits acc prev [] = (if prev then Some acc else None)"
| "parse_digits acc prev (c # cs) =
     (if py_isdigit c then parse_digits (10 * acc + digit_value c) True cs
      else if c = CHR ''_'' \<and> prev then parse_digits acc False cs
      else None)"

text \<open>\<open>int(s)\<close>: surrounding white space, an optional sign, then the digits.\<close>

definition py_int :: "string \<Rightarrow> int option" where
  "py_int s =
     (case py_strip s of
        c # r \<Rightarrow>
          (if c = CHR ''+'' then parse_digits 0 False r
           else if c = CHR ''-'' then map_option uminus (parse_digits 0 False r)
           else parse_digits 0 False (c # r))
      | [] \<Rightarrow> None)"

definition py_lower_chr :: "char \<Rightarrow> char" where
  "py_lower_chr c =
     (let n = of_char c :: nat in
      if (65 \<le> n \<and> n \<le> 90) \<or> (192 \<le> n \<and> n \<le> 222 \<and> n \<noteq> 215)
      then char_of (n + 32) else c)"

definition py_lower :: "string \<Rightarrow> string" where
  "py_lower s = map py_lower_chr s"

definition py_endswith :: "string \<Rightarrow> string \<Rightarrow> bool" where
  "py_endswith s suf \<longleftrightarrow> length suf \<le> length s \<and> drop (length s - length suf) s = suf"

section \<open>\<open>os.path\<close> on POSIX\<close>

text \<open>\<open>str.rfind(c)\<close>: the last index of \<open>c\<close>, or \<open>-1\<close>.\<close>

fun rfind_from :: "char \<Rightarrow> string \<Rightarrow> nat \<Rightarrow> int \<Rightarrow> int" where
  "rfind_from c [] i r = r"
| "rfind_from c (x # xs) i r = rfind_from c xs (Suc i) (if x = c then int i else r)"

definition py_rfind :: "char \<Rightarrow> string \<Rightarrow> int" where
  "py_rfind c s = rfind_from c s 0 (-1)"

text \<open>
  The loop of \<open>genericpath._splitext\<close>: from the start of the file name to the last dot,
  the first character that is not a dot splits the name at the last dot; a name whose
  part before the last dot is all dots (\<open>.jpg\<close>, \<open>..jpg\<close>) has no extension.
\<close>

function splitext_scan :: "string \<Rightarrow> nat \<Rightarrow> nat \<Rightarrow> string \<times> string" where
  "splitext_scan p i d =
     (if i < d then
        (if p ! i \<noteq> CHR ''.'' then (take d p, drop d p) else splitext_scan p (Suc i) d)
      else (p, []))"
  by pat_completeness auto
termination
  by (relation "measure (\<lambda>(p, i, d). d - i)") auto

declare splitext_scan.simps [simp del]
declare splitext_scan.simps [eval_simps]

definition py_splitext :: "string \<Rightarrow> string \<times> string" where
  "py_splitext p =
     (let s = py_rfind (CHR ''/'') p; d = py_rfind (CHR ''.'') p in
      if s < d then splitext_scan p (nat (s + 1)) (nat d) else (p, []))"

definition py_join :: "path \<Rightarrow> string \<Rightarrow> path" where
  "py_join a b =
     (if take 1 b = ''/'' then b
      else if a = [] \<or> last a = CHR ''/'' then a @ b
      else a @ ''/'' @ b)"

section \<open>Slices, sorting, shuffling\<close>

text \<open>\<open>sep.join(xs)\<close> and \<open>s.split(sep)\<close> for a one-character separator.\<close>

fun py_str_join :: "string \<Rightarrow> string list \<Rightarrow> string" where
  "py_str_join sep [] = []"
| "py_str_join sep [x] = x"
| "py_str_join sep (x # y # ys) = x @ sep @ py_str_join sep (y # ys)"

fun py_split :: "char \<Rightarrow> string \<Rightarrow> string list" where
  "py_split c [] = [[]]"
| "py_split c (x # xs) =
     (if x = c then [] # py_split c xs
      else (case py_split c xs of l # ls \<Rightarrow> (x # l) # ls | [] \<Rightarrow> [[x]]))"

text \<open>
  \<open>xs[lo:hi]\<close> with integer bounds (\<open>PySlice_AdjustIndices\<close>, step 1): a negative bound
  counts from the end and is clamped at 0, a bound past the end is clamped at the length,
  and an empty range gives the empty list. \<open>xs[:hi]\<close> is \<open>xs[0:hi]\<close>.
\<close>

definition py_slice_index :: "int \<Rightarrow> int \<Rightarrow> nat" where
  "py_slice_index n i = nat (if i < 0 then max 0 (i + n) else min i n)"

definition py_slice :: "'a list \<Rightarrow> int \<Rightarrow> int \<Rightarrow> 'a list" where
  "py_slice xs lo hi =
     (let n = int (length xs); a = py_slice_index n lo; b = py_slice_index n hi
      in take (b - a) (drop a xs))"

text \<open>
  \<open>sorted(ks, key=int)\<close>: the keys are computed first, in order, and the first string
  that is not an integer literal raises; the sort itself is stable.
\<close>

fun int_keys :: "string list \<Rightarrow> py_error + (string \<times> int) list" where
  "int_keys [] = Inr []"
| "int_keys (k # ks) =
     (case py_int k of
        None \<Rightarrow> Inl (ValueError k)
      | Some v \<Rightarrow> (case int_keys ks of Inl e \<Rightarrow> Inl e | Inr ps \<Rightarrow> Inr ((k, v) # ps)))"

definition py_sorted_int :: "string list \<Rightarrow> py_error + string list" where
  "py_sorted_int ks =
     (case int_keys ks of Inl e \<Rightarrow> Inl e | Inr ps \<Rightarrow> Inr (map fst (sort_key snd ps)))"

text \<open>A list of strings is in numeric order when every string parses and the values
  are ascending (ties allowed).\<close>

definition int_sorted :: "string list \<Rightarrow> bool" where
  "int_sorted ks \<longleftrightarrow> (case int_keys ks of Inl _ \<Rightarrow> False | Inr ps \<Rightarrow> sorted (map snd ps))"

text \<open>
  \<open>random.shuffle(x)\<close>: for \<open>i\<close> from \<open>len(x) - 1\<close> down to 1, \<open>j = randbelow(i + 1)\<close>
  and \<open>x[i], x[j] = x[j], x[i]\<close>. The random source is the function \<open>rb\<close> giving the
  draw made at index \<open>i\<close>; a source is valid when every draw is below \<open>i + 1\<close>.
\<close>

definition swap :: "nat \<Rightarrow> nat \<Rightarrow> 'a list \<Rightarrow> 'a list" where
  "swap i j xs = xs[i := xs ! j, j := xs ! i]"

fun shuffle_loop :: "(nat \<Rightarrow> nat) \<Rightarrow> nat \<Rightarrow> 'a list \<Rightarrow> 'a list" where
  "shuffle_loop rb 0 xs = xs"
| "shuffle_loop rb (Suc i) xs = shuffle_loop rb i (swap (Suc i) (rb (Suc i)) xs)"

definition py_shuffle :: "(nat \<Rightarrow> nat) \<Rightarrow> 'a list \<Rightarrow> 'a list" where
  "py_shuffle rb xs = shuffle_loop rb (length xs - 1) xs"

definition valid_draws :: "(nat \<Rightarrow> nat) \<Rightarrow> bool" where
  "valid_draws rb \<longleftrightarrow> (\<forall>i. rb i \<le> i)"

declare py_isspace_def [model_defs] py_isdigit_def [model_defs] digit_value_def [model_defs]
  py_strip_def [model_defs] py_int_def [model_defs] py_lower_chr_def [model_defs]
  py_lower_def [model_defs] py_endswith_def [model_defs] py_rfind_def [model_defs]
  py_splitext_def [model_defs] py_join_def [model_defs] py_slice_index_def [model_defs]
  py_slice_def [model_defs] py_sorted_int_def [model_defs] swap_def [model_defs]
  py_shuffle_def [model_defs]

section \<open>Properties of the runtime operations\<close>

subsection \<open>\<open>random.shuffle\<close> permutes its argument\<close>

lemma length_swap [simp]: "length (swap i j xs) = length xs"
  by (simp add: swap_def)

lemma mset_swap_in_range:
  "i < length xs \<Longrightarrow> j < length xs \<Longrightarrow> mset (swap i j xs) = mset xs"
  by (simp add: swap_def mset_swap)

lemma length_shuffle_loop [simp]: "length (shuffle_loop rb i xs) = length xs"
  by (induction i arbitrary: xs) auto

lemma mset_shuffle_loop:
  "valid_draws rb \<Longrightarrow> i < length xs \<Longrightarrow> mset (shuffle_loop rb i xs) = mset xs"
proof (induction i arbitrary: xs)
  case 0
  then show ?case by simp
next
  case (Suc i)
  have "rb (Suc i) \<le> Suc i" using Suc.prems(1) by (simp add: valid_draws_def)
  then have "mset (swap (Suc i) (rb (Suc i)) xs) = mset xs"
    using Suc.prems(2) by (simp add: mset_swap_in_range)
  moreover have "mset (shuffle_loop rb i (swap (Suc i) (rb (Suc i)) xs)) = mset (swap (Suc i) (rb (Suc i)) xs)"
    using Suc.prems by (intro Suc.IH) auto
  ultimately show ?case by simp
qed

theorem py_shuffle_mset: "valid_draws rb \<Longrightarrow> mset (py_shuffle rb xs) = mset xs"
proof (cases xs)
  case Nil
  then show ?thesis by (simp add: py_shuffle_def)
next
  case (Cons a as)
  assume "valid_draws rb"
  then show ?thesis using Cons by (simp add: py_shuffle_def mset_shuffle_loop del: shuffle_loop.simps)
qed

lemma length_py_shuffle [simp]: "length (py_shuffle rb xs) = length xs"
  by (simp add: py_shuffle_def)

lemma py_shuffle_set_distinct:
  "valid_draws rb \<Longrightarrow> set (py_shuffle rb xs) = set xs \<and> distinct (py_shuffle rb xs) = distinct xs
     \<and> length (py_shuffle rb xs) = length xs"
  by (metis py_shuffle_mset mset_eq_setD mset_eq_imp_distinct_iff mset_eq_length)

lemma shuffle_loop_cong:
  "(\<forall>i \<le> n. rb i = rb' i) \<Longrightarrow> shuffle_loop rb n xs = shuffle_loop rb' n xs"
  by (induction n arbitrary: xs) auto

lemma swap_append:
  "i < length xs \<Longrightarrow> j < length xs \<Longrightarrow> swap i j (xs @ zs) = swap i j xs @ zs"
  by (simp add: swap_def list_update_append nth_append)

lemma shuffle_loop_append:
  "valid_draws rb \<Longrightarrow> n < length xs \<Longrightarrow> shuffle_loop rb n (xs @ zs) = shuffle_loop rb n xs @ zs"
proof (induction n arbitrary: xs)
  case 0
  then show ?case by simp
next
  case (Suc n)
  have "rb (Suc n) \<le> Suc n" using Suc.prems(1) by (simp add: valid_draws_def)
  then have "swap (Suc n) (rb (Suc n)) (xs @ zs) = swap (Suc n) (rb (Suc n)) xs @ zs"
    using Suc.prems(2) by (simp add: swap_append)
  then show ?case using Suc by (simp add: length_swap)
qed

lemma shuffle_loop_complete:
  "length xs = Suc n \<Longrightarrow> mset ys = mset xs \<Longrightarrow> \<exists>rb. valid_draws rb \<and> shuffle_loop rb n xs = ys"
proof (induction n arbitrary: xs ys)
  case 0
  then obtain a where "xs = [a]" by (cases xs) auto
  then have "ys = xs" using 0 by (cases ys) auto
  then show ?case by (intro exI [of _ "\<lambda>i. 0"]) (simp add: valid_draws_def)
next
  case (Suc n)
  have ly: "length ys = Suc (Suc n)" using Suc.prems by (metis size_mset)
  let ?y = "ys ! Suc n"
  have "?y \<in> set xs" using ly Suc.prems(2) by (metis lessI nth_mem set_mset_mset)
  then obtain j where j: "j < Suc (Suc n)" "xs ! j = ?y" using Suc.prems(1) by (metis in_set_conv_nth)
  let ?xs' = "swap (Suc n) j xs"
  have lx': "length ?xs' = Suc (Suc n)" using Suc.prems(1) by (simp add: length_swap)
  have last': "?xs' ! Suc n = ?y" using j Suc.prems(1) by (cases "j = Suc n") (simp_all add: swap_def nth_list_update)
  have splx: "?xs' = take (Suc n) ?xs' @ [?y]"
    using lx' last' by (metis id_take_nth_drop lessI append.right_neutral drop_all le_refl)
  have sply: "ys = take (Suc n) ys @ [?y]"
    using ly by (metis id_take_nth_drop lessI append.right_neutral drop_all le_refl)
  have "mset ?xs' = mset xs" using j Suc.prems(1) by (simp add: mset_swap_in_range)
  then have "mset (take (Suc n) ys) = mset (take (Suc n) ?xs')"
    using Suc.prems(2) splx sply by (metis add_right_cancel mset_append)
  moreover have "length (take (Suc n) ?xs') = Suc n" using lx' by simp
  ultimately obtain rb where rb: "valid_draws rb" "shuffle_loop rb n (take (Suc n) ?xs') = take (Suc n) ys"
    using Suc.IH by metis
  let ?rb = "rb(Suc n := j)"
  have "valid_draws ?rb" using rb(1) j by (simp add: valid_draws_def)
  moreover have "shuffle_loop ?rb n ?xs' = shuffle_loop rb n ?xs'"
    by (rule shuffle_loop_cong) simp
  moreover have "shuffle_loop rb n (take (Suc n) ?xs' @ [?y]) = take (Suc n) ys @ [?y]"
    using shuffle_loop_append [OF rb(1), of n "take (Suc n) ?xs'" "[?y]"] rb(2) lx' by simp
  then have "shuffle_loop rb n ?xs' = take (Suc n) ys @ [?y]" using splx by metis
  ultimately have "valid_draws ?rb" "shuffle_loop ?rb (Suc n) xs = ys"
    using sply by simp_all
  then show ?case by blast
qed

lemma py_shuffle_complete:
  "mset ys = mset xs \<Longrightarrow> \<exists>rb. valid_draws rb \<and> py_shuffle rb xs = ys"
proof (cases xs)
  case Nil
  assume "mset ys = mset xs"
  then show ?thesis using Nil by (intro exI [of _ "\<lambda>i. 0"]) (simp add: valid_draws_def py_shuffle_def)
next
  case (Cons a as)
  assume "mset ys = mset xs"
  then show ?thesis using Cons shuffle_loop_complete [of xs "length as" ys] by (simp add: py_shuffle_def)
qed

lemma py_slice_index_nonneg: "0 \<le> i \<Longrightarrow> py_slice_index (int n) i = min (nat i) n"
  by (simp add: py_slice_index_def min_def nat_le_iff)

lemma take_diff_drop_clamped:
  "m \<le> k \<Longrightarrow> take (min k n - min m n) (drop (min m n) xs) = take (k - m) (drop m xs)"
  if "length xs = n" for xs :: "'a list"
  using that by (cases "k \<le> n"; cases "m \<le> n") (auto simp: min_def)

theorem py_slice_nonneg:
  assumes "0 \<le> lo" "lo \<le> hi"
  shows "py_slice xs lo hi = take (nat hi - nat lo) (drop (nat lo) xs)"
proof -
  have "nat lo \<le> nat hi" using assms by simp
  then show ?thesis using assms
    by (simp add: py_slice_def py_slice_index_nonneg take_diff_drop_clamped)
qed

lemma set_py_slice_subset: "set (py_slice xs lo hi) \<subseteq> set xs"
  by (auto simp: py_slice_def Let_def dest: in_set_takeD in_set_dropD)

lemma distinct_py_slice: "distinct xs \<Longrightarrow> distinct (py_slice xs lo hi)"
  by (simp add: py_slice_def Let_def distinct_take distinct_drop)

lemma splitext_scan_concat:
  "fst (splitext_scan p i d) @ snd (splitext_scan p i d) = p"
proof (induction p i d rule: splitext_scan.induct)
  case (1 p i d)
  show ?case using "1.IH" by (cases "i < d") (auto simp: splitext_scan.simps[of p i d])
qed

theorem py_splitext_concat: "fst (py_splitext p) @ snd (py_splitext p) = p"
  by (simp add: py_splitext_def Let_def splitext_scan_concat)

subsection \<open>\<open>sorted(key=int)\<close>\<close>

lemma int_keys_Inr:
  "int_keys ks = Inr ps \<Longrightarrow> map fst ps = ks \<and> (\<forall>(k, v) \<in> set ps. py_int k = Some v)"
  by (induction ks arbitrary: ps) (auto split: option.splits sum.splits)

lemma int_keys_Inl:
  "int_keys ks = Inl e \<Longrightarrow> \<exists>k \<in> set ks. py_int k = None \<and> e = ValueError k"
  by (induction ks) (auto split: option.splits sum.splits)

lemma int_keys_Inr_iff:
  "(\<exists>ps. int_keys ks = Inr ps) \<longleftrightarrow> (\<forall>k \<in> set ks. py_int k \<noteq> None)"
  by (induction ks) (auto split: option.splits sum.splits)

lemma int_keys_pairs:
  "int_keys ks = Inr ps \<Longrightarrow> ps = map (\<lambda>k. (k, the (py_int k))) ks"
  by (induction ks arbitrary: ps) (auto split: option.splits sum.splits)

lemma int_keys_all:
  "\<forall>k \<in> set ks. py_int k \<noteq> None \<Longrightarrow> int_keys ks = Inr (map (\<lambda>k. (k, the (py_int k))) ks)"
  by (induction ks) auto

theorem py_sorted_int_sorted:
  assumes "py_sorted_int ks = Inr ks'"
  shows "int_sorted ks' \<and> mset ks' = mset ks"
proof -
  obtain ps where ps: "int_keys ks = Inr ps" and ks': "ks' = map fst (sort_key snd ps)"
    using assms by (auto simp: py_sorted_int_def split: sum.splits)
  have ps_eq: "ps = map (\<lambda>k. (k, the (py_int k))) ks"
    using ps by (rule int_keys_pairs)
  have parse: "\<forall>k \<in> set ks. py_int k \<noteq> None"
    using ps int_keys_Inr_iff by blast
  have "mset ks' = image_mset fst (mset (sort_key snd ps))"
    by (simp add: ks')
  also have "\<dots> = mset (map fst ps)"
    by simp
  finally have mset_eq: "mset ks' = mset ks"
    by (simp add: ps_eq comp_def)
  then have "\<forall>k \<in> set ks'. py_int k \<noteq> None"
    using parse by (metis mset_eq_setD)
  then have "int_keys ks' = Inr (map (\<lambda>k. (k, the (py_int k))) ks')"
    by (rule int_keys_all)
  moreover have "map (\<lambda>k. (k, the (py_int k))) ks' = sort_key snd ps"
    using ps_eq ks' by (auto intro!: map_idI)
  ultimately show ?thesis using mset_eq by (simp add: int_sorted_def)
qed

lemma int_sorted_values:
  "int_sorted ks \<Longrightarrow> sorted (map (\<lambda>k. the (py_int k)) ks) \<and> (\<forall>k \<in> set ks. py_int k \<noteq> None)"
proof -
  assume a: "int_sorted ks"
  then obtain ps where ps: "int_keys ks = Inr ps" and s: "sorted (map snd ps)"
    by (auto simp: int_sorted_def split: sum.splits)
  have "ps = map (\<lambda>k. (k, the (py_int k))) ks" using ps by (rule int_keys_pairs)
  then have "sorted (map (\<lambda>k. the (py_int k)) ks)" using s by (simp add: comp_def)
  moreover have "\<forall>k \<in> set ks. py_int k \<noteq> None" using ps int_keys_Inr_iff by blast
  ultimately show ?thesis by blast
qed

lemma sorted_key_unique:
  assumes "sorted (map f xs)" "sorted (map f ys)" "mset xs = mset ys" "inj_on f (set xs)"
  shows "xs = ys"
proof -
  have "mset (map f xs) = mset (map f ys)" using assms(3) by simp
  then have "map f xs = map f ys"
    using assms(1,2) by (metis properties_for_sort)
  moreover have "set ys = set xs" using assms(3) by (metis mset_eq_setD)
  ultimately show ?thesis using assms(4) by (auto dest: map_inj_on)
qed

lemma py_sorted_int_Inr_iff:
  "(\<exists>ks'. py_sorted_int ks = Inr ks') \<longleftrightarrow> (\<forall>k \<in> set ks. py_int k \<noteq> None)"
proof -
  have "(\<exists>ks'. py_sorted_int ks = Inr ks') \<longleftrightarrow> (\<exists>ps. int_keys ks = Inr ps)"
    by (auto simp: py_sorted_int_def split: sum.splits)
  then show ?thesis by (simp add: int_keys_Inr_iff)
qed

lemma py_sorted_int_perm_invariant:
  assumes "mset ks1 = mset ks2" and "inj_on py_int (set ks1)"
    and "\<forall>k \<in> set ks1. py_int k \<noteq> None"
  shows "py_sorted_int ks1 = py_sorted_int ks2"
proof -
  have set_eq: "set ks2 = set ks1" using assms(1) by (metis mset_eq_setD)
  obtain r1 where r1: "py_sorted_int ks1 = Inr r1"
    using assms(3) py_sorted_int_Inr_iff by blast
  obtain r2 where r2: "py_sorted_int ks2 = Inr r2"
    using assms(3) set_eq py_sorted_int_Inr_iff by metis
  have s1: "int_sorted r1 \<and> mset r1 = mset ks1" using r1 by (rule py_sorted_int_sorted)
  have s2: "int_sorted r2 \<and> mset r2 = mset ks2" using r2 by (rule py_sorted_int_sorted)
  have m: "mset r1 = mset r2" using s1 s2 assms(1) by simp
  have set_r1: "set r1 = set ks1" using s1 by (metis mset_eq_setD)
  have inj: "inj_on (\<lambda>k. the (py_int k)) (set r1)"
  proof (rule inj_onI)
    fix x y assume "x \<in> set r1" "y \<in> set r1" "the (py_int x) = the (py_int y)"
    moreover have "py_int x \<noteq> None" "py_int y \<noteq> None" using calculation(1,2) assms(3) set_r1 by auto
    ultimately have "py_int x = py_int y" by auto
    then show "x = y" using assms(2) set_r1 \<open>x \<in> set r1\<close> \<open>y \<in> set r1\<close> by (auto dest: inj_onD)
  qed
  have "r1 = r2"
    using int_sorted_values [of r1] int_sorted_values [of r2] s1 s2 m inj
    by (intro sorted_key_unique [where f = "\<lambda>k. the (py_int k)"]) auto
  then show ?thesis using r1 r2 by simp
qed

lemma int_sorted_iff:
  "int_sorted ks \<longleftrightarrow> (\<forall>k \<in> set ks. py_int k \<noteq> None) \<and> sorted (map (\<lambda>k. the (py_int k)) ks)"
proof
  assume "int_sorted ks"
  then show "(\<forall>k \<in> set ks. py_int k \<noteq> None) \<and> sorted (map (\<lambda>k. the (py_int k)) ks)"
    using int_sorted_values by blast
next
  assume a: "(\<forall>k \<in> set ks. py_int k \<noteq> None) \<and> sorted (map (\<lambda>k. the (py_int k)) ks)"
  then have "int_keys ks = Inr (map (\<lambda>k. (k, the (py_int k))) ks)"
    using int_keys_all by blast
  with a show "int_sorted ks" by (simp add: int_sorted_def comp_def)
qed

lemma int_sorted_nths: "int_sorted ks \<Longrightarrow> int_sorted (nths ks I)"
  by (auto simp: int_sorted_iff nths_map [symmetric] sorted_nths dest: in_set_nthsD)

subsection \<open>Joining and splitting strings\<close>

lemma py_split_nonempty: "py_split c s \<noteq> []"
  by (induction s) (auto split: list.splits)

lemma py_split_append_sep:
  "c \<notin> set x \<Longrightarrow> py_split c (x @ c # rest) = x # py_split c rest"
proof (induction x)
  case Nil
  then show ?case by simp
next
  case (Cons a x)
  then show ?case by (auto split: list.splits)
qed

lemma py_split_no_sep: "c \<notin> set x \<Longrightarrow> py_split c x = [x]"
  by (induction x) auto

text \<open>Splitting a joined list at the separator gives the list back, when no element
  contains the separator and the list is not empty.\<close>

lemma py_split_join:
  "xs \<noteq> [] \<Longrightarrow> \<forall>x \<in> set xs. c \<notin> set x \<Longrightarrow> py_split c (py_str_join [c] xs) = xs"
proof (induction "[c]" xs rule: py_str_join.induct)
  case 1
  then show ?case by simp
next
  case (2 x)
  then show ?case by (simp add: py_split_no_sep)
next
  case (3 x y ys)
  then show ?case by (simp add: py_split_append_sep)
qed

subsection \<open>Characters of integer literals and file names\<close>

lemma parse_digits_chars:
  "parse_digits acc prev s = Some v \<Longrightarrow> \<forall>c \<in> set s. py_isdigit c \<or> c = CHR ''_''"
  by (induction acc prev s rule: parse_digits.induct) (auto split: if_splits)

lemma strip_chars: "c \<in> set s \<Longrightarrow> py_isspace c \<or> c \<in> set (py_strip s)"
proof -
  assume c: "c \<in> set s"
  let ?d = "dropWhile py_isspace s"
  have "c \<in> set (takeWhile py_isspace s) \<or> c \<in> set ?d"
    using c takeWhile_dropWhile_id [of py_isspace s] by (metis Un_iff set_append)
  then have "py_isspace c \<or> c \<in> set (rev ?d)" by (auto dest: set_takeWhileD)
  then have "py_isspace c \<or> c \<in> set (takeWhile py_isspace (rev ?d)) \<or> c \<in> set (dropWhile py_isspace (rev ?d))"
    using takeWhile_dropWhile_id [of py_isspace "rev ?d"] by (metis Un_iff set_append)
  then show ?thesis by (auto simp: py_strip_def dest: set_takeWhileD)
qed

lemma py_int_chars:
  assumes "py_int k = Some v"
  shows "k \<noteq> [] \<and> CHR ''.'' \<notin> set k \<and> CHR ''/'' \<notin> set k"
proof -
  obtain c r where s: "py_strip k = c # r"
    using assms by (cases "py_strip k") (auto simp: py_int_def)
  have "\<forall>x \<in> set (py_strip k). py_isdigit x \<or> x = CHR ''_'' \<or> x = CHR ''+'' \<or> x = CHR ''-''"
    using assms s parse_digits_chars [of 0 False r v] parse_digits_chars [of 0 False "c # r" v]
    by (auto simp: py_int_def split: if_splits dest: parse_digits_chars)
  moreover have "\<not> py_isspace CHR ''.''" "\<not> py_isspace CHR ''/''" "\<not> py_isdigit CHR ''.''" "\<not> py_isdigit CHR ''/''"
    by (simp_all add: py_isspace_def py_isdigit_def)
  ultimately have "CHR ''.'' \<notin> set k \<and> CHR ''/'' \<notin> set k" using strip_chars by fastforce
  moreover have "k \<noteq> []" using s by (auto simp: py_strip_def)
  ultimately show ?thesis by blast
qed

lemma rfind_from_append:
  "rfind_from c (xs @ ys) i r = rfind_from c ys (i + length xs) (rfind_from c xs i r)"
  by (induction xs arbitrary: i r) auto

lemma rfind_from_absent: "c \<notin> set xs \<Longrightarrow> rfind_from c xs i r = r"
  by (induction xs arbitrary: i) auto

lemma py_splitext_ext:
  assumes "k \<noteq> []" "CHR ''.'' \<notin> set k" "CHR ''/'' \<notin> set k" "CHR ''.'' \<notin> set e" "CHR ''/'' \<notin> set e"
  shows "py_splitext (k @ CHR ''.'' # e) = (k, CHR ''.'' # e)"
proof -
  have s: "py_rfind (CHR ''/'') (k @ CHR ''.'' # e) = -1"
    using assms by (simp add: py_rfind_def rfind_from_absent)
  have d: "py_rfind (CHR ''.'') (k @ CHR ''.'' # e) = int (length k)"
    using assms by (simp add: py_rfind_def rfind_from_append rfind_from_absent)
  have "(k @ CHR ''.'' # e) ! 0 \<noteq> CHR ''.''"
    using assms(1,2) by (cases k) auto
  then have "splitext_scan (k @ CHR ''.'' # e) 0 (length k) = (k, CHR ''.'' # e)"
    using assms(1) by (simp add: splitext_scan.simps)
  then show ?thesis using s d assms(1) by (simp add: py_splitext_def)
qed

lemma py_lower_append: "py_lower (xs @ ys) = py_lower xs @ py_lower ys"
  by (simp add: py_lower_def)


subsection \<open>Stability of the sort\<close>

lemma py_sorted_int_stable:
  assumes "py_sorted_int xs = Inr ks"
  shows "filter (\<lambda>k. py_int k = Some v) ks = filter (\<lambda>k. py_int k = Some v) xs"
proof -
  obtain ps where ps: "int_keys xs = Inr ps" and ks: "ks = map fst (sort_key snd ps)"
    using assms by (auto simp: py_sorted_int_def split: sum.splits)
  have pv: "\<forall>p \<in> set ps. py_int (fst p) = Some (snd p)" using int_keys_Inr [OF ps] by auto
  have "filter (\<lambda>k. py_int k = Some v) ks = map fst (filter (\<lambda>p. py_int (fst p) = Some v) (sort_key snd ps))"
    by (simp add: ks filter_map comp_def)
  also have "filter (\<lambda>p. py_int (fst p) = Some v) (sort_key snd ps) = filter (\<lambda>p. snd p = v) (sort_key snd ps)"
    using pv by (intro filter_cong) auto
  also have "\<dots> = filter (\<lambda>p. snd p = v) ps" by (rule sort_key_stable)
  also have "\<dots> = filter (\<lambda>p. py_int (fst p) = Some v) ps"
    using pv by (intro filter_cong) auto
  finally have "filter (\<lambda>k. py_int k = Some v) ks = map fst (filter (\<lambda>p. py_int (fst p) = Some v) ps)" .
  moreover have "map fst (filter (\<lambda>p. py_int (fst p) = Some v) ps) = filter (\<lambda>k. py_int k = Some v) (map fst ps)"
    by (simp add: filter_map comp_def)
  ultimately show ?thesis using int_keys_Inr [OF ps] by simp
qed

subsection \<open>Paths and separators\<close>

lemma concat_split_no_sep: "\<forall>x \<in> set xs. c \<notin> set x \<Longrightarrow> concat (map (py_split c) xs) = xs"
  by (induction xs) (simp_all add: py_split_no_sep)

lemma count_list_le_length: "count_list xs x \<le> length xs"
  by (induction xs) auto

lemma py_join_slash: "a \<noteq> [] \<Longrightarrow> take 1 b \<noteq> ''/'' \<Longrightarrow> CHR ''/'' \<in> set (py_join a b)"
proof (cases "last a = CHR ''/''")
  case True
  assume "a \<noteq> []" "take 1 b \<noteq> ''/''"
  then show ?thesis using True last_in_set [of a] by (simp add: py_join_def)
next
  case False
  assume "a \<noteq> []" "take 1 b \<noteq> ''/''"
  then show ?thesis using False by (simp add: py_join_def)
qed

lemma py_join_abs: "take 1 a = ''/'' \<Longrightarrow> take 1 b \<noteq> ''/'' \<Longrightarrow> take 1 (py_join a b) = ''/''"
  by (cases a) (auto simp: py_join_def)

lemma set_py_join: "set (py_join a b) \<subseteq> set a \<union> set b \<union> {CHR ''/''}"
  by (auto simp: py_join_def)

lemma py_join_prefix: "take 1 b \<noteq> ''/'' \<Longrightarrow> set a \<subseteq> set (py_join a b)"
  by (auto simp: py_join_def)

lemma py_join_take1: "a \<noteq> [] \<Longrightarrow> take 1 b \<noteq> ''/'' \<Longrightarrow> take 1 (py_join a b) = take 1 a"
  by (cases a) (auto simp: py_join_def)

end
