(* ===== verification/Discovery.thy ===== *)
theory Discovery
  imports PyLib
begin

text \<open>
  Segment discovery, lines 15--19 of \<open>create_video_with_ffmpeg\<close>: the directory
  listing is split into images (\<open>*.jpg\<close>, any case) and audios (\<open>*.mp3\<close>), each a
  dictionary from the file's stem to its joined path; the keys present in both are sorted
  by their integer value. The dictionaries are association lists in insertion order
  (a later file with the same stem overwrites the value in place, as a Python \<open>dict\<close>
  does). Python iterates the set intersection in an order that depends on string hashes;
  the model enumerates it in the images' order, and the lemma
  \<open>sorted_keys_enumeration_independent\<close> shows that the sorted result does not depend on
  the enumeration when the keys have distinct integer values.
\<close>

section \<open>Definitions\<close>

definition is_jpg :: "string \<Rightarrow> bool" where
  "is_jpg f \<longleftrightarrow> py_endswith (py_lower f) ''.jpg''"

definition is_mp3 :: "string \<Rightarrow> bool" where
  "is_mp3 f \<longleftrightarrow> py_endswith (py_lower f) ''.mp3''"

definition stem :: "string \<Rightarrow> key" where
  "stem f = fst (py_splitext f)"

text \<open>\<open>{splitext(f)[0]: join(folder, f) for f in files if P(f)}\<close>, left to right.\<close>

fun index_files :: "path \<Rightarrow> (string \<Rightarrow> bool) \<Rightarrow> string list \<Rightarrow> (key \<times> path) list \<Rightarrow> (key \<times> path) list" where
  "index_files folder P [] d = d"
| "index_files folder P (f # fs) d =
     index_files folder P fs (if P f then AList.update (stem f) (py_join folder f) d else d)"

definition images_of :: "path \<Rightarrow> string list \<Rightarrow> (key \<times> path) list" where
  "images_of folder files = index_files folder is_jpg files []"

definition audios_of :: "path \<Rightarrow> string list \<Rightarrow> (key \<times> path) list" where
  "audios_of folder files = index_files folder is_mp3 files []"

text \<open>\<open>set(images.keys()) & set(audios.keys())\<close>, enumerated in the images' order.\<close>

definition common_keys :: "(key \<times> path) list \<Rightarrow> (key \<times> path) list \<Rightarrow> key list" where
  "common_keys imgs auds = filter (\<lambda>k. k \<in> dict_keys auds) (map fst imgs)"

text \<open>\<open>keys = sorted(set(images.keys()) & set(audios.keys()), key=lambda x: int(x))\<close>\<close>

definition sorted_keys :: "(key \<times> path) list \<Rightarrow> (key \<times> path) list \<Rightarrow> py_error + key list" where
  "sorted_keys imgs auds = py_sorted_int (common_keys imgs auds)"

text \<open>Lines 15--19 together: the two dictionaries and the sorted matched keys.\<close>

definition discover :: "path \<Rightarrow> string list \<Rightarrow>
    py_error + (key \<times> path) list \<times> (key \<times> path) list \<times> key list" where
  "discover folder files =
     (let imgs = images_of folder files; auds = audios_of folder files in
      case sorted_keys imgs auds of Inl e \<Rightarrow> Inl e | Inr ks \<Rightarrow> Inr (imgs, auds, ks))"

declare discover_def [model_defs]

declare is_jpg_def [model_defs] is_mp3_def [model_defs] stem_def [model_defs]
  images_of_def [model_defs] audios_of_def [model_defs] common_keys_def [model_defs]
  sorted_keys_def [model_defs]

section \<open>Properties\<close>

subsection \<open>The dictionaries\<close>

lemma index_files_keys:
  "dict_keys (index_files folder P files d) =
     dict_keys d \<union> {stem f | f. f \<in> set files \<and> P f}"
  by (induction files arbitrary: d) auto

lemma index_files_distinct:
  "distinct (map fst d) \<Longrightarrow> distinct (map fst (index_files folder P files d))"
  by (induction files arbitrary: d) (auto simp: AList.distinct_update)

lemma index_files_value:
  "map_of (index_files folder P files d) k = Some p \<Longrightarrow>
     map_of d k = Some p \<or> (\<exists>f \<in> set files. P f \<and> stem f = k \<and> p = py_join folder f)"
  by (induction files arbitrary: d) (fastforce split: if_splits)+

lemma index_files_last:
  "map_of (index_files folder P files d) k =
     (case filter (\<lambda>f. P f \<and> stem f = k) files of [] \<Rightarrow> map_of d k
      | fs \<Rightarrow> Some (py_join folder (last fs)))"
proof (induction files arbitrary: d)
  case Nil
  then show ?case by simp
next
  case (Cons f files)
  show ?case
    by (cases "filter (\<lambda>f. P f \<and> stem f = k) files") (auto simp: Cons.IH update_conv')
qed

lemma images_of_keys:
  "dict_keys (images_of folder files) = {stem f | f. f \<in> set files \<and> is_jpg f}"
  by (simp add: images_of_def index_files_keys)

lemma audios_of_keys:
  "dict_keys (audios_of folder files) = {stem f | f. f \<in> set files \<and> is_mp3 f}"
  by (simp add: audios_of_def index_files_keys)

lemma images_of_value:
  "map_of (images_of folder files) k = Some p \<Longrightarrow>
     \<exists>f \<in> set files. is_jpg f \<and> stem f = k \<and> p = py_join folder f"
  using index_files_value [of folder is_jpg files "[]" k p] by (simp add: images_of_def)

lemma audios_of_value:
  "map_of (audios_of folder files) k = Some p \<Longrightarrow>
     \<exists>f \<in> set files. is_mp3 f \<and> stem f = k \<and> p = py_join folder f"
  using index_files_value [of folder is_mp3 files "[]" k p] by (simp add: audios_of_def)

lemma distinct_images_of: "distinct (map fst (images_of folder files))"
  by (simp add: images_of_def index_files_distinct)

subsection \<open>The matched keys\<close>

lemma set_common_keys:
  "set (common_keys imgs auds) = dict_keys imgs \<inter> dict_keys auds"
  by (auto simp: common_keys_def)

lemma distinct_common_keys:
  "distinct (map fst imgs) \<Longrightarrow> distinct (common_keys imgs auds)"
  by (simp add: common_keys_def)

lemma sorted_keys_Inr:
  "sorted_keys imgs auds = Inr ks \<Longrightarrow>
     int_sorted ks \<and> mset ks = mset (common_keys imgs auds)"
  unfolding sorted_keys_def by (rule py_sorted_int_sorted)

lemma sorted_keys_Inl:
  "sorted_keys imgs auds = Inl e \<Longrightarrow>
     \<exists>k \<in> dict_keys imgs \<inter> dict_keys auds. py_int k = None \<and> e = ValueError k"
  using int_keys_Inl [of "common_keys imgs auds" e]
  by (auto simp: sorted_keys_def py_sorted_int_def set_common_keys split: sum.splits)

lemma discover_Inr:
  assumes "discover folder files = Inr (imgs, auds, ks)"
  shows "imgs = images_of folder files" and "auds = audios_of folder files"
    and "sorted_keys imgs auds = Inr ks"
  using assms by (auto simp: discover_def Let_def split: sum.splits)

subsection \<open>What discovery returns\<close>

lemma discover_sorted_distinct:
  assumes "discover folder files = Inr (imgs, auds, ks)"
  shows "set ks = {stem f | f. f \<in> set files \<and> is_jpg f} \<inter> {stem f | f. f \<in> set files \<and> is_mp3 f}
     \<and> distinct ks \<and> int_sorted ks"
proof -
  have eqs: "imgs = images_of folder files" "auds = audios_of folder files"
    and sk: "sorted_keys imgs auds = Inr ks"
    using discover_Inr [OF assms] by blast+
  have s: "int_sorted ks \<and> mset ks = mset (common_keys imgs auds)"
    using sk by (rule sorted_keys_Inr)
  then have "set ks = set (common_keys imgs auds)" by (metis mset_eq_setD)
  then have set_ks: "set ks = {stem f | f. f \<in> set files \<and> is_jpg f} \<inter> {stem f | f. f \<in> set files \<and> is_mp3 f}"
    using eqs by (simp only: set_common_keys images_of_keys audios_of_keys)
  have "distinct (common_keys imgs auds)"
    using eqs by (simp add: distinct_common_keys distinct_images_of)
  then have "distinct ks"
    using s by (metis mset_eq_imp_distinct_iff)
  with set_ks s show ?thesis by blast
qed

text \<open>C1: the keys are exactly the stems that have both an image and an audio file,
  without repetition, in ascending numeric order, and each key's image and audio path is
  the folder joined with a listed file of that stem.\<close>

theorem discover_keys:
  assumes "discover folder files = Inr (imgs, auds, ks)"
  shows "set ks = {stem f | f. f \<in> set files \<and> is_jpg f} \<inter> {stem f | f. f \<in> set files \<and> is_mp3 f}
     \<and> distinct ks \<and> int_sorted ks
     \<and> (\<forall>k \<in> set ks. \<exists>fi fa. fi \<in> set files \<and> is_jpg fi \<and> stem fi = k \<and> fa \<in> set files \<and> is_mp3 fa
          \<and> stem fa = k \<and> map_of imgs k = Some (py_join folder fi) \<and> map_of auds k = Some (py_join folder fa))"
proof -
  have sd: "set ks = {stem f | f. f \<in> set files \<and> is_jpg f} \<inter> {stem f | f. f \<in> set files \<and> is_mp3 f}
     \<and> distinct ks \<and> int_sorted ks"
    using assms by (rule discover_sorted_distinct)
  have eqs: "imgs = images_of folder files" "auds = audios_of folder files"
    using discover_Inr [OF assms] by blast+
  have "\<exists>fi fa. fi \<in> set files \<and> is_jpg fi \<and> stem fi = k \<and> fa \<in> set files \<and> is_mp3 fa
          \<and> stem fa = k \<and> map_of imgs k = Some (py_join folder fi) \<and> map_of auds k = Some (py_join folder fa)"
    if k: "k \<in> set ks" for k
  proof -
    have "k \<in> dict_keys imgs" "k \<in> dict_keys auds"
      using k sd eqs by (auto simp: images_of_keys audios_of_keys)
    then obtain pi pa where pi: "map_of imgs k = Some pi" and pa: "map_of auds k = Some pa"
      using keys_map_of_Some by metis
    obtain fi where "fi \<in> set files" "is_jpg fi" "stem fi = k" "pi = py_join folder fi"
      using images_of_value [of folder files k pi] pi eqs by blast
    moreover obtain fa where "fa \<in> set files" "is_mp3 fa" "stem fa = k" "pa = py_join folder fa"
      using audios_of_value [of folder files k pa] pa eqs by blast
    ultimately show ?thesis using pi pa by blast
  qed
  then show ?thesis using sd by blast
qed

theorem discover_keys_witness:
  "discover ''/in'' [''2.mp3'', ''1.jpg'', ''10.JPG'', ''x.txt'', ''2.jpg'', ''1.mp3'', ''10.mp3'', ''3.mp3''] =
     Inr ([(''1'', ''/in/1.jpg''), (''10'', ''/in/10.JPG''), (''2'', ''/in/2.jpg'')],
          [(''2'', ''/in/2.mp3''), (''1'', ''/in/1.mp3''), (''10'', ''/in/10.mp3''), (''3'', ''/in/3.mp3'')],
          [''1'', ''2'', ''10''])
   \<and> distinct [''1'', ''2'', ''10''] \<and> int_sorted [''1'', ''2'', ''10'']"
proof -
  have h: "discover ''/in'' [''2.mp3'', ''1.jpg'', ''10.JPG'', ''x.txt'', ''2.jpg'', ''1.mp3'', ''10.mp3'', ''3.mp3''] =
     Inr ([(''1'', ''/in/1.jpg''), (''10'', ''/in/10.JPG''), (''2'', ''/in/2.jpg'')],
          [(''2'', ''/in/2.mp3''), (''1'', ''/in/1.mp3''), (''10'', ''/in/10.mp3''), (''3'', ''/in/3.mp3'')],
          [''1'', ''2'', ''10''])"
    by (simp add: model_defs eval_simps)
  show ?thesis using h discover_keys [OF h] by blast
qed

subsection \<open>Failure of discovery\<close>

text \<open>C20: discovery fails exactly when some stem that has both an image and an audio file
  is not an integer literal; the error names such a stem.\<close>

theorem discover_error_iff:
  "(\<exists>e. discover folder files = Inl e) \<longleftrightarrow>
     (\<exists>k \<in> {stem f | f. f \<in> set files \<and> is_jpg f} \<inter> {stem f | f. f \<in> set files \<and> is_mp3 f}.
        py_int k = None)"
proof -
  let ?imgs = "images_of folder files" and ?auds = "audios_of folder files"
  have "(\<exists>e. discover folder files = Inl e) \<longleftrightarrow> (\<exists>e. sorted_keys ?imgs ?auds = Inl e)"
    by (auto simp: discover_def Let_def split: sum.splits)
  also have "\<dots> \<longleftrightarrow> \<not> (\<exists>ks. py_sorted_int (common_keys ?imgs ?auds) = Inr ks)"
    by (cases "sorted_keys ?imgs ?auds") (auto simp: sorted_keys_def)
  also have "\<dots> \<longleftrightarrow> (\<exists>k \<in> set (common_keys ?imgs ?auds). py_int k = None)"
    by (simp add: py_sorted_int_Inr_iff)
  finally show ?thesis by (simp add: set_common_keys images_of_keys audios_of_keys)
qed

theorem discover_error_iff_witness:
  "(\<exists>e. discover ''/in'' [''a.jpg'', ''a.mp3''] = Inl e)"
proof -
  have "\<exists>k \<in> {stem f | f. f \<in> set [''a.jpg'', ''a.mp3''] \<and> is_jpg f} \<inter>
      {stem f | f. f \<in> set [''a.jpg'', ''a.mp3''] \<and> is_mp3 f}. py_int k = None"
  proof
    show "py_int ''a'' = None" by (simp add: model_defs)
    have "stem ''a.jpg'' = ''a''" "stem ''a.mp3'' = ''a''" "is_jpg ''a.jpg''" "is_mp3 ''a.mp3''"
      by (simp_all add: model_defs eval_simps)
    then show "''a'' \<in> {stem f | f. f \<in> set [''a.jpg'', ''a.mp3''] \<and> is_jpg f} \<inter>
      {stem f | f. f \<in> set [''a.jpg'', ''a.mp3''] \<and> is_mp3 f}" by force
  qed
  then show ?thesis using discover_error_iff by blast
qed

subsection \<open>The enumeration of the key intersection\<close>

text \<open>C17: Python enumerates \<open>set(images) & set(audios)\<close> in an order fixed by string
  hashes. When the matched keys have distinct integer values, every enumeration of the
  intersection sorts to the same list, so the model's choice of the images' order is
  immaterial.\<close>

theorem sorted_keys_enumeration_independent:
  assumes "distinct ks" "set ks = dict_keys imgs \<inter> dict_keys auds" "distinct (map fst imgs)"
    and "inj_on py_int (set ks)" "\<forall>k \<in> set ks. py_int k \<noteq> None"
  shows "py_sorted_int ks = sorted_keys imgs auds"
proof -
  have "mset ks = mset (common_keys imgs auds)"
    using assms(1,2,3) by (simp add: set_eq_iff_mset_eq_distinct [symmetric] set_common_keys distinct_common_keys)
  then show ?thesis
    unfolding sorted_keys_def using assms(4,5) by (rule py_sorted_int_perm_invariant)
qed

theorem sorted_keys_enumeration_independent_witness:
  "py_sorted_int [''2'', ''10'', ''1''] = sorted_keys [(''1'', ''/in/1.jpg''), (''10'', ''/in/10.jpg''), (''2'', ''/in/2.jpg'')]
      [(''2'', ''/in/2.mp3''), (''1'', ''/in/1.mp3''), (''10'', ''/in/10.mp3'')]"
proof (rule sorted_keys_enumeration_independent)
  show "inj_on py_int (set [''2'', ''10'', ''1''])"
    by (simp add: model_defs)
qed (simp_all add: model_defs insert_commute)



subsection \<open>The naming convention\<close>

lemma named_jpg: "is_jpg (k @ ''.jpg'') \<and> \<not> is_mp3 (k @ ''.jpg'')"
  by (simp add: is_jpg_def is_mp3_def py_endswith_def py_lower_append py_lower_def py_lower_chr_def eval_simps)

lemma named_mp3: "is_mp3 (k @ ''.mp3'') \<and> \<not> is_jpg (k @ ''.mp3'')"
  by (simp add: is_jpg_def is_mp3_def py_endswith_def py_lower_append py_lower_def py_lower_chr_def eval_simps)

lemma stem_named:
  "py_int k = Some v \<Longrightarrow> stem (k @ ''.jpg'') = k \<and> stem (k @ ''.mp3'') = k"
  using py_int_chars [of k v] py_splitext_ext [of k "''jpg''"] py_splitext_ext [of k "''mp3''"]
  by (simp add: stem_def)

lemma named_stems:
  assumes "\<forall>k \<in> set ks. py_int k \<noteq> None"
    and "set files = (\<lambda>k. k @ ''.jpg'') ` set ks \<union> (\<lambda>k. k @ ''.mp3'') ` set ks"
  shows "{stem f | f. f \<in> set files \<and> is_jpg f} = set ks"
    and "{stem f | f. f \<in> set files \<and> is_mp3 f} = set ks"
proof -
  have st: "stem (k @ ''.jpg'') = k \<and> stem (k @ ''.mp3'') = k" if "k \<in> set ks" for k
    using assms(1) that stem_named by blast
  have jpg: "f \<in> set files \<and> is_jpg f \<longleftrightarrow> (\<exists>k \<in> set ks. f = k @ ''.jpg'')" for f
    using assms(2) named_jpg named_mp3 by auto
  have mp3: "f \<in> set files \<and> is_mp3 f \<longleftrightarrow> (\<exists>k \<in> set ks. f = k @ ''.mp3'')" for f
    using assms(2) named_jpg named_mp3 by auto
  show "{stem f | f. f \<in> set files \<and> is_jpg f} = set ks"
    unfolding jpg using st by (auto intro!: exI)
  show "{stem f | f. f \<in> set files \<and> is_mp3 f} = set ks"
    unfolding mp3 using st by (auto intro!: exI)
qed

text \<open>C27: the naming convention round trip: whatever order the listing gives, files
  named \<open>N.jpg\<close> and \<open>N.mp3\<close> for integer literals \<open>N\<close> are discovered as exactly the
  keys \<open>N\<close>, distinct and in numeric order.\<close>

theorem discover_named_files:
  assumes "\<forall>k \<in> set ks. py_int k \<noteq> None"
    and "set files = (\<lambda>k. k @ ''.jpg'') ` set ks \<union> (\<lambda>k. k @ ''.mp3'') ` set ks"
  shows "\<exists>imgs auds keys. discover folder files = Inr (imgs, auds, keys)
     \<and> set keys = set ks \<and> distinct keys \<and> int_sorted keys"
proof (cases "discover folder files")
  case (Inl e)
  have "sorted_keys (images_of folder files) (audios_of folder files) = Inl e"
    using Inl by (simp add: discover_def Let_def split: sum.splits)
  then obtain k where k: "k \<in> dict_keys (images_of folder files)" "py_int k = None"
    using sorted_keys_Inl by blast
  have "dict_keys (images_of folder files) = set ks"
    unfolding images_of_keys by (rule named_stems(1) [OF assms])
  then show ?thesis using assms(1) k by auto
next
  case (Inr r)
  then obtain imgs auds keys where d: "discover folder files = Inr (imgs, auds, keys)"
    by (cases r) auto
  then show ?thesis using discover_sorted_distinct [OF d] named_stems [OF assms] by auto
qed

theorem discover_named_files_witness:
  "\<exists>imgs auds keys. discover ''/in'' [''2.mp3'', ''10.jpg'', ''2.jpg'', ''10.mp3''] = Inr (imgs, auds, keys)
     \<and> set keys = set [''10'', ''2''] \<and> distinct keys \<and> int_sorted keys"
proof -
  have "\<forall>k \<in> set [''10'', ''2'']. py_int k \<noteq> None" by (simp add: model_defs)
  moreover have "set [''2.mp3'', ''10.jpg'', ''2.jpg'', ''10.mp3''] =
      (\<lambda>k. k @ ''.jpg'') ` set [''10'', ''2''] \<union> (\<lambda>k. k @ ''.mp3'') ` set [''10'', ''2'']"
    by auto
  ultimately show ?thesis by (rule discover_named_files)
qed


text \<open>C30: the dictionary comprehension of line 16 keeps, for each stem, the last listed
  \<open>.jpg\<close> file of that stem (any case of the extension): \<open>1.jpg\<close> listed before \<open>1.JPG\<close>
  gives the image \<open>1.JPG\<close>; a stem with no image file has no entry. Line 17 does the
  same for the \<open>.mp3\<close> files.\<close>

theorem dicts_keep_last_listed:
  "map_of (images_of folder files) k =
     (case filter (\<lambda>f. is_jpg f \<and> stem f = k) files of [] \<Rightarrow> None
      | fs \<Rightarrow> Some (py_join folder (last fs)))
   \<and> map_of (audios_of folder files) k =
     (case filter (\<lambda>f. is_mp3 f \<and> stem f = k) files of [] \<Rightarrow> None
      | fs \<Rightarrow> Some (py_join folder (last fs)))"
  using index_files_last [of folder is_jpg files "[]" k] index_files_last [of folder is_mp3 files "[]" k]
  by (simp add: images_of_def audios_of_def split: list.split)

end
