(* ===== verification/Effects.thy ===== *)
theory Effects
  imports PyLib
begin

text \<open>
  Effect assignment, lines 23--28 of \<open>create_video_with_ffmpeg\<close>: the matched keys are
  copied and shuffled, and three consecutive slices of the shuffled list become the zoom,
  pan and shake groups; and the guard chain of lines 42--87 that picks the effect a
  segment gets from the groups and the audio's duration. The counts come from the GUI as
  Python integers, so they are \<open>int\<close> here and negative counts are modelled with Python's
  slice semantics.
\<close>

section \<open>Definitions\<close>

record groups =
  zoom_keys :: "key set"
  pan_keys :: "key set"
  shake_keys :: "key set"

text \<open>Lines 26--28, on the shuffled list \<open>available_keys\<close>.\<close>

definition assign_effects :: "key list \<Rightarrow> int \<Rightarrow> int \<Rightarrow> int \<Rightarrow> groups" where
  "assign_effects av zoom_count pan_count shake_count =
     \<lparr>zoom_keys = set (py_slice av 0 zoom_count),
      pan_keys = set (py_slice av zoom_count (zoom_count + pan_count)),
      shake_keys = set (py_slice av (zoom_count + pan_count)
                          (zoom_count + pan_count + shake_count))\<rparr>"

text \<open>Lines 23--28: copy, shuffle with the random source \<open>rb\<close>, slice.\<close>

definition draw_groups :: "(nat \<Rightarrow> nat) \<Rightarrow> key list \<Rightarrow> int \<Rightarrow> int \<Rightarrow> int \<Rightarrow> groups" where
  "draw_groups rb keys zoom_count pan_count shake_count =
     (let available_keys = py_shuffle rb keys
      in assign_effects available_keys zoom_count pan_count shake_count)"

datatype effect = Zoom | Pan | Shake | NoEffect

text \<open>
  Lines 42, 57, 72 and 87: zoom needs a duration above 6 seconds, then pan, then shake are
  tried, and a segment none of them took gets no effect.
\<close>

definition choose_effect :: "groups \<Rightarrow> key \<Rightarrow> real \<Rightarrow> effect" where
  "choose_effect g key duration =
     (if key \<in> zoom_keys g \<and> duration > 6 then Zoom
      else if key \<in> pan_keys g then Pan
      else if key \<in> shake_keys g then Shake
      else NoEffect)"

text \<open>The groups share no key.\<close>

definition groups_disjoint :: "groups \<Rightarrow> bool" where
  "groups_disjoint g \<longleftrightarrow>
     zoom_keys g \<inter> pan_keys g = {} \<and> zoom_keys g \<inter> shake_keys g = {} \<and>
     pan_keys g \<inter> shake_keys g = {}"

declare assign_effects_def [model_defs] draw_groups_def [model_defs]
  choose_effect_def [model_defs] groups_disjoint_def [model_defs]

section \<open>Properties\<close>

subsection \<open>The slices with non-negative counts\<close>

lemma assign_effects_nonneg:
  assumes "0 \<le> z" "0 \<le> p" "0 \<le> s"
  shows "assign_effects av z p s =
     \<lparr>zoom_keys = set (take (nat z) av),
      pan_keys = set (take (nat p) (drop (nat z) av)),
      shake_keys = set (take (nat s) (drop (nat z + nat p) av))\<rparr>"
proof -
  have "py_slice av 0 z = take (nat z) av"
    using assms by (simp add: py_slice_nonneg)
  moreover have "py_slice av z (z + p) = take (nat p) (drop (nat z) av)"
    using assms by (simp add: py_slice_nonneg nat_add_distrib)
  moreover have "py_slice av (z + p) (z + p + s) = take (nat s) (drop (nat z + nat p) av)"
    using assms by (simp add: py_slice_nonneg nat_add_distrib)
  ultimately show ?thesis by (simp add: assign_effects_def)
qed

lemma groups_subset:
  "zoom_keys (assign_effects av z p s) \<subseteq> set av \<and> pan_keys (assign_effects av z p s) \<subseteq> set av
   \<and> shake_keys (assign_effects av z p s) \<subseteq> set av"
  by (simp add: assign_effects_def set_py_slice_subset)

lemma assign_effects_disjoint:
  assumes "distinct av" "0 \<le> z" "0 \<le> p" "0 \<le> s"
  shows "groups_disjoint (assign_effects av z p s)"
proof -
  let ?Z = "set (take (nat z) av)"
    and ?P = "set (take (nat p) (drop (nat z) av))"
    and ?S = "set (take (nat s) (drop (nat z + nat p) av))"
  have "?P \<subseteq> set (drop (nat z) av)" and P2: "?P \<subseteq> set (take (nat z + nat p) av)"
    by (rule take_drop_subset_drop, rule take_drop_subset_take)
  moreover have "?S \<subseteq> set (drop (nat z + nat p) av)"
    by (rule take_drop_subset_drop)
  moreover have "?Z \<inter> set (drop (nat z) av) = {}"
    and "?Z \<inter> set (drop (nat z + nat p) av) = {}"
    and "set (take (nat z + nat p) av) \<inter> set (drop (nat z + nat p) av) = {}"
    using assms(1) by (auto intro!: distinct_take_drop_disjoint)
  ultimately have "?Z \<inter> ?P = {} \<and> ?Z \<inter> ?S = {} \<and> ?P \<inter> ?S = {}"
    by blast
  then show ?thesis using assms by (simp add: assign_effects_nonneg groups_disjoint_def)
qed

lemma assign_effects_card:
  assumes "distinct av" "0 \<le> z" "0 \<le> p" "0 \<le> s"
  shows "card (zoom_keys (assign_effects av z p s)) = min (nat z) (length av)
    \<and> card (pan_keys (assign_effects av z p s)) = min (nat p) (length av - nat z)
    \<and> card (shake_keys (assign_effects av z p s)) = min (nat s) (length av - (nat z + nat p))"
proof -
  have "card (set (take (nat z) av)) = min (nat z) (length av)"
    using card_set_take_drop [OF assms(1), of "nat z" 0] by simp
  moreover have "card (set (take (nat p) (drop (nat z) av))) = min (nat p) (length av - nat z)"
    using card_set_take_drop [OF assms(1)] by simp
  moreover have "card (set (take (nat s) (drop (nat z + nat p) av))) =
      min (nat s) (length av - (nat z + nat p))"
    using card_set_take_drop [OF assms(1)] by simp
  ultimately show ?thesis using assms by (simp add: assign_effects_nonneg)
qed

subsection \<open>The groups drawn in a run\<close>

lemma py_slice_Cons_pos: "0 < hi \<Longrightarrow> x \<in> set (py_slice (x # xs) 0 hi)"
  by (simp add: py_slice_def py_slice_index_def take_Cons' Let_def)

text \<open>C3: for non-negative counts and any valid random source, the three groups are
  pairwise disjoint sets of matched keys, and each has \<open>min(requested, remaining)\<close>
  keys, where the remaining keys are those the earlier groups did not take.\<close>

theorem draw_groups_partition:
  assumes "valid_draws rb" "distinct keys" "0 \<le> z" "0 \<le> p" "0 \<le> s"
  shows "groups_disjoint (draw_groups rb keys z p s)
    \<and> zoom_keys (draw_groups rb keys z p s) \<subseteq> set keys
    \<and> pan_keys (draw_groups rb keys z p s) \<subseteq> set keys
    \<and> shake_keys (draw_groups rb keys z p s) \<subseteq> set keys
    \<and> card (zoom_keys (draw_groups rb keys z p s)) = min (nat z) (length keys)
    \<and> card (pan_keys (draw_groups rb keys z p s)) = min (nat p) (length keys - nat z)
    \<and> card (shake_keys (draw_groups rb keys z p s)) = min (nat s) (length keys - (nat z + nat p))"
proof -
  let ?av = "py_shuffle rb keys"
  have av: "set ?av = set keys" "distinct ?av" "length ?av = length keys"
    using py_shuffle_set_distinct [OF assms(1), of keys] assms(2) by auto
  have g: "draw_groups rb keys z p s = assign_effects ?av z p s" by (simp add: draw_groups_def)
  show ?thesis
    using assign_effects_disjoint [OF av(2) assms(3-5)] assign_effects_card [OF av(2) assms(3-5)]
      groups_subset [of ?av z p s] av(1,3) g by simp
qed

theorem draw_groups_partition_witness:
  "valid_draws (\<lambda>i. 0) \<and> distinct [''1'', ''2'', ''3''] \<and>
   groups_disjoint (draw_groups (\<lambda>i. 0) [''1'', ''2'', ''3''] 1 1 1) \<and>
   card (zoom_keys (draw_groups (\<lambda>i. 0) [''1'', ''2'', ''3''] 1 1 1)) = 1"
proof -
  have v: "valid_draws (\<lambda>i. 0)" by (simp add: valid_draws_def)
  have d: "distinct [''1'', ''2'', ''3'']" by simp
  show ?thesis using v d draw_groups_partition [OF v d, of 1 1 1] by simp
qed

text \<open>Over-requesting is silent, as the scenario of spec section 8 expects: when the zoom
  count is at least the number of keys, every key is in the zoom group and the pan and shake groups are empty, whatever the
  shuffle.\<close>

theorem draw_groups_zoom_saturates:
  assumes "valid_draws rb" "int (length keys) \<le> z" "0 \<le> p" "0 \<le> s"
  shows "draw_groups rb keys z p s = \<lparr>zoom_keys = set keys, pan_keys = {}, shake_keys = {}\<rparr>"
proof -
  let ?av = "py_shuffle rb keys"
  have av: "set ?av = set keys" "length ?av = length keys"
    using py_shuffle_set_distinct [OF assms(1), of keys] by auto
  have z: "0 \<le> z" and n: "length ?av \<le> nat z" using assms(2) av(2) by auto
  have "draw_groups rb keys z p s = assign_effects ?av z p s" by (simp add: draw_groups_def)
  also have "\<dots> = \<lparr>zoom_keys = set ?av, pan_keys = {}, shake_keys = {}\<rparr>"
    using n by (simp add: assign_effects_nonneg [OF z assms(3,4)])
  finally show ?thesis using av(1) by simp
qed

theorem draw_groups_zoom_saturates_witness:
  "draw_groups (\<lambda>i. i) [''1'', ''2''] 5 0 0 = \<lparr>zoom_keys = set [''1'', ''2''], pan_keys = {}, shake_keys = {}\<rparr>"
proof -
  have v: "valid_draws (\<lambda>i. i)" by (simp add: valid_draws_def)
  show ?thesis using draw_groups_zoom_saturates [OF v, of "[''1'', ''2'']" 5 0 0] by simp
qed

subsection \<open>Choosing the effect of a segment\<close>

text \<open>C16: a segment gets the zoom effect exactly when its key is in the zoom group and
  its audio lasts more than 6 seconds.\<close>

theorem choose_effect_Zoom_iff:
  "choose_effect g key duration = Zoom \<longleftrightarrow> key \<in> zoom_keys g \<and> 6 < duration"
  by (simp add: choose_effect_def)

theorem choose_effect_Zoom_iff_witness:
  "choose_effect \<lparr>zoom_keys = {''1''}, pan_keys = {}, shake_keys = {}\<rparr> ''1'' 7 = Zoom"
  using choose_effect_Zoom_iff [of "\<lparr>zoom_keys = {''1''}, pan_keys = {}, shake_keys = {}\<rparr>" "''1''" 7] by simp

text \<open>C4: with disjoint groups, a key drawn for zoom whose audio lasts at most 6 seconds
  falls through to no effect (it is in neither the pan nor the shake group).\<close>

theorem choose_effect_zoom_short:
  assumes "groups_disjoint g" "key \<in> zoom_keys g"
  shows "choose_effect g key duration = (if 6 < duration then Zoom else NoEffect)"
  using assms by (auto simp: choose_effect_def groups_disjoint_def)

theorem choose_effect_zoom_short_witness:
  "choose_effect \<lparr>zoom_keys = {''1''}, pan_keys = {''2''}, shake_keys = {}\<rparr> ''1'' 5 = NoEffect"
proof -
  have "groups_disjoint \<lparr>zoom_keys = {''1''}, pan_keys = {''2''}, shake_keys = {}\<rparr>"
    by (simp add: groups_disjoint_def)
  then show ?thesis using choose_effect_zoom_short [of _ "''1''" 5] by simp
qed

text \<open>C15: the draw can give the zoom effect to any segment: for every matched key and a
  positive zoom count, some random source puts that key in the zoom group.\<close>

theorem draw_groups_any_zoom:
  assumes "k \<in> set keys" "0 < z"
  shows "\<exists>rb. valid_draws rb \<and> k \<in> zoom_keys (draw_groups rb keys z p s)"
proof -
  have "mset (k # remove1 k keys) = mset keys" using assms(1) by simp
  then obtain rb where "valid_draws rb" "py_shuffle rb keys = k # remove1 k keys"
    using py_shuffle_complete by metis
  moreover have "k \<in> set (py_slice (k # remove1 k keys) 0 z)"
    using assms(2) by (rule py_slice_Cons_pos)
  ultimately show ?thesis by (auto simp: draw_groups_def assign_effects_def Let_def)
qed

theorem draw_groups_any_zoom_witness:
  "\<exists>rb. valid_draws rb \<and> ''3'' \<in> zoom_keys (draw_groups rb [''1'', ''2'', ''3''] 1 1 1)"
  using draw_groups_any_zoom [of "''3''" "[''1'', ''2'', ''3'']" 1 1 1] by simp
text \<open>The counts are not checked for sign. With a zoom count of 1, a pan count of -1 and a
  shake count of 1, Python's slices give the first shuffled key to both the zoom and the
  shake group, for every shuffle of a non-empty key list.\<close>

lemma negative_count_overlap:
  assumes "keys \<noteq> []"
  shows "zoom_keys (draw_groups rb keys 1 (-1) 1) \<inter> shake_keys (draw_groups rb keys 1 (-1) 1) \<noteq> {}"
proof -
  let ?av = "py_shuffle rb keys"
  have "?av \<noteq> []" using assms by (metis length_py_shuffle length_0_conv)
  then obtain a rest where av: "?av = a # rest" by (cases ?av) auto
  have "py_slice ?av 0 1 = [a]" and "py_slice ?av (1 + -1) (1 + -1 + 1) = [a]"
    by (simp_all add: av py_slice_def py_slice_index_def)
  then show ?thesis by (simp add: draw_groups_def assign_effects_def)
qed

end
