(* ===== verification/Render.thy ===== *)
theory Render
  imports Effects
begin

text \<open>
  The per-segment render step, lines 33--104 of \<open>create_video_with_ffmpeg\<close>, and the
  loop over the sorted keys. The outside world is the record \<open>env\<close>: the directory
  listing, the audio lengths mutagen reports (\<open>get_duration\<close>, lines 9--11), the effect
  of an ffmpeg process on the set of existing files (\<open>None\<close> when the process cannot be
  spawned, which raises in \<open>subprocess.run\<close>), which paths can be created, and Python's
  \<open>str\<close> on floats. The callbacks and dialogs are events appended to a trace, in the
  order the code makes them; a raised exception is the value \<open>Raised\<close>, which keeps the
  state reached so far, since the callbacks already ran.
\<close>

section \<open>Definitions\<close>

subsection \<open>The world, the state, the events\<close>

record env =
  listdir :: "path \<Rightarrow> string list option"
  mp3_length :: "path \<Rightarrow> real option"
  ffmpeg :: "argv \<Rightarrow> fs \<Rightarrow> fs option"
  can_create :: "path \<Rightarrow> bool"
  fmt :: "real \<Rightarrow> string"

datatype log_line =
    LogProcessing key | LogZoom key | LogPan key | LogShake key | LogNoEffect key
  | LogFailed key | LogDone | LogError py_error

datatype dialog = InfoSuccess | ErrorDialog py_error

datatype event = Log log_line | Progress real | Run argv | Dialog dialog | Write path string

record run_state =
  existing :: fs
  video_parts :: "string list"
  trace :: "event list"

datatype 's outcome = Ok 's | Raised py_error 's

definition emit :: "event \<Rightarrow> run_state \<Rightarrow> run_state" where
  "emit ev st = st\<lparr>trace := trace st @ [ev]\<rparr>"

text \<open>\<open>get_duration(mp3_path)\<close>, lines 9--11.\<close>

definition get_duration :: "env \<Rightarrow> path \<Rightarrow> real option" where
  "get_duration env mp3 = mp3_length env mp3"

text \<open>\<open>subprocess.run(cmd)\<close>: the return code is ignored; only spawning can raise.\<close>

definition run_cmd :: "env \<Rightarrow> argv \<Rightarrow> run_state \<Rightarrow> run_state outcome" where
  "run_cmd env cmd st =
     (let st' = emit (Run cmd) st in
      case ffmpeg env cmd (existing st) of
        None \<Rightarrow> Raised (OSError (hd cmd)) st'
      | Some fs' \<Rightarrow> Ok (st'\<lparr>existing := fs'\<rparr>))"

subsection \<open>The ffmpeg command lines\<close>

definition squote :: string where
  "squote = [CHR 0x27]"

definition zoom_filter :: string where
  "zoom_filter =
     ''[0:v]scale=1400:788,zoompan=z='' @ squote @ ''min(zoom+0.0015,1.2)'' @ squote @
     '':x='' @ squote @ ''iw/2-(iw/zoom/2)'' @ squote @ '':y='' @ squote @ ''ih/2-(ih/zoom/2)'' @
     squote @ '':d=1:s=1280x720,format=yuv420p[v]''"

definition pan_filter :: "string \<Rightarrow> string" where
  "pan_filter dur =
     ''[0:v]scale=1500:720,crop=1280:720:x='' @ squote @ ''(in_w-out_w)*t/'' @ dur @ squote @
     '':y=0,format=yuv420p[v]''"

definition shake_filter :: string where
  "shake_filter =
     ''[0:v]scale=1280:720,crop=1280:720:x='' @ squote @ ''5*sin(2*PI*t*3)'' @ squote @
     '':y='' @ squote @ ''5*cos(2*PI*t*3)'' @ squote @ '',format=yuv420p[v]''"

definition filter_cmd :: "path \<Rightarrow> path \<Rightarrow> string \<Rightarrow> string \<Rightarrow> path \<Rightarrow> argv" where
  "filter_cmd img mp3 graph dur out =
     [''ffmpeg'', ''-y'', ''-loop'', ''1'', ''-i'', img, ''-i'', mp3,
      ''-filter_complex'', graph, ''-map'', ''[v]'', ''-map'', ''1:a'', ''-t'', dur,
      ''-c:v'', ''libx264'', ''-pix_fmt'', ''yuv420p'', ''-c:a'', ''aac'', out]"

definition plain_cmd :: "path \<Rightarrow> path \<Rightarrow> string \<Rightarrow> path \<Rightarrow> argv" where
  "plain_cmd img mp3 dur out =
     [''ffmpeg'', ''-y'', ''-loop'', ''1'', ''-i'', img, ''-i'', mp3, ''-t'', dur,
      ''-vf'', ''scale=1280:720'', ''-c:v'', ''libx264'', ''-pix_fmt'', ''yuv420p'', ''-c:a'', ''aac'', out]"

text \<open>Lines 44--53, 59--68, 74--83 and 89--96.\<close>

fun effect_cmd :: "(real \<Rightarrow> string) \<Rightarrow> effect \<Rightarrow> path \<Rightarrow> path \<Rightarrow> real \<Rightarrow> path \<Rightarrow> argv" where
  "effect_cmd str Zoom img mp3 d out = filter_cmd img mp3 zoom_filter (str d) out"
| "effect_cmd str Pan img mp3 d out = filter_cmd img mp3 (pan_filter (str d)) (str d) out"
| "effect_cmd str Shake img mp3 d out = filter_cmd img mp3 shake_filter (str d) out"
| "effect_cmd str NoEffect img mp3 d out = plain_cmd img mp3 (str d) out"

fun effect_log :: "effect \<Rightarrow> key \<Rightarrow> log_line" where
  "effect_log Zoom k = LogZoom k"
| "effect_log Pan k = LogPan k"
| "effect_log Shake k = LogShake k"
| "effect_log NoEffect k = LogNoEffect k"

subsection \<open>One segment and the loop\<close>

text \<open>What the loop body reads besides the state.\<close>

record seg_ctx =
  ctx_groups :: groups
  ctx_images :: "(key \<times> path) list"
  ctx_audios :: "(key \<times> path) list"
  ctx_temp :: path
  ctx_total :: nat

definition part_path :: "path \<Rightarrow> key \<Rightarrow> path" where
  "part_path temp key = py_join temp (''part_'' @ key @ ''.mp4'')"

definition manifest_entry :: "path \<Rightarrow> string" where
  "manifest_entry p = ''file '' @ squote @ p @ squote"

definition dict_get :: "(key \<times> path) list \<Rightarrow> key \<Rightarrow> path option" where
  "dict_get d k = map_of d k"

text \<open>Lines 34--104 for the segment at index \<open>i\<close>.\<close>

definition process_segment :: "env \<Rightarrow> seg_ctx \<Rightarrow> nat \<Rightarrow> key \<Rightarrow> run_state \<Rightarrow> run_state outcome" where
  "process_segment env ctx i key st =
     (let st1 = emit (Log (LogProcessing key)) st in
      (case dict_get (ctx_images ctx) key of None \<Rightarrow> Raised (KeyError key) st1 | Some img \<Rightarrow>
      (case dict_get (ctx_audios ctx) key of None \<Rightarrow> Raised (KeyError key) st1 | Some mp3 \<Rightarrow>
      (case get_duration env mp3 of None \<Rightarrow> Raised (MP3Error mp3) st1 | Some duration \<Rightarrow>
      (let output_part = part_path (ctx_temp ctx) key;
           eff = choose_effect (ctx_groups ctx) key duration;
           st2 = emit (Log (effect_log eff key)) st1 in
       (case run_cmd env (effect_cmd (fmt env) eff img mp3 duration output_part) st2 of
         Raised e st3 \<Rightarrow> Raised e st3
       | Ok st3 \<Rightarrow>
           (let st4 = (if output_part \<in> existing st3
                       then st3\<lparr>video_parts := video_parts st3 @ [manifest_entry output_part]\<rparr>
                       else emit (Log (LogFailed key)) st3)
            in Ok (emit (Progress (real (i + 1) / real (ctx_total ctx) * 100)) st4))))))))"

text \<open>\<open>for i, key in enumerate(keys)\<close>, from index \<open>i\<close> on.\<close>

fun process_from :: "env \<Rightarrow> seg_ctx \<Rightarrow> nat \<Rightarrow> key list \<Rightarrow> run_state \<Rightarrow> run_state outcome" where
  "process_from env ctx i [] st = Ok st"
| "process_from env ctx i (k # ks) st =
     (case process_segment env ctx i k st of
        Raised e st' \<Rightarrow> Raised e st'
      | Ok st' \<Rightarrow> process_from env ctx (Suc i) ks st')"

subsection \<open>Reading the trace\<close>

primrec progress_of :: "event list \<Rightarrow> real list" where
  "progress_of [] = []"
| "progress_of (e # es) = (case e of Progress r \<Rightarrow> r # progress_of es | _ \<Rightarrow> progress_of es)"

primrec runs_of :: "event list \<Rightarrow> argv list" where
  "runs_of [] = []"
| "runs_of (e # es) = (case e of Run c \<Rightarrow> c # runs_of es | _ \<Rightarrow> runs_of es)"

primrec logs_of :: "event list \<Rightarrow> log_line list" where
  "logs_of [] = []"
| "logs_of (e # es) = (case e of Log l \<Rightarrow> l # logs_of es | _ \<Rightarrow> logs_of es)"

subsection \<open>Frames and preconditions\<close>

text \<open>The state an outcome carries; the events the loop may add; when a segment can be
  processed without raising.\<close>

fun state_of :: "'s outcome \<Rightarrow> 's" where
  "state_of (Ok s) = s"
| "state_of (Raised e s) = s"

fun loop_event :: "event \<Rightarrow> bool" where
  "loop_event (Log LogDone) = False"
| "loop_event (Log (LogError e)) = False"
| "loop_event (Log l) = True"
| "loop_event (Progress r) = True"
| "loop_event (Run c) = True"
| "loop_event (Dialog d) = False"
| "loop_event (Write p t) = False"

definition loop_ext :: "run_state \<Rightarrow> run_state \<Rightarrow> bool" where
  "loop_ext st st' \<longleftrightarrow> (\<exists>evs. trace st' = trace st @ evs \<and> list_all loop_event evs)"

definition segment_ready :: "env \<Rightarrow> seg_ctx \<Rightarrow> key \<Rightarrow> bool" where
  "segment_ready env ctx k \<longleftrightarrow>
     dict_get (ctx_images ctx) k \<noteq> None \<and>
     (case dict_get (ctx_audios ctx) k of None \<Rightarrow> False | Some mp3 \<Rightarrow> get_duration env mp3 \<noteq> None)"

declare segment_ready_def [model_defs]

declare emit_def [model_defs] get_duration_def [model_defs] run_cmd_def [model_defs]
  filter_cmd_def [model_defs] plain_cmd_def [model_defs]
  part_path_def [model_defs] manifest_entry_def [model_defs] dict_get_def [model_defs]
  process_segment_def [model_defs]

section \<open>Properties\<close>

lemma emit_fields [simp]:
  "existing (emit ev st) = existing st" "video_parts (emit ev st) = video_parts st"
  "trace (emit ev st) = trace st @ [ev]"
  by (simp_all add: emit_def)


lemma progress_of_append [simp]: "progress_of (xs @ ys) = progress_of xs @ progress_of ys"
  by (induction xs) (auto split: event.splits)

lemma runs_of_append [simp]: "runs_of (xs @ ys) = runs_of xs @ runs_of ys"
  by (induction xs) (auto split: event.splits)

lemma logs_of_append [simp]: "logs_of (xs @ ys) = logs_of xs @ logs_of ys"
  by (induction xs) (auto split: event.splits)

lemma effect_log_not_failed [simp]:
  "effect_log eff k \<noteq> LogFailed k'" "LogFailed k' \<noteq> effect_log eff k"
  by (cases eff; simp)+

lemma last_effect_cmd: "last (effect_cmd str eff img mp3 d out) = out"
  by (cases eff) (simp_all add: filter_cmd_def plain_cmd_def)

subsection \<open>One segment\<close>

lemma process_segment_Ok:
  assumes "process_segment env ctx i key st = Ok st'"
  shows "\<exists>img mp3 d fs'.
     dict_get (ctx_images ctx) key = Some img \<and> dict_get (ctx_audios ctx) key = Some mp3 \<and>
     get_duration env mp3 = Some d \<and>
     ffmpeg env (effect_cmd (fmt env) (choose_effect (ctx_groups ctx) key d) img mp3 d
        (part_path (ctx_temp ctx) key)) (existing st) = Some fs' \<and>
     existing st' = fs' \<and>
     video_parts st' = video_parts st @
        (if part_path (ctx_temp ctx) key \<in> fs' then [manifest_entry (part_path (ctx_temp ctx) key)] else []) \<and>
     trace st' = trace st @
        [Log (LogProcessing key), Log (effect_log (choose_effect (ctx_groups ctx) key d) key),
         Run (effect_cmd (fmt env) (choose_effect (ctx_groups ctx) key d) img mp3 d
        (part_path (ctx_temp ctx) key))] @
        (if part_path (ctx_temp ctx) key \<in> fs' then [] else [Log (LogFailed key)]) @
        [Progress (real (i + 1) / real (ctx_total ctx) * 100)]"
  using assms
  by (auto simp: process_segment_def emit_def run_cmd_def Let_def
      split: option.splits outcome.splits if_splits)

subsection \<open>The loop\<close>

lemma process_from_Cons_Ok:
  assumes "process_from env ctx i (k # ks) st = Ok st'"
  obtains st1 where "process_segment env ctx i k st = Ok st1"
    and "process_from env ctx (Suc i) ks st1 = Ok st'"
  using assms by (auto split: outcome.splits)

lemma process_from_parts:
  "process_from env ctx i ks st = Ok st' \<Longrightarrow>
     \<exists>I. video_parts st' = video_parts st @ map (\<lambda>k. manifest_entry (part_path (ctx_temp ctx) k)) (nths ks I)"
proof (induction ks arbitrary: i st)
  case Nil
  then show ?case by (intro exI [of _ "{}"]) auto
next
  case (Cons k ks)
  obtain st1 where s1: "process_segment env ctx i k st = Ok st1"
    and r: "process_from env ctx (Suc i) ks st1 = Ok st'"
    using Cons.prems by (rule process_from_Cons_Ok)
  obtain I where I: "video_parts st' = video_parts st1 @ map (\<lambda>k. manifest_entry (part_path (ctx_temp ctx) k)) (nths ks I)"
    using Cons.IH [OF r] by blast
  obtain b where b: "video_parts st1 = video_parts st @ (if b then [manifest_entry (part_path (ctx_temp ctx) k)] else [])"
    using process_segment_Ok [OF s1] by blast
  let ?J = "(if b then {0} else {}) \<union> Suc ` I"
  have "nths (k # ks) ?J = (if b then [k] else []) @ nths ks I"
    by (simp add: nths_Cons image_iff)
  then show ?case using I b by (intro exI [of _ ?J]) simp
qed

lemma process_from_progress:
  "process_from env ctx i ks st = Ok st' \<Longrightarrow>
     progress_of (trace st') = progress_of (trace st) @
       map (\<lambda>j. real (j + 1) / real (ctx_total ctx) * 100) [i..<i + length ks]"
proof (induction ks arbitrary: i st)
  case Nil
  then show ?case by simp
next
  case (Cons k ks)
  obtain st1 where s1: "process_segment env ctx i k st = Ok st1"
    and r: "process_from env ctx (Suc i) ks st1 = Ok st'"
    using Cons.prems by (rule process_from_Cons_Ok)
  have "progress_of (trace st1) = progress_of (trace st) @ [real (i + 1) / real (ctx_total ctx) * 100]"
    using process_segment_Ok [OF s1] by auto
  moreover have "[i..<i + length (k # ks)] = i # [Suc i..<Suc i + length ks]"
    by (simp add: upt_rec)
  ultimately show ?case using Cons.IH [OF r] by simp
qed

lemma process_from_runs:
  "process_from env ctx i ks st = Ok st' \<Longrightarrow>
     map last (runs_of (trace st')) = map last (runs_of (trace st)) @ map (part_path (ctx_temp ctx)) ks"
proof (induction ks arbitrary: i st)
  case Nil
  then show ?case by simp
next
  case (Cons k ks)
  obtain st1 where s1: "process_segment env ctx i k st = Ok st1"
    and r: "process_from env ctx (Suc i) ks st1 = Ok st'"
    using Cons.prems by (rule process_from_Cons_Ok)
  have "map last (runs_of (trace st1)) = map last (runs_of (trace st)) @ [part_path (ctx_temp ctx) k]"
    using process_segment_Ok [OF s1] by (auto simp: last_effect_cmd)
  then show ?case using Cons.IH [OF r] by simp
qed

lemma process_segment_progress:
  "progress_of (trace (state_of (process_segment env ctx i k st))) = progress_of (trace st)
   \<or> progress_of (trace (state_of (process_segment env ctx i k st))) =
       progress_of (trace st) @ [real (i + 1) / real (ctx_total ctx) * 100]"
  by (auto simp: process_segment_def emit_def run_cmd_def Let_def
      split: option.splits outcome.splits)

text \<open>Whatever the loop meets, the progress values it reports are those of the first
  \<open>m\<close> segments, in order.\<close>

lemma process_from_progress_prefix:
  "\<exists>m \<le> length ks. progress_of (trace (state_of (process_from env ctx i ks st))) =
     progress_of (trace st) @ map (\<lambda>j. real (j + 1) / real (ctx_total ctx) * 100) [i..<i + m]"
proof (induction ks arbitrary: i st)
  case Nil
  then show ?case by simp
next
  case (Cons k ks)
  let ?f = "\<lambda>j. real (j + 1) / real (ctx_total ctx) * 100"
  show ?case
  proof (cases "process_segment env ctx i k st")
    case (Raised e st1)
    then have "progress_of (trace st1) = progress_of (trace st) \<or>
        progress_of (trace st1) = progress_of (trace st) @ [?f i]"
      using process_segment_progress [of env ctx i k st] by simp
    then show ?thesis
    proof
      assume "progress_of (trace st1) = progress_of (trace st)"
      then show ?thesis using Raised by (intro exI [of _ 0]) simp
    next
      assume "progress_of (trace st1) = progress_of (trace st) @ [?f i]"
      then show ?thesis using Raised by (intro exI [of _ 1]) simp
    qed
  next
    case (Ok st1)
    then have p1: "progress_of (trace st1) = progress_of (trace st) @ [?f i]"
      using process_segment_Ok [OF Ok] by auto
    obtain m where m: "m \<le> length ks"
      and pm: "progress_of (trace (state_of (process_from env ctx (Suc i) ks st1))) =
        progress_of (trace st1) @ map ?f [Suc i..<Suc i + m]"
      using Cons.IH [of "Suc i" st1] by blast
    have "[i..<i + Suc m] = i # [Suc i..<Suc i + m]" by (simp add: upt_rec)
    then show ?thesis using Ok p1 pm m by (intro exI [of _ "Suc m"]) simp
  qed
qed

lemma effect_cmd_ffmpeg: "take 2 (effect_cmd str eff img mp3 d out) = [''ffmpeg'', ''-y'']"
  by (cases eff) (simp_all add: filter_cmd_def plain_cmd_def)

lemma process_segment_runs_shape:
  "\<exists>cs. runs_of (trace (state_of (process_segment env ctx i k st))) = runs_of (trace st) @ cs
     \<and> length cs \<le> 1 \<and> list_all (\<lambda>c. take 2 c = [''ffmpeg'', ''-y'']) cs"
  by (auto simp: process_segment_def emit_def run_cmd_def Let_def effect_cmd_ffmpeg
      split: option.splits outcome.splits)

lemma process_from_runs_shape:
  "\<exists>cs. runs_of (trace (state_of (process_from env ctx i ks st))) = runs_of (trace st) @ cs
     \<and> length cs \<le> length ks \<and> list_all (\<lambda>c. take 2 c = [''ffmpeg'', ''-y'']) cs"
proof (induction ks arbitrary: i st)
  case Nil
  then show ?case by simp
next
  case (Cons k ks)
  obtain cs where cs: "runs_of (trace (state_of (process_segment env ctx i k st))) = runs_of (trace st) @ cs"
    "length cs \<le> 1" "list_all (\<lambda>c. take 2 c = [''ffmpeg'', ''-y'']) cs"
    using process_segment_runs_shape by blast
  show ?case
  proof (cases "process_segment env ctx i k st")
    case (Raised e st1)
    then show ?thesis using cs by (intro exI [of _ cs]) simp
  next
    case (Ok st1)
    obtain ds where ds: "runs_of (trace (state_of (process_from env ctx (Suc i) ks st1))) = runs_of (trace st1) @ ds"
      "length ds \<le> length ks" "list_all (\<lambda>c. take 2 c = [''ffmpeg'', ''-y'']) ds"
      using Cons.IH by blast
    show ?thesis using Ok cs ds by (intro exI [of _ "cs @ ds"]) simp
  qed
qed

subsection \<open>What the loop adds to the trace, and when it runs to the end\<close>

lemma loop_ext_refl [simp]: "loop_ext st st"
  by (auto simp: loop_ext_def)

lemma loop_ext_trans: "loop_ext a b \<Longrightarrow> loop_ext b c \<Longrightarrow> loop_ext a c"
  by (auto simp: loop_ext_def)

lemma loop_ext_emit [simp]: "loop_event ev \<Longrightarrow> loop_ext st st' \<Longrightarrow> loop_ext st (emit ev st')"
proof -
  assume ev: "loop_event ev" and "loop_ext st st'"
  then obtain evs where "trace st' = trace st @ evs" "list_all loop_event evs"
    by (auto simp: loop_ext_def)
  with ev show ?thesis by (auto simp: loop_ext_def emit_def intro!: exI [of _ "evs @ [ev]"])
qed

lemma loop_ext_upd [simp]:
  "loop_ext st (st'\<lparr>existing := X\<rparr>) = loop_ext st st'"
  "loop_ext st (st'\<lparr>video_parts := Y\<rparr>) = loop_ext st st'"
  by (simp_all add: loop_ext_def)

lemma loop_event_effect_log [simp]: "loop_event (Log (effect_log eff k))"
  by (cases eff) auto

lemma process_segment_frame: "loop_ext st (state_of (process_segment env ctx i k st))"
  by (auto simp: process_segment_def run_cmd_def Let_def split: option.splits outcome.splits)

lemma process_from_frame: "loop_ext st (state_of (process_from env ctx i ks st))"
proof (induction ks arbitrary: i st)
  case Nil
  then show ?case by simp
next
  case (Cons k ks)
  show ?case
  proof (cases "process_segment env ctx i k st")
    case (Ok st1)
    then show ?thesis using process_segment_frame [of st env ctx i k] Cons.IH [where i="Suc i" and st=st1]
      by (auto intro: loop_ext_trans)
  next
    case (Raised e st1)
    then show ?thesis using process_segment_frame [of st env ctx i k] by simp
  qed
qed

lemma process_segment_Ok_exists:
  assumes "segment_ready env ctx k" and "\<forall>c. ffmpeg env c (existing st) \<noteq> None"
  shows "\<exists>st'. process_segment env ctx i k st = Ok st'"
proof -
  have "\<And>c. ffmpeg env c (existing st) \<noteq> None" using assms(2) by blast
  then show ?thesis using assms(1)
    by (auto simp: segment_ready_def process_segment_def run_cmd_def Let_def split: option.splits)
      (metis option.distinct(1))
qed

lemma process_from_Ok_exists:
  "\<forall>k \<in> set ks. segment_ready env ctx k \<Longrightarrow> (\<forall>c fs. ffmpeg env c fs \<noteq> None) \<Longrightarrow>
     \<exists>st'. process_from env ctx i ks st = Ok st'"
proof (induction ks arbitrary: i st)
  case Nil
  then show ?case by simp
next
  case (Cons k ks)
  obtain st1 where "process_segment env ctx i k st = Ok st1"
    using process_segment_Ok_exists Cons.prems by fastforce
  then show ?case using Cons by simp
qed
subsection \<open>A segment whose render leaves no clip\<close>

text \<open>C19: when ffmpeg exits without leaving the segment's clip, the segment is logged as
  failed, left out of the manifest, and the run goes on: progress still advances.\<close>

theorem process_segment_missing_output:
  assumes "segment_ready env ctx k"
    and "\<forall>c. \<exists>fs'. ffmpeg env c (existing st) = Some fs' \<and> part_path (ctx_temp ctx) k \<notin> fs'"
  shows "\<exists>st'. process_segment env ctx i k st = Ok st'
     \<and> video_parts st' = video_parts st
     \<and> Log (LogFailed k) \<in> set (trace st')
     \<and> progress_of (trace st') = progress_of (trace st) @ [real (i + 1) / real (ctx_total ctx) * 100]"
proof -
  have "\<forall>c. ffmpeg env c (existing st) \<noteq> None" using assms(2) by force
  then obtain st' where ok: "process_segment env ctx i k st = Ok st'"
    using process_segment_Ok_exists [OF assms(1)] by blast
  obtain img mp3 d fs' where
      run: "ffmpeg env (effect_cmd (fmt env) (choose_effect (ctx_groups ctx) k d) img mp3 d
        (part_path (ctx_temp ctx) k)) (existing st) = Some fs'"
    and vp: "video_parts st' = video_parts st @
        (if part_path (ctx_temp ctx) k \<in> fs' then [manifest_entry (part_path (ctx_temp ctx) k)] else [])"
    and tr: "trace st' = trace st @
        [Log (LogProcessing k), Log (effect_log (choose_effect (ctx_groups ctx) k d) k),
         Run (effect_cmd (fmt env) (choose_effect (ctx_groups ctx) k d) img mp3 d
        (part_path (ctx_temp ctx) k))] @
        (if part_path (ctx_temp ctx) k \<in> fs' then [] else [Log (LogFailed k)]) @
        [Progress (real (i + 1) / real (ctx_total ctx) * 100)]"
    using process_segment_Ok [OF ok] by blast
  have "part_path (ctx_temp ctx) k \<notin> fs'"
    using run spec [OF assms(2), of "effect_cmd (fmt env) (choose_effect (ctx_groups ctx) k d) img mp3 d
        (part_path (ctx_temp ctx) k)"] by auto
  then show ?thesis using ok vp tr by auto
qed

text \<open>C10: the check for a failed render is only \<open>os.path.exists\<close>. A clip left in the
  temp folder by an earlier run makes a render that produced nothing count as a success:
  no failure is logged and the stale clip goes into the manifest.\<close>

theorem stale_part_accepted:
  assumes "segment_ready env ctx k"
    and "\<forall>c fs. ffmpeg env c fs = Some fs"
    and "part_path (ctx_temp ctx) k \<in> existing st"
  shows "\<exists>st'. process_segment env ctx i k st = Ok st'
     \<and> video_parts st' = video_parts st @ [manifest_entry (part_path (ctx_temp ctx) k)]
     \<and> Log (LogFailed k) \<notin> set (drop (length (trace st)) (trace st'))"
proof -
  have "\<forall>c. ffmpeg env c (existing st) \<noteq> None" using assms(2) by simp
  then obtain st' where ok: "process_segment env ctx i k st = Ok st'"
    using process_segment_Ok_exists [OF assms(1)] by blast
  obtain img mp3 d fs' where
      run: "ffmpeg env (effect_cmd (fmt env) (choose_effect (ctx_groups ctx) k d) img mp3 d
        (part_path (ctx_temp ctx) k)) (existing st) = Some fs'"
    and vp: "video_parts st' = video_parts st @
        (if part_path (ctx_temp ctx) k \<in> fs' then [manifest_entry (part_path (ctx_temp ctx) k)] else [])"
    and tr: "trace st' = trace st @
        [Log (LogProcessing k), Log (effect_log (choose_effect (ctx_groups ctx) k d) k),
         Run (effect_cmd (fmt env) (choose_effect (ctx_groups ctx) k d) img mp3 d
        (part_path (ctx_temp ctx) k))] @
        (if part_path (ctx_temp ctx) k \<in> fs' then [] else [Log (LogFailed k)]) @
        [Progress (real (i + 1) / real (ctx_total ctx) * 100)]"
    using process_segment_Ok [OF ok] by blast
  have "fs' = existing st" using run assms(2) by simp
  then have "part_path (ctx_temp ctx) k \<in> fs'" using assms(3) by simp
  then show ?thesis using ok vp tr by auto
qed

theorem stale_part_accepted_witness:
  "\<exists>st'. process_segment
      \<lparr>listdir = (\<lambda>p. None), mp3_length = (\<lambda>p. Some 7), ffmpeg = (\<lambda>c fs. Some fs),
       can_create = (\<lambda>p. True), fmt = (\<lambda>r. ''7'')\<rparr>
      \<lparr>ctx_groups = \<lparr>zoom_keys = {}, pan_keys = {}, shake_keys = {}\<rparr>,
       ctx_images = [(''1'', ''/in/1.jpg'')], ctx_audios = [(''1'', ''/in/1.mp3'')],
       ctx_temp = ''/in/temp'', ctx_total = 1\<rparr>
      0 ''1'' \<lparr>existing = {''/in/temp/part_1.mp4''}, video_parts = [], trace = []\<rparr> = Ok st'
     \<and> video_parts st' = [manifest_entry ''/in/temp/part_1.mp4'']
     \<and> Log (LogFailed ''1'') \<notin> set (trace st')"
proof -
  define E where "E = \<lparr>listdir = (\<lambda>p. None), mp3_length = (\<lambda>p. Some (7::real)), ffmpeg = (\<lambda>c fs. Some fs),
       can_create = (\<lambda>p. True), fmt = (\<lambda>r. ''7'')\<rparr>"
  define C where "C = \<lparr>ctx_groups = \<lparr>zoom_keys = {}, pan_keys = {}, shake_keys = {}\<rparr>,
       ctx_images = [(''1'', ''/in/1.jpg'')], ctx_audios = [(''1'', ''/in/1.mp3'')],
       ctx_temp = ''/in/temp'', ctx_total = 1\<rparr>"
  define S where "S = \<lparr>existing = {''/in/temp/part_1.mp4''}, video_parts = [], trace = []\<rparr>"
  have h1: "segment_ready E C ''1''"
    by (simp add: E_def C_def segment_ready_def dict_get_def get_duration_def)
  have h2: "\<forall>c fs. ffmpeg E c fs = Some fs" by (simp add: E_def)
  have h3: "part_path (ctx_temp C) ''1'' \<in> existing S"
    by (simp add: C_def S_def part_path_def py_join_def)
  have "\<exists>st'. process_segment E C 0 ''1'' S = Ok st'
     \<and> video_parts st' = video_parts S @ [manifest_entry (part_path (ctx_temp C) ''1'')]
     \<and> Log (LogFailed ''1'') \<notin> set (drop (length (trace S)) (trace st'))"
    by (rule stale_part_accepted [OF h1 h2 h3])
  then show ?thesis by (simp add: E_def C_def S_def part_path_def py_join_def)
qed

theorem process_segment_missing_output_witness:
  "\<exists>st'. process_segment
      \<lparr>listdir = (\<lambda>p. None), mp3_length = (\<lambda>p. Some 7), ffmpeg = (\<lambda>c fs. Some fs),
       can_create = (\<lambda>p. True), fmt = (\<lambda>r. ''7'')\<rparr>
      \<lparr>ctx_groups = \<lparr>zoom_keys = {}, pan_keys = {}, shake_keys = {}\<rparr>,
       ctx_images = [(''1'', ''/in/1.jpg'')], ctx_audios = [(''1'', ''/in/1.mp3'')],
       ctx_temp = ''/in/temp'', ctx_total = 2\<rparr>
      0 ''1'' \<lparr>existing = {}, video_parts = [], trace = []\<rparr> = Ok st'
     \<and> video_parts st' = [] \<and> Log (LogFailed ''1'') \<in> set (trace st') \<and> progress_of (trace st') = [50]"
proof -
  define E where "E = \<lparr>listdir = (\<lambda>p. None), mp3_length = (\<lambda>p. Some (7::real)), ffmpeg = (\<lambda>c fs. Some fs),
       can_create = (\<lambda>p. True), fmt = (\<lambda>r. ''7'')\<rparr>"
  define C where "C = \<lparr>ctx_groups = \<lparr>zoom_keys = {}, pan_keys = {}, shake_keys = {}\<rparr>,
       ctx_images = [(''1'', ''/in/1.jpg'')], ctx_audios = [(''1'', ''/in/1.mp3'')],
       ctx_temp = ''/in/temp'', ctx_total = 2\<rparr>"
  define S where "S = \<lparr>existing = {}, video_parts = [], trace = ([] :: event list)\<rparr>"
  have h1: "segment_ready E C ''1''"
    by (simp add: E_def C_def segment_ready_def dict_get_def get_duration_def)
  have h2: "\<forall>c. \<exists>fs'. ffmpeg E c (existing S) = Some fs' \<and> part_path (ctx_temp C) ''1'' \<notin> fs'"
    by (simp add: E_def S_def)
  have "\<exists>st'. process_segment E C 0 ''1'' S = Ok st'
     \<and> video_parts st' = video_parts S
     \<and> Log (LogFailed ''1'') \<in> set (trace st')
     \<and> progress_of (trace st') = progress_of (trace S) @ [real (0 + 1) / real (ctx_total C) * 100]"
    by (rule process_segment_missing_output [OF h1 h2])
  then show ?thesis by (simp add: E_def C_def S_def)
qed

end
