(* ===== verification/Pipeline.thy ===== *)
theory Pipeline
  imports Discovery Render
begin

text \<open>
  The whole of \<open>create_video_with_ffmpeg\<close> (lines 13--117): discovery, the temp
  folder, the effect groups, the loop over the segments, the manifest \<open>file_list.txt\<close>,
  the concatenation, and the top-level \<open>except\<close> that turns every exception into an
  error log line and an error dialog. The function never raises; its result is the final
  state, whose trace holds every callback, dialog, file write and ffmpeg invocation in
  order. The last part models how ffmpeg's concat demuxer reads a manifest line (its
  quoting rules), which the script relies on but does not implement.
\<close>

section \<open>Definitions\<close>

text \<open>Lines 107--108: \<open>f.write('\n'.join(video_parts))\<close>.\<close>

definition newline :: char where
  "newline = CHR 0x0A"

definition manifest_text :: "string list \<Rightarrow> string" where
  "manifest_text parts = py_str_join [newline] parts"

definition write_file :: "path \<Rightarrow> string \<Rightarrow> run_state \<Rightarrow> run_state" where
  "write_file p text st = (emit (Write p text) st)\<lparr>existing := insert p (existing st)\<rparr>"

definition concat_cmd :: "path \<Rightarrow> path \<Rightarrow> argv" where
  "concat_cmd concat_list output_path =
     [''ffmpeg'', ''-y'', ''-f'', ''concat'', ''-safe'', ''0'', ''-i'', concat_list,
      ''-c'', ''copy'', output_path]"

text \<open>Lines 20--21: \<open>os.makedirs(temp_folder, exist_ok=True)\<close>.\<close>

definition make_dirs :: "env \<Rightarrow> path \<Rightarrow> run_state \<Rightarrow> run_state outcome" where
  "make_dirs env p st =
     (if can_create env p then Ok (st\<lparr>existing := insert p (existing st)\<rparr>) else Raised (OSError p) st)"

text \<open>Lines 106--113: the manifest, the concatenation and the final log line and dialog.\<close>

definition concatenate :: "env \<Rightarrow> path \<Rightarrow> path \<Rightarrow> run_state \<Rightarrow> run_state outcome" where
  "concatenate env input_folder temp_folder st =
     (let concat_list = py_join temp_folder ''file_list.txt'' in
      if \<not> can_create env concat_list then Raised (OSError concat_list) st
      else
        (let st1 = write_file concat_list (manifest_text (video_parts st)) st;
             output_path = py_join input_folder ''output_video.mp4'' in
         (case run_cmd env (concat_cmd concat_list output_path) st1 of
            Raised e st2 \<Rightarrow> Raised e st2
          | Ok st2 \<Rightarrow> Ok (emit (Dialog InfoSuccess) (emit (Log LogDone) st2)))))"

text \<open>Lines 15--113, the body of the \<open>try\<close>.\<close>

definition pipeline :: "env \<Rightarrow> path \<Rightarrow> int \<Rightarrow> int \<Rightarrow> int \<Rightarrow> (nat \<Rightarrow> nat) \<Rightarrow>
    run_state \<Rightarrow> run_state outcome" where
  "pipeline env input_folder zoom_count pan_count shake_count rb st =
     (case listdir env input_folder of None \<Rightarrow> Raised (OSError input_folder) st | Some files \<Rightarrow>
      (case discover input_folder files of Inl e \<Rightarrow> Raised e st | Inr (images, audios, keys) \<Rightarrow>
       (let temp_folder = py_join input_folder ''temp'' in
        (case make_dirs env temp_folder st of Raised e st1 \<Rightarrow> Raised e st1 | Ok st1 \<Rightarrow>
         (let g = draw_groups rb keys zoom_count pan_count shake_count;
              ctx = \<lparr>ctx_groups = g, ctx_images = images, ctx_audios = audios,
                     ctx_temp = temp_folder, ctx_total = length keys\<rparr> in
          (case process_from env ctx 0 keys st1 of
             Raised e st2 \<Rightarrow> Raised e st2
           | Ok st2 \<Rightarrow> concatenate env input_folder temp_folder st2))))))"

text \<open>Lines 13--117: the \<open>except Exception\<close> of lines 115--117 catches everything.\<close>

definition create_video_with_ffmpeg :: "env \<Rightarrow> path \<Rightarrow> int \<Rightarrow> int \<Rightarrow> int \<Rightarrow> (nat \<Rightarrow> nat) \<Rightarrow>
    fs \<Rightarrow> run_state" where
  "create_video_with_ffmpeg env input_folder zoom_count pan_count shake_count rb fs0 =
     (case pipeline env input_folder zoom_count pan_count shake_count rb
             \<lparr>existing = fs0, video_parts = [], trace = []\<rparr> of
        Ok st \<Rightarrow> st
      | Raised e st \<Rightarrow> emit (Dialog (ErrorDialog e)) (emit (Log (LogError e)) st))"

subsection \<open>How the concat demuxer reads a manifest line\<close>

text \<open>
  ffmpeg's concat demuxer (\<open>libavformat/concatdec.c\<close>) reads the list line by line, a
  line ending at LF, CR or NUL (\<open>ff_read_line_to_bprint\<close>), and skips empty lines. A
  \<open>file\<close> line is followed by one token (\<open>av_get_token\<close>): inside single quotes every
  character is literal and a quote ends the quoted part, outside quotes a backslash
  escapes the next character and white space ends the token. A relative path is taken
  relative to the folder of the list file (\<open>ff_make_absolute_url\<close>); an absolute path
  is kept as written (the theorems below exclude \<open>.\<close> and \<open>..\<close> components, which
  ffmpeg may normalise).
\<close>

fun read_token :: "bool \<Rightarrow> string \<Rightarrow> string" where
  "read_token q [] = []"
| "read_token True (c # cs) = (if c = CHR 0x27 then read_token False cs else c # read_token True cs)"
| "read_token False (c # cs) =
     (if c = CHR 0x27 then read_token True cs
      else if c = CHR 0x5C then (case cs of d # ds \<Rightarrow> d # read_token False ds | [] \<Rightarrow> [])
      else if c = CHR '' '' \<or> c = CHR 0x09 then []
      else c # read_token False cs)"

definition read_entry :: "string \<Rightarrow> path option" where
  "read_entry line =
     (if take 5 line = ''file '' then Some (read_token False (drop 5 line)) else None)"

definition demux_lines :: "string \<Rightarrow> string list" where
  "demux_lines text =
     concat (map (py_split (CHR 0x00)) (concat (map (py_split (CHR 0x0D)) (py_split newline text))))"

definition dir_of :: "path \<Rightarrow> path" where
  "dir_of p = rev (dropWhile (\<lambda>c. c \<noteq> CHR ''/'') (rev p))"

definition resolve_entry :: "path \<Rightarrow> path \<Rightarrow> path" where
  "resolve_entry list_file p = (if take 1 p = ''/'' then p else dir_of list_file @ p)"

definition read_concat_list :: "path \<Rightarrow> string \<Rightarrow> path option list" where
  "read_concat_list list_file text =
     map (map_option (resolve_entry list_file) \<circ> read_entry) (filter (\<lambda>l. l \<noteq> []) (demux_lines text))"

definition line_end :: "char \<Rightarrow> bool" where
  "line_end c \<longleftrightarrow> c = newline \<or> c = CHR 0x0D \<or> c = CHR 0x00"

declare newline_def [model_defs] manifest_text_def [model_defs] write_file_def [model_defs]
  concat_cmd_def [model_defs] make_dirs_def [model_defs] concatenate_def [model_defs]
  pipeline_def [model_defs] create_video_with_ffmpeg_def [model_defs]
  read_entry_def [model_defs] read_concat_list_def [model_defs] demux_lines_def [model_defs]
  dir_of_def [model_defs] resolve_entry_def [model_defs] line_end_def [model_defs]

section \<open>Properties\<close>

lemma discover_keys_found:
  assumes "discover folder files = Inr (imgs, auds, ks)" "k \<in> set ks"
  shows "dict_get imgs k \<noteq> None \<and> dict_get auds k \<noteq> None"
proof -
  have "sorted_keys imgs auds = Inr ks" using discover_Inr [OF assms(1)] by blast
  then have "mset ks = mset (common_keys imgs auds)" using sorted_keys_Inr by blast
  then have "k \<in> set (common_keys imgs auds)" using assms(2) by (metis mset_eq_setD)
  then have "k \<in> dict_keys imgs" "k \<in> dict_keys auds" by (simp_all only: set_common_keys Int_iff)
  then show ?thesis
    unfolding dict_get_def by (metis keys_map_of_Some option.distinct(1))
qed

text \<open>C11: when a matched key is not an integer literal, \<open>sorted\<close> raises before anything
  else happens: the run logs the error and shows the error dialog, creates no temp folder
  and runs no ffmpeg process.\<close>

theorem create_video_invalid_key:
  assumes "listdir env folder = Some files" "discover folder files = Inl e"
  shows "create_video_with_ffmpeg env folder z p s rb fs0 =
     \<lparr>existing = fs0, video_parts = [], trace = [Log (LogError e), Dialog (ErrorDialog e)]\<rparr>"
  using assms by (simp add: create_video_with_ffmpeg_def pipeline_def emit_def)

lemma run_cmd_Ok_iff:
  "run_cmd env c st = Ok st' \<longleftrightarrow> (\<exists>fs'. ffmpeg env c (existing st) = Some fs' \<and> st' = (emit (Run c) st)\<lparr>existing := fs'\<rparr>)"
  by (auto simp: run_cmd_def Let_def split: option.splits)

lemma create_video_success_loop:
  assumes ls: "listdir env folder = Some files"
    and d: "discover folder files = Inr (imgs, auds, keys)"
    and mk: "can_create env (py_join folder ''temp'')"
    and wr: "can_create env (py_join (py_join folder ''temp'') ''file_list.txt'')"
    and mp3: "\<forall>k \<in> set keys. \<forall>p. dict_get auds k = Some p \<longrightarrow> mp3_length env p \<noteq> None"
    and ff: "\<forall>c fs. ffmpeg env c fs \<noteq> None"
  shows "\<exists>st2 :: run_state.
      process_from env \<lparr>ctx_groups = draw_groups rb keys z p s, ctx_images = imgs, ctx_audios = auds,
         ctx_temp = py_join folder ''temp'', ctx_total = length keys\<rparr> 0 keys
         \<lparr>existing = insert (py_join folder ''temp'') fs0, video_parts = [], trace = []\<rparr> = Ok st2
    \<and> trace (create_video_with_ffmpeg env folder z p s rb fs0) =
      trace st2 @ [Write (py_join (py_join folder ''temp'') ''file_list.txt'') (manifest_text (video_parts st2)),
        Run (concat_cmd (py_join (py_join folder ''temp'') ''file_list.txt'') (py_join folder ''output_video.mp4'')),
        Log LogDone, Dialog InfoSuccess]"
proof -
  let ?temp = "py_join folder ''temp''"
  let ?st1 = "\<lparr>existing = insert ?temp fs0, video_parts = [], trace = []\<rparr>"
  let ?ctx = "\<lparr>ctx_groups = draw_groups rb keys z p s, ctx_images = imgs, ctx_audios = auds,
              ctx_temp = ?temp, ctx_total = length keys\<rparr>"
  have ready: "\<forall>k \<in> set keys. segment_ready env ?ctx k"
    using discover_keys_found [OF d] mp3
    by (fastforce simp: segment_ready_def get_duration_def split: option.splits)
  obtain st2 where st2: "process_from env ?ctx 0 keys ?st1 = Ok st2"
    using process_from_Ok_exists [OF ready ff] by blast
  let ?cl = "py_join ?temp ''file_list.txt''"
  let ?out = "py_join folder ''output_video.mp4''"
  let ?st3 = "write_file ?cl (manifest_text (video_parts st2)) st2"
  obtain fs' where fs': "ffmpeg env (concat_cmd ?cl ?out) (existing ?st3) = Some fs'"
    using ff by blast
  have run: "run_cmd env (concat_cmd ?cl ?out) ?st3 = Ok ((emit (Run (concat_cmd ?cl ?out)) ?st3)\<lparr>existing := fs'\<rparr>)"
    using fs' by (simp add: run_cmd_Ok_iff)
  have tr: "trace (create_video_with_ffmpeg env folder z p s rb fs0) =
      trace st2 @ [Write ?cl (manifest_text (video_parts st2)), Run (concat_cmd ?cl ?out), Log LogDone, Dialog InfoSuccess]"
    using ls d mk wr st2 run
    by (simp add: create_video_with_ffmpeg_def pipeline_def make_dirs_def concatenate_def write_file_def Let_def)
  show ?thesis by (rule exI [of _ st2]) (intro conjI st2 tr)
qed

lemma create_video_success_trace:
  assumes ls: "listdir env folder = Some files"
    and d: "discover folder files = Inr (imgs, auds, keys)"
    and mk: "can_create env (py_join folder ''temp'')"
    and wr: "can_create env (py_join (py_join folder ''temp'') ''file_list.txt'')"
    and mp3: "\<forall>k \<in> set keys. \<forall>p. dict_get auds k = Some p \<longrightarrow> mp3_length env p \<noteq> None"
    and ff: "\<forall>c fs. ffmpeg env c fs \<noteq> None"
  shows "\<exists>st2 :: run_state. trace (create_video_with_ffmpeg env folder z p s rb fs0) =
      trace st2 @ [Write (py_join (py_join folder ''temp'') ''file_list.txt'') (manifest_text (video_parts st2)),
        Run (concat_cmd (py_join (py_join folder ''temp'') ''file_list.txt'') (py_join folder ''output_video.mp4'')),
        Log LogDone, Dialog InfoSuccess]
    \<and> progress_of (trace st2) = map (\<lambda>j. real (j + 1) / real (length keys) * 100) [0..<length keys]
    \<and> map last (runs_of (trace st2)) = map (part_path (py_join folder ''temp'')) keys"
proof -
  obtain st2 :: run_state where st2: "process_from env \<lparr>ctx_groups = draw_groups rb keys z p s,
         ctx_images = imgs, ctx_audios = auds, ctx_temp = py_join folder ''temp'', ctx_total = length keys\<rparr> 0 keys
         \<lparr>existing = insert (py_join folder ''temp'') fs0, video_parts = [], trace = []\<rparr> = Ok st2"
    and tr: "trace (create_video_with_ffmpeg env folder z p s rb fs0) =
      trace st2 @ [Write (py_join (py_join folder ''temp'') ''file_list.txt'') (manifest_text (video_parts st2)),
        Run (concat_cmd (py_join (py_join folder ''temp'') ''file_list.txt'') (py_join folder ''output_video.mp4'')),
        Log LogDone, Dialog InfoSuccess]"
    using create_video_success_loop [OF ls d mk wr mp3 ff] by blast
  have pr: "progress_of (trace st2) = map (\<lambda>j. real (j + 1) / real (length keys) * 100) [0..<length keys]"
    using process_from_progress [OF st2] by simp
  have rn: "map last (runs_of (trace st2)) = map (part_path (py_join folder ''temp'')) keys"
    using process_from_runs [OF st2] by simp
  show ?thesis by (rule exI [of _ st2]) (intro conjI tr pr rn)
qed
text \<open>C5: when the folder can be listed, every matched key is numeric, the temp folder
  and the manifest can be created, every audio file can be read and ffmpeg can be spawned,
  the run reaches the end whatever the renders produce: progress reports
  \<open>(i+1)/n*100\<close> once per segment in order, ffmpeg is run once per segment on that
  segment's clip, in key order, then once for the concatenation, and the trace ends with
  the done line and the success dialog.\<close>

theorem create_video_complete:
  assumes ls: "listdir env folder = Some files"
    and d: "discover folder files = Inr (imgs, auds, keys)"
    and mk: "can_create env (py_join folder ''temp'')"
    and wr: "can_create env (py_join (py_join folder ''temp'') ''file_list.txt'')"
    and mp3: "\<forall>k \<in> set keys. \<forall>p. dict_get auds k = Some p \<longrightarrow> mp3_length env p \<noteq> None"
    and ff: "\<forall>c fs. ffmpeg env c fs \<noteq> None"
  shows "progress_of (trace (create_video_with_ffmpeg env folder z p s rb fs0)) =
           map (\<lambda>j. real (j + 1) / real (length keys) * 100) [0..<length keys]
    \<and> map last (runs_of (trace (create_video_with_ffmpeg env folder z p s rb fs0))) =
           map (part_path (py_join folder ''temp'')) keys @ [py_join folder ''output_video.mp4'']
    \<and> drop (length (trace (create_video_with_ffmpeg env folder z p s rb fs0)) - 2)
        (trace (create_video_with_ffmpeg env folder z p s rb fs0)) = [Log LogDone, Dialog InfoSuccess]"
proof -
  obtain st2 :: run_state where tr: "trace (create_video_with_ffmpeg env folder z p s rb fs0) =
      trace st2 @ [Write (py_join (py_join folder ''temp'') ''file_list.txt'') (manifest_text (video_parts st2)),
        Run (concat_cmd (py_join (py_join folder ''temp'') ''file_list.txt'') (py_join folder ''output_video.mp4'')),
        Log LogDone, Dialog InfoSuccess]"
    and pr: "progress_of (trace st2) = map (\<lambda>j. real (j + 1) / real (length keys) * 100) [0..<length keys]"
    and rn: "map last (runs_of (trace st2)) = map (part_path (py_join folder ''temp'')) keys"
    using create_video_success_trace [OF ls d mk wr mp3 ff, of z p s rb fs0] by blast
  show ?thesis using tr pr rn by (simp add: concat_cmd_def)
qed

lemma loop_ext_no_write:
  "loop_ext st st' \<Longrightarrow> Write p t \<in> set (trace st') \<Longrightarrow> Write p t \<in> set (trace st)"
  by (force simp: loop_ext_def list_all_iff)

lemma run_cmd_trace:
  "trace (state_of (run_cmd env c st)) = trace st @ [Run c] \<and>
   video_parts (state_of (run_cmd env c st)) = video_parts st"
  by (simp add: run_cmd_def Let_def split: option.splits)

lemma concatenate_write:
  assumes "Write p t \<in> set (trace (state_of (concatenate env folder temp st)))"
  shows "Write p t \<in> set (trace st) \<or>
    (p = py_join temp ''file_list.txt'' \<and> t = manifest_text (video_parts st))"
proof (cases "can_create env (py_join temp ''file_list.txt'')")
  case False
  then show ?thesis using assms by (simp add: concatenate_def Let_def)
next
  case True
  let ?st1 = "write_file (py_join temp ''file_list.txt'') (manifest_text (video_parts st)) st"
  let ?c = "concat_cmd (py_join temp ''file_list.txt'') (py_join folder ''output_video.mp4'')"
  have "trace (state_of (concatenate env folder temp st)) = trace (state_of (run_cmd env ?c ?st1))
      \<or> trace (state_of (concatenate env folder temp st)) = trace (state_of (run_cmd env ?c ?st1)) @ [Log LogDone, Dialog InfoSuccess]"
    using True by (auto simp: concatenate_def Let_def split: outcome.splits)
  then have "Write p t \<in> set (trace ?st1)"
    using assms run_cmd_trace [of env ?c ?st1] by auto
  then show ?thesis by (auto simp: write_file_def)
qed

lemma pipeline_write:
  assumes w: "Write p t \<in> set (trace (state_of (pipeline env folder z ps s rb st0)))"
    and e: "trace st0 = []" "video_parts st0 = []"
  shows "\<exists>files imgs auds keys I. listdir env folder = Some files
     \<and> discover folder files = Inr (imgs, auds, keys)
     \<and> p = py_join (py_join folder ''temp'') ''file_list.txt''
     \<and> t = manifest_text (map (\<lambda>k. manifest_entry (part_path (py_join folder ''temp'') k)) (nths keys I))"
proof (cases "listdir env folder")
  case None
  then show ?thesis using w e by (simp add: pipeline_def)
next
  case (Some files)
  note ls = Some
  show ?thesis
  proof (cases "discover folder files")
    case (Inl err)
    then show ?thesis using w e ls by (simp add: pipeline_def)
  next
    case (Inr r)
    then obtain imgs auds keys where d: "discover folder files = Inr (imgs, auds, keys)"
      by (cases r) auto
    let ?temp = "py_join folder ''temp''"
    let ?st1 = "st0\<lparr>existing := insert ?temp (existing st0)\<rparr>"
    let ?ctx = "\<lparr>ctx_groups = draw_groups rb keys z ps s, ctx_images = imgs, ctx_audios = auds,
              ctx_temp = ?temp, ctx_total = length keys\<rparr>"
    show ?thesis
    proof (cases "can_create env ?temp")
      case False
      then show ?thesis using w e ls d by (simp add: pipeline_def make_dirs_def)
    next
      case True
      have pl: "pipeline env folder z ps s rb st0 =
          (case process_from env ?ctx 0 keys ?st1 of Raised e st2 \<Rightarrow> Raised e st2
           | Ok st2 \<Rightarrow> concatenate env folder ?temp st2)"
        using True ls d by (simp add: pipeline_def make_dirs_def Let_def)
      have fr: "loop_ext ?st1 (state_of (process_from env ?ctx 0 keys ?st1))"
        by (rule process_from_frame)
      show ?thesis
      proof (cases "process_from env ?ctx 0 keys ?st1")
        case (Raised err st2)
        then show ?thesis using w e pl fr loop_ext_no_write by fastforce
      next
        case (Ok st2)
        obtain I where I: "video_parts st2 = video_parts ?st1 @
            map (\<lambda>k. manifest_entry (part_path ?temp k)) (nths keys I)"
          using process_from_parts [OF Ok] by auto
        have "Write p t \<in> set (trace (state_of (concatenate env folder ?temp st2)))"
          using w pl Ok by simp
        then have "Write p t \<in> set (trace st2) \<or>
            (p = py_join ?temp ''file_list.txt'' \<and> t = manifest_text (video_parts st2))"
          by (rule concatenate_write)
        moreover have "Write p t \<notin> set (trace st2)"
          using fr Ok e loop_ext_no_write by fastforce
        ultimately show ?thesis using I e ls d by auto
      qed
    qed
  qed
qed

lemma progress_values_ok:
  assumes "m \<le> n"
  shows "sorted_wrt (<) (map (\<lambda>j. real (j + 1) / real n * 100) [0..<m])
    \<and> list_all (\<lambda>r. 0 < r \<and> r \<le> 100) (map (\<lambda>j. real (j + 1) / real n * 100) [0..<m])"
proof
  show "sorted_wrt (<) (map (\<lambda>j. real (j + 1) / real n * 100) [0..<m])"
    unfolding sorted_wrt_map
  proof (rule sorted_wrt_mono_rel [OF _ sorted_wrt_upt])
    fix x y assume "x \<in> set [0..<m]" "y \<in> set [0..<m]" "x < y"
    then have "0 < real n" "real (x + 1) < real (y + 1)" using assms by auto
    then show "real (x + 1) / real n * 100 < real (y + 1) / real n * 100"
      by (simp add: divide_strict_right_mono)
  qed
  show "list_all (\<lambda>r. 0 < r \<and> r \<le> 100) (map (\<lambda>j. real (j + 1) / real n * 100) [0..<m])"
    unfolding list_all_iff
  proof
    fix r assume "r \<in> set (map (\<lambda>j. real (j + 1) / real n * 100) [0..<m])"
    then obtain j where j: "j < m" "r = real (j + 1) / real n * 100" by auto
    then have n: "0 < real n" "real (j + 1) \<le> real n" using assms by auto
    then have "real (j + 1) / real n \<le> 1" by simp
    then have "real (j + 1) / real n * 100 \<le> 1 * 100" by (rule mult_right_mono) simp
    moreover have "0 < real (j + 1) / real n * 100" using n by simp
    ultimately show "0 < r \<and> r \<le> 100" using j(2) by simp
  qed
qed

lemma concatenate_progress:
  "progress_of (trace (state_of (concatenate env f t st))) = progress_of (trace st)"
  by (auto simp: concatenate_def run_cmd_def write_file_def Let_def split: option.splits outcome.splits)

lemma pipeline_progress:
  "\<exists>n m. m \<le> n \<and> progress_of (trace (state_of (pipeline env folder z p s rb st))) =
     progress_of (trace st) @ map (\<lambda>j. real (j + 1) / real n * 100) [0..<m]"
proof (cases "listdir env folder")
  case None
  then show ?thesis by (intro exI [of _ 0]) (simp add: pipeline_def)
next
  case (Some files)
  show ?thesis
  proof (cases "discover folder files")
    case (Inl e)
    then show ?thesis using Some by (intro exI [of _ 0]) (simp add: pipeline_def)
  next
    case (Inr r)
    then obtain imgs auds keys where d: "discover folder files = Inr (imgs, auds, keys)"
      by (cases r) auto
    let ?temp = "py_join folder ''temp''"
    let ?ctx = "\<lparr>ctx_groups = draw_groups rb keys z p s, ctx_images = imgs, ctx_audios = auds,
              ctx_temp = ?temp, ctx_total = length keys\<rparr>"
    show ?thesis
    proof (cases "can_create env ?temp")
      case False
      then show ?thesis using Some d by (intro exI [of _ 0]) (simp add: pipeline_def make_dirs_def)
    next
      case True
      let ?st1 = "st\<lparr>existing := insert ?temp (existing st)\<rparr>"
      have pl: "pipeline env folder z p s rb st =
          (case process_from env ?ctx 0 keys ?st1 of Raised e st2 \<Rightarrow> Raised e st2
           | Ok st2 \<Rightarrow> concatenate env folder ?temp st2)"
        using True Some d by (simp add: pipeline_def make_dirs_def Let_def)
      have eq: "progress_of (trace (state_of (pipeline env folder z p s rb st))) =
          progress_of (trace (state_of (process_from env ?ctx 0 keys ?st1)))"
        unfolding pl by (simp add: concatenate_progress split: outcome.split)
      obtain m where m: "m \<le> length keys"
        and pm0: "progress_of (trace (state_of (process_from env ?ctx 0 keys ?st1))) =
          progress_of (trace ?st1) @ map (\<lambda>j. real (j + 1) / real (ctx_total ?ctx) * 100) [0..<0 + m]"
        using process_from_progress_prefix [of keys env ?ctx 0 ?st1] by blast
      then have pm: "progress_of (trace (state_of (process_from env ?ctx 0 keys ?st1))) =
          progress_of (trace st) @ map (\<lambda>j. real (j + 1) / real (length keys) * 100) [0..<m]"
        by simp
      show ?thesis using eq pm m by (intro exI [of _ "length keys"] exI [of _ m]) simp
    qed
  qed
qed

text \<open>C6: whatever the folder, the tools and the random draw, the progress values a run
  reports rise strictly and lie in \<open>(0, 100]\<close>: failures stop the reports but never
  move the bar back or past the end.\<close>

theorem create_video_progress_bounded:
  "sorted_wrt (<) (progress_of (trace (create_video_with_ffmpeg env folder z p s rb fs0)))
   \<and> list_all (\<lambda>r. 0 < r \<and> r \<le> 100) (progress_of (trace (create_video_with_ffmpeg env folder z p s rb fs0)))"
proof -
  obtain n m where "m \<le> n" and pm: "progress_of (trace (state_of (pipeline env folder z p s rb
      \<lparr>existing = fs0, video_parts = [], trace = []\<rparr>))) = map (\<lambda>j. real (j + 1) / real n * 100) [0..<m]"
    using pipeline_progress [of env folder z p s rb "\<lparr>existing = fs0, video_parts = [], trace = []\<rparr>"] by auto
  moreover have "progress_of (trace (create_video_with_ffmpeg env folder z p s rb fs0)) =
      progress_of (trace (state_of (pipeline env folder z p s rb \<lparr>existing = fs0, video_parts = [], trace = []\<rparr>)))"
    by (simp add: create_video_with_ffmpeg_def split: outcome.split)
  ultimately show ?thesis using progress_values_ok by metis
qed

lemma concatenate_runs_shape:
  "\<exists>cs. runs_of (trace (state_of (concatenate env f t st))) = runs_of (trace st) @ cs
     \<and> length cs \<le> 1 \<and> list_all (\<lambda>c. take 2 c = [''ffmpeg'', ''-y'']) cs"
  by (auto simp: concatenate_def run_cmd_def write_file_def concat_cmd_def Let_def
      split: option.splits outcome.splits)

lemma pipeline_runs_shape:
  "\<exists>cs. runs_of (trace (state_of (pipeline env folder z p s rb st))) = runs_of (trace st) @ cs
     \<and> length cs \<le> (case listdir env folder of None \<Rightarrow> 0 | Some files \<Rightarrow>
          (case discover folder files of Inl e \<Rightarrow> 0 | Inr (imgs, auds, keys) \<Rightarrow> length keys + 1))
     \<and> list_all (\<lambda>c. take 2 c = [''ffmpeg'', ''-y'']) cs"
proof (cases "listdir env folder")
  case None
  then show ?thesis by (intro exI [of _ "[]"]) (simp add: pipeline_def)
next
  case (Some files)
  show ?thesis
  proof (cases "discover folder files")
    case (Inl e)
    then show ?thesis using Some by (intro exI [of _ "[]"]) (simp add: pipeline_def)
  next
    case (Inr r)
    then obtain imgs auds keys where d: "discover folder files = Inr (imgs, auds, keys)"
      by (cases r) auto
    let ?temp = "py_join folder ''temp''"
    let ?ctx = "\<lparr>ctx_groups = draw_groups rb keys z p s, ctx_images = imgs, ctx_audios = auds,
              ctx_temp = ?temp, ctx_total = length keys\<rparr>"
    show ?thesis
    proof (cases "can_create env ?temp")
      case False
      then show ?thesis using Some d by (intro exI [of _ "[]"]) (simp add: pipeline_def make_dirs_def)
    next
      case True
      let ?st1 = "st\<lparr>existing := insert ?temp (existing st)\<rparr>"
      have pl: "pipeline env folder z p s rb st =
          (case process_from env ?ctx 0 keys ?st1 of Raised e st2 \<Rightarrow> Raised e st2
           | Ok st2 \<Rightarrow> concatenate env folder ?temp st2)"
        using True Some d by (simp add: pipeline_def make_dirs_def Let_def)
      obtain cs where cs: "runs_of (trace (state_of (process_from env ?ctx 0 keys ?st1))) = runs_of (trace ?st1) @ cs"
          "length cs \<le> length keys" "list_all (\<lambda>c. take 2 c = [''ffmpeg'', ''-y'']) cs"
        using process_from_runs_shape by blast
      show ?thesis
      proof (cases "process_from env ?ctx 0 keys ?st1")
        case (Raised e st2)
        then show ?thesis using pl cs Some d by (intro exI [of _ cs]) simp
      next
        case (Ok st2)
        obtain ds where ds: "runs_of (trace (state_of (concatenate env folder ?temp st2))) = runs_of (trace st2) @ ds"
            "length ds \<le> 1" "list_all (\<lambda>c. take 2 c = [''ffmpeg'', ''-y'']) ds"
          using concatenate_runs_shape by blast
        show ?thesis using pl Ok cs ds Some d by (intro exI [of _ "cs @ ds"]) simp
      qed
    qed
  qed
qed

lemma create_video_runs:
  "runs_of (trace (create_video_with_ffmpeg env folder z p s rb fs0)) =
     runs_of (trace (state_of (pipeline env folder z p s rb \<lparr>existing = fs0, video_parts = [], trace = []\<rparr>)))"
  by (simp add: create_video_with_ffmpeg_def emit_def split: outcome.split)

text \<open>C9: every external command the run starts is an ffmpeg invocation with
  \<open>-y\<close> (overwrite without asking): the argument vector starts with \<open>ffmpeg\<close>,
  \<open>-y\<close>, whatever the folder, the files and the draw.\<close>

theorem create_video_ffmpeg_argv:
  "list_all (\<lambda>c. take 2 c = [''ffmpeg'', ''-y'']) (runs_of (trace (create_video_with_ffmpeg env folder z p s rb fs0)))"
  using pipeline_runs_shape [of env folder z p s rb "\<lparr>existing = fs0, video_parts = [], trace = []\<rparr>"]
  by (auto simp: create_video_runs)

text \<open>C8: no retries: a run starts ffmpeg at most once per matched pair plus once for
  the concatenation, and not at all when the folder cannot be listed or a key is not
  numeric.\<close>

theorem create_video_runs_bound:
  "length (runs_of (trace (create_video_with_ffmpeg env folder z p s rb fs0)))
     \<le> (case listdir env folder of None \<Rightarrow> 0 | Some files \<Rightarrow>
          (case discover folder files of Inl e \<Rightarrow> 0 | Inr (imgs, auds, keys) \<Rightarrow> length keys + 1))"
  using pipeline_runs_shape [of env folder z p s rb "\<lparr>existing = fs0, video_parts = [], trace = []\<rparr>"]
  by (auto simp: create_video_runs)

text \<open>C2: every manifest the run writes lists, under \<open>folder/temp\<close>, the clips of a list
  of distinct keys in ascending numeric order, whichever keys got which effect and
  whichever renders failed.\<close>

theorem create_video_manifest_sorted:
  assumes "Write p t \<in> set (trace (create_video_with_ffmpeg env folder z ps s rb fs0))"
  shows "\<exists>ks. int_sorted ks \<and> distinct ks
     \<and> p = py_join (py_join folder ''temp'') ''file_list.txt''
     \<and> t = manifest_text (map (\<lambda>k. manifest_entry (part_path (py_join folder ''temp'') k)) ks)"
proof -
  let ?st0 = "\<lparr>existing = fs0, video_parts = [], trace = []\<rparr>"
  have "Write p t \<in> set (trace (state_of (pipeline env folder z ps s rb ?st0)))"
    using assms by (cases "pipeline env folder z ps s rb ?st0") (auto simp: create_video_with_ffmpeg_def)
  then obtain files imgs auds keys I where
      d: "discover folder files = Inr (imgs, auds, keys)"
      and pt: "p = py_join (py_join folder ''temp'') ''file_list.txt''
     \<and> t = manifest_text (map (\<lambda>k. manifest_entry (part_path (py_join folder ''temp'') k)) (nths keys I))"
    using pipeline_write [of p t env folder z ps s rb ?st0] by auto
  have "distinct keys \<and> int_sorted keys" using discover_sorted_distinct [OF d] by blast
  then have "int_sorted (nths keys I) \<and> distinct (nths keys I)"
    by (simp add: int_sorted_nths)
  then show ?thesis using pt by blast
qed

text \<open>A folder with two pairs, listed out of order, whose tools always run: the
  hypotheses of the success theorems at a concrete input.\<close>

lemma demo_ready:
  fixes F :: "argv \<Rightarrow> fs \<Rightarrow> fs option"
  defines "E \<equiv> \<lparr>listdir = (\<lambda>p. Some [''2.mp3'', ''1.jpg'', ''2.jpg'', ''1.mp3'']),
     mp3_length = (\<lambda>p. Some (7::real)), ffmpeg = F, can_create = (\<lambda>p. True), fmt = (\<lambda>r. ''7'')\<rparr>"
  assumes "\<forall>c fs. F c fs \<noteq> None"
  shows "listdir E ''/in'' = Some [''2.mp3'', ''1.jpg'', ''2.jpg'', ''1.mp3'']"
    and "discover ''/in'' [''2.mp3'', ''1.jpg'', ''2.jpg'', ''1.mp3''] =
      Inr ([(''1'', ''/in/1.jpg''), (''2'', ''/in/2.jpg'')], [(''2'', ''/in/2.mp3''), (''1'', ''/in/1.mp3'')], [''1'', ''2''])"
    and "can_create E (py_join ''/in'' ''temp'')"
    and "can_create E (py_join (py_join ''/in'' ''temp'') ''file_list.txt'')"
    and "\<forall>k \<in> set [''1'', ''2'']. \<forall>p. dict_get [(''2'', ''/in/2.mp3''), (''1'', ''/in/1.mp3'')] k = Some p \<longrightarrow> mp3_length E p \<noteq> None"
    and "\<forall>c fs. ffmpeg E c fs \<noteq> None"
  using assms by (simp_all add: model_defs eval_simps)

theorem create_video_manifest_sorted_witness:
  "\<exists>ks. int_sorted ks \<and> distinct ks
     \<and> ''/in/temp/file_list.txt'' = py_join (py_join ''/in'' ''temp'') ''file_list.txt''
     \<and> manifest_text [manifest_entry ''/in/temp/part_1.mp4''] =
        manifest_text (map (\<lambda>k. manifest_entry (part_path (py_join ''/in'' ''temp'') k)) ks)"
proof -
  have w: "Write ''/in/temp/file_list.txt'' (manifest_text [manifest_entry ''/in/temp/part_1.mp4''])
    \<in> set (trace (create_video_with_ffmpeg
      \<lparr>listdir = (\<lambda>p. if p = ''/in'' then Some [''1.jpg'', ''1.mp3''] else None),
       mp3_length = (\<lambda>p. Some 7), ffmpeg = (\<lambda>c fs. Some (insert (last c) fs)),
       can_create = (\<lambda>p. True), fmt = (\<lambda>r. ''7'')\<rparr> ''/in'' 1 0 0 (\<lambda>i. 0) {}))"
    by (simp add: model_defs eval_simps Let_def)
  show ?thesis by (rule create_video_manifest_sorted [OF w])
qed

theorem create_video_complete_witness:
  "progress_of (trace (create_video_with_ffmpeg
      \<lparr>listdir = (\<lambda>p. Some [''2.mp3'', ''1.jpg'', ''2.jpg'', ''1.mp3'']), mp3_length = (\<lambda>p. Some 7),
       ffmpeg = (\<lambda>c fs. Some (if last c = ''/in/temp/part_1.mp4'' then fs else insert (last c) fs)),
       can_create = (\<lambda>p. True), fmt = (\<lambda>r. ''7'')\<rparr> ''/in'' 1 1 1 (\<lambda>i. 0) {})) = [50, 100]"
proof -
  have "\<forall>c fs. (\<lambda>c fs. Some (if last c = ''/in/temp/part_1.mp4'' then fs else insert (last c) fs)) c fs \<noteq> (None :: fs option)"
    by simp
  from create_video_complete [OF demo_ready [OF this], of 1 1 1 "\<lambda>i. 0" "{}"]
  show ?thesis by (simp add: upt_rec)
qed

theorem create_video_invalid_key_witness:
  "create_video_with_ffmpeg \<lparr>listdir = (\<lambda>p. Some [''a.jpg'', ''a.mp3'']), mp3_length = (\<lambda>p. None),
       ffmpeg = (\<lambda>c fs. None), can_create = (\<lambda>p. True), fmt = (\<lambda>r. [])\<rparr> ''/in'' 1 1 1 (\<lambda>i. 0) {} =
     \<lparr>existing = {}, video_parts = [],
      trace = [Log (LogError (ValueError ''a'')), Dialog (ErrorDialog (ValueError ''a''))]\<rparr>"
proof -
  define E where "E = \<lparr>listdir = (\<lambda>p. Some [''a.jpg'', ''a.mp3'']), mp3_length = (\<lambda>p. None :: real option),
       ffmpeg = (\<lambda>c fs. None), can_create = (\<lambda>p. True), fmt = (\<lambda>r. [])\<rparr>"
  have ls: "listdir E ''/in'' = Some [''a.jpg'', ''a.mp3'']" by (simp add: E_def)
  have d: "discover ''/in'' [''a.jpg'', ''a.mp3''] = Inl (ValueError ''a'')"
    by (simp add: model_defs eval_simps)
  show ?thesis using create_video_invalid_key [OF ls d, of 1 1 1 "\<lambda>i. 0" "{}"] by (simp add: E_def)
qed

subsection \<open>The manifest as the concat demuxer reads it\<close>

lemma read_token_quoted:
  "CHR 0x27 \<notin> set p \<Longrightarrow> read_token True (p @ CHR 0x27 # rest) = p @ read_token False rest"
  by (induction p) auto

lemma demux_lines_join:
  assumes "xs \<noteq> []" "\<forall>x \<in> set xs. \<forall>c \<in> set x. \<not> line_end c"
  shows "demux_lines (py_str_join [newline] xs) = xs"
proof -
  have nl: "\<forall>x \<in> set xs. newline \<notin> set x" and cr: "\<forall>x \<in> set xs. CHR 0x0D \<notin> set x"
    and nul: "\<forall>x \<in> set xs. CHR 0x00 \<notin> set x"
    using assms(2) unfolding line_end_def by blast+
  have "py_split newline (py_str_join [newline] xs) = xs" using assms(1) nl by (rule py_split_join)
  then show ?thesis by (simp add: demux_lines_def concat_split_no_sep [OF cr] concat_split_no_sep [OF nul])
qed



lemma set_clip_path:
  "set (part_path (py_join folder ''temp'') k) \<subseteq>
     set folder \<union> set k \<union> set ''temp'' \<union> set ''part_'' \<union> set ''.mp4'' \<union> {CHR ''/''}"
  using set_py_join [of folder "''temp''"] set_py_join [of "py_join folder ''temp''" "''part_'' @ k @ ''.mp4''"]
  unfolding part_path_def set_append by blast

lemma clip_path_chars:
  assumes "\<forall>c \<in> set folder. P c" "\<forall>c \<in> set k. P c"
    "\<forall>c \<in> set ''temp'' \<union> set ''part_'' \<union> set ''.mp4'' \<union> {CHR ''/''}. P c"
  shows "\<forall>c \<in> set (part_path (py_join folder ''temp'') k). P c"
  using set_clip_path [of folder k] assms by blast

lemma clip_path_abs: "take 1 folder = ''/'' \<Longrightarrow> take 1 (part_path (py_join folder ''temp'') k) = ''/''"
  unfolding part_path_def by (rule py_join_abs [OF py_join_abs]) simp_all


lemma read_entry_manifest_entry_token:
  "read_entry (manifest_entry p) = Some (read_token True (p @ [CHR 0x27]))"
  by (simp add: read_entry_def manifest_entry_def squote_def)

lemma read_concat_list_entries:
  assumes "\<forall>p \<in> set ps. \<forall>c \<in> set p. \<not> line_end c"
  shows "read_concat_list l (manifest_text (map manifest_entry ps)) =
    map (\<lambda>p. Some (resolve_entry l (read_token True (p @ [CHR 0x27])))) ps"
proof (cases "ps = []")
  case True
  then show ?thesis by (simp add: read_concat_list_def manifest_text_def demux_lines_def)
next
  case False
  have "\<forall>x \<in> set (map manifest_entry ps). \<forall>c \<in> set x. \<not> line_end c"
    using assms by (auto simp: manifest_entry_def squote_def line_end_def newline_def)
  then have "demux_lines (manifest_text (map manifest_entry ps)) = map manifest_entry ps"
    using False by (simp add: manifest_text_def demux_lines_join)
  moreover have "filter (\<lambda>l. l \<noteq> []) (map manifest_entry ps) = map manifest_entry ps"
    by (simp add: manifest_entry_def)
  ultimately show ?thesis by (simp add: read_concat_list_def read_entry_manifest_entry_token)
qed

text \<open>C13: the manifest round trip: for an absolute input folder with no single quote, no
  line terminator (LF, CR or NUL) and no \<open>.\<close> or \<open>..\<close> component, and keys without
  those characters, ffmpeg's concat demuxer reads back from \<open>folder/temp/file_list.txt\<close>
  exactly the clip paths the script wrote, in order.\<close>

theorem manifest_roundtrip:
  assumes "take 1 folder = ''/''"
    and "\<forall>c \<in> set folder. c \<noteq> CHR 0x27 \<and> \<not> line_end c"
    and "''.'' \<notin> set (py_split (CHR ''/'') folder) \<and> ''..'' \<notin> set (py_split (CHR ''/'') folder)"
    and "\<forall>k \<in> set ks. \<forall>c \<in> set k. c \<noteq> CHR 0x27 \<and> \<not> line_end c"
  shows "read_concat_list (py_join (py_join folder ''temp'') ''file_list.txt'')
      (manifest_text (map (\<lambda>k. manifest_entry (part_path (py_join folder ''temp'') k)) ks))
    = map (\<lambda>k. Some (part_path (py_join folder ''temp'') k)) ks"
proof -
  let ?T = "py_join folder ''temp''"
  have ok: "\<forall>c \<in> set (part_path ?T k). c \<noteq> CHR 0x27 \<and> \<not> line_end c" if "k \<in> set ks" for k
    using assms(2) assms(4) that
    by (intro clip_path_chars) (auto simp: line_end_def newline_def)
  have abs: "take 1 (part_path ?T k) = ''/''" for k
    using assms(1) by (rule clip_path_abs)
  have tok: "read_token True (part_path ?T k @ [CHR 0x27]) = part_path ?T k" if "k \<in> set ks" for k
  proof -
    have "CHR 0x27 \<notin> set (part_path ?T k)" using ok [OF that] by blast
    then show ?thesis using read_token_quoted [of "part_path ?T k" "[]"] by simp
  qed
  have "map (\<lambda>k. manifest_entry (part_path ?T k)) ks = map manifest_entry (map (part_path ?T) ks)" by simp
  then have eq: "read_concat_list (py_join ?T ''file_list.txt'') (manifest_text (map (\<lambda>k. manifest_entry (part_path ?T k)) ks)) =
      map (\<lambda>k. Some (resolve_entry (py_join ?T ''file_list.txt'') (read_token True (part_path ?T k @ [CHR 0x27])))) ks"
    using read_concat_list_entries [of "map (part_path ?T) ks" "py_join ?T ''file_list.txt''"] ok
    by (auto simp: comp_def)
  have "resolve_entry (py_join ?T ''file_list.txt'') (read_token True (part_path ?T k @ [CHR 0x27])) =
      part_path ?T k" if "k \<in> set ks" for k
    unfolding tok [OF that] resolve_entry_def using abs [of k] by simp
  then show ?thesis unfolding eq by simp
qed



theorem manifest_roundtrip_witness:
  "read_concat_list (py_join (py_join ''/in'' ''temp'') ''file_list.txt'')
      (manifest_text (map (\<lambda>k. manifest_entry (part_path (py_join ''/in'' ''temp'') k)) [''1'', ''2'']))
    = map (\<lambda>k. Some (part_path (py_join ''/in'' ''temp'') k)) [''1'', ''2'']"
proof (rule manifest_roundtrip)
  show "take 1 ''/in'' = ''/''" by simp
  show "\<forall>c \<in> set ''/in''. c \<noteq> CHR 0x27 \<and> \<not> line_end c" by (simp add: line_end_def newline_def)
  show "''.'' \<notin> set (py_split (CHR ''/'') ''/in'') \<and> ''..'' \<notin> set (py_split (CHR ''/'') ''/in'')" by simp
  show "\<forall>k \<in> set [''1'', ''2'']. \<forall>c \<in> set k. c \<noteq> CHR 0x27 \<and> \<not> line_end c"
    by (simp add: line_end_def newline_def)
qed



subsection \<open>An unreadable MP3 and a folder without pairs\<close>

lemma process_from_append:
  "process_from env ctx i (xs @ ys) st =
     (case process_from env ctx i xs st of Raised e s \<Rightarrow> Raised e s
      | Ok s \<Rightarrow> process_from env ctx (i + length xs) ys s)"
  by (induction xs arbitrary: i st) (auto split: outcome.split)

lemma loop_ext_from_empty: "trace st = [] \<Longrightarrow> loop_ext st st' \<Longrightarrow> list_all loop_event (trace st')"
  by (simp add: loop_ext_def)

text \<open>C28: an MP3 that mutagen cannot read (line 37) aborts the whole run at its segment:
  the segments before it are rendered and reported, then the segment's \<open>Processing\<close> line,
  the error line and the error dialog end the trace; there is no manifest, no
  concatenation, no \<open>Done\<close> line and the progress stops short of 100.\<close>

theorem create_video_unreadable_mp3:
  assumes ls: "listdir env folder = Some files"
    and d: "discover folder files = Inr (imgs, auds, keys)"
    and mk: "can_create env (py_join folder ''temp'')"
    and ff: "\<forall>c fs. ffmpeg env c fs \<noteq> None"
    and ks: "keys = ks1 @ k # ks2"
    and ok: "\<forall>k' \<in> set ks1. \<forall>p. dict_get auds k' = Some p \<longrightarrow> mp3_length env p \<noteq> None"
    and bad: "dict_get auds k = Some mp3" "mp3_length env mp3 = None"
  shows "\<exists>evs. trace (create_video_with_ffmpeg env folder z p s rb fs0) =
      evs @ [Log (LogProcessing k), Log (LogError (MP3Error mp3)), Dialog (ErrorDialog (MP3Error mp3))]
    \<and> progress_of evs = map (\<lambda>j. real (j + 1) / real (length keys) * 100) [0..<length ks1]
    \<and> map last (runs_of evs) = map (part_path (py_join folder ''temp'')) ks1
    \<and> list_all loop_event evs"
proof -
  let ?temp = "py_join folder ''temp''"
  let ?st1 = "\<lparr>existing = insert ?temp fs0, video_parts = [], trace = []\<rparr>"
  let ?ctx = "\<lparr>ctx_groups = draw_groups rb keys z p s, ctx_images = imgs, ctx_audios = auds,
              ctx_temp = ?temp, ctx_total = length keys\<rparr>"
  have ready: "\<forall>k' \<in> set ks1. segment_ready env ?ctx k'"
    using discover_keys_found [OF d] ok ks
    by (fastforce simp: segment_ready_def get_duration_def split: option.splits)
  obtain st2 where st2: "process_from env ?ctx 0 ks1 ?st1 = Ok st2"
    using process_from_Ok_exists [OF ready ff] by blast
  have img: "dict_get imgs k \<noteq> None" using discover_keys_found [OF d] ks by simp
  have seg: "process_segment env ?ctx (length ks1) k st2 =
      Raised (MP3Error mp3) (emit (Log (LogProcessing k)) st2)"
    using img bad by (auto simp: process_segment_def get_duration_def Let_def)
  have loop: "process_from env ?ctx 0 keys ?st1 = Raised (MP3Error mp3) (emit (Log (LogProcessing k)) st2)"
    using st2 seg ks by (simp add: process_from_append)
  have tr: "trace (create_video_with_ffmpeg env folder z p s rb fs0) =
      trace st2 @ [Log (LogProcessing k), Log (LogError (MP3Error mp3)), Dialog (ErrorDialog (MP3Error mp3))]"
    using ls d mk loop by (simp add: create_video_with_ffmpeg_def pipeline_def make_dirs_def Let_def)
  have pr: "progress_of (trace st2) = map (\<lambda>j. real (j + 1) / real (length keys) * 100) [0..<length ks1]"
    using process_from_progress [OF st2] by simp
  have rn: "map last (runs_of (trace st2)) = map (part_path ?temp) ks1"
    using process_from_runs [OF st2] by simp
  have le: "list_all loop_event (trace st2)"
    using process_from_frame [of ?st1 env ?ctx 0 ks1] st2 by (intro loop_ext_from_empty [of ?st1]) simp_all
  show ?thesis using tr pr rn le by blast
qed

theorem create_video_unreadable_mp3_witness:
  "\<exists>evs. trace (create_video_with_ffmpeg \<lparr>listdir = (\<lambda>p. Some [''1.jpg'', ''2.jpg'', ''1.mp3'', ''2.mp3'']),
       mp3_length = (\<lambda>p. if p = ''/in/2.mp3'' then None else Some 7),
       ffmpeg = (\<lambda>c fs. Some (insert (last c) fs)), can_create = (\<lambda>p. True), fmt = (\<lambda>r. ''7'')\<rparr> ''/in'' 1 1 1 (\<lambda>i. 0) {}) =
      evs @ [Log (LogProcessing ''2''), Log (LogError (MP3Error ''/in/2.mp3'')),
             Dialog (ErrorDialog (MP3Error ''/in/2.mp3''))]
    \<and> progress_of evs = map (\<lambda>j. real (j + 1) / real (length [''1'', ''2'']) * 100) [0..<length [''1'']]
    \<and> map last (runs_of evs) = map (part_path (py_join ''/in'' ''temp'')) [''1'']
    \<and> list_all loop_event evs"
proof -
  define E where "E = \<lparr>listdir = (\<lambda>p. Some [''1.jpg'', ''2.jpg'', ''1.mp3'', ''2.mp3'']),
       mp3_length = (\<lambda>p. if p = ''/in/2.mp3'' then None else Some 7),
       ffmpeg = (\<lambda>c fs. Some (insert (last c) fs)), can_create = (\<lambda>p. True), fmt = (\<lambda>r. ''7'')\<rparr>"
  have d: "discover ''/in'' [''1.jpg'', ''2.jpg'', ''1.mp3'', ''2.mp3''] =
      Inr ([(''1'', ''/in/1.jpg''), (''2'', ''/in/2.jpg'')], [(''1'', ''/in/1.mp3''), (''2'', ''/in/2.mp3'')],
           [''1'', ''2''])"
    by (simp add: model_defs eval_simps)
  have "\<forall>k' \<in> set [''1'']. \<forall>p. dict_get [(''1'', ''/in/1.mp3''), (''2'', ''/in/2.mp3'')] k' = Some p
      \<longrightarrow> mp3_length E p \<noteq> None"
    by (simp add: E_def dict_get_def)
  moreover have "dict_get [(''1'', ''/in/1.mp3''), (''2'', ''/in/2.mp3'')] ''2'' = Some ''/in/2.mp3''"
    by (simp add: dict_get_def)
  ultimately have "\<exists>evs. trace (create_video_with_ffmpeg E ''/in'' 1 1 1 (\<lambda>i. 0) {}) =
      evs @ [Log (LogProcessing ''2''), Log (LogError (MP3Error ''/in/2.mp3'')),
             Dialog (ErrorDialog (MP3Error ''/in/2.mp3''))]
    \<and> progress_of evs = map (\<lambda>j. real (j + 1) / real (length [''1'', ''2'']) * 100) [0..<length [''1'']]
    \<and> map last (runs_of evs) = map (part_path (py_join ''/in'' ''temp'')) [''1'']
    \<and> list_all loop_event evs"
    by (intro create_video_unreadable_mp3 [OF _ d]) (simp_all add: E_def)
  then show ?thesis by (simp only: E_def)
qed

lemma manifest_text_Nil: "manifest_text [] = []"
  by (simp add: manifest_text_def model_defs)

text \<open>C29: a folder with no image and audio pair of the same name (lines 16--19 give an
  empty \<open>keys\<close>) renders nothing and reports no progress, yet the run writes an empty
  manifest, runs the concatenation on it, logs \<open>Done\<close> and shows the success dialog.\<close>

theorem create_video_no_pairs:
  assumes ls: "listdir env folder = Some files"
    and d: "discover folder files = Inr (imgs, auds, [])"
    and mk: "can_create env (py_join folder ''temp'')"
    and wr: "can_create env (py_join (py_join folder ''temp'') ''file_list.txt'')"
    and ff: "\<forall>c fs. ffmpeg env c fs \<noteq> None"
  shows "trace (create_video_with_ffmpeg env folder z p s rb fs0) =
    [Write (py_join (py_join folder ''temp'') ''file_list.txt'') [],
     Run (concat_cmd (py_join (py_join folder ''temp'') ''file_list.txt'') (py_join folder ''output_video.mp4'')),
     Log LogDone, Dialog InfoSuccess]"
proof -
  obtain st2 :: run_state where
    st2: "process_from env \<lparr>ctx_groups = draw_groups rb [] z p s, ctx_images = imgs, ctx_audios = auds,
         ctx_temp = py_join folder ''temp'', ctx_total = 0\<rparr> 0 []
         \<lparr>existing = insert (py_join folder ''temp'') fs0, video_parts = [], trace = []\<rparr> = Ok st2"
    and tr: "trace (create_video_with_ffmpeg env folder z p s rb fs0) =
      trace st2 @ [Write (py_join (py_join folder ''temp'') ''file_list.txt'') (manifest_text (video_parts st2)),
        Run (concat_cmd (py_join (py_join folder ''temp'') ''file_list.txt'') (py_join folder ''output_video.mp4'')),
        Log LogDone, Dialog InfoSuccess]"
    using create_video_success_loop [OF ls d mk wr _ ff] by auto
  then show ?thesis by (auto simp: manifest_text_Nil)
qed

theorem create_video_no_pairs_witness:
  "trace (create_video_with_ffmpeg \<lparr>listdir = (\<lambda>p. Some [''1.jpg'', ''2.mp3'']), mp3_length = (\<lambda>p. Some 7),
       ffmpeg = (\<lambda>c fs. Some (insert (last c) fs)), can_create = (\<lambda>p. True), fmt = (\<lambda>r. ''7'')\<rparr> ''/in'' 1 1 1 (\<lambda>i. 0) {}) =
    [Write (py_join (py_join ''/in'' ''temp'') ''file_list.txt'') [],
     Run (concat_cmd (py_join (py_join ''/in'' ''temp'') ''file_list.txt'') (py_join ''/in'' ''output_video.mp4'')),
     Log LogDone, Dialog InfoSuccess]"
proof -
  define E where "E = \<lparr>listdir = (\<lambda>p. Some [''1.jpg'', ''2.mp3'']), mp3_length = (\<lambda>p. Some 7),
       ffmpeg = (\<lambda>c fs. Some (insert (last c) fs)), can_create = (\<lambda>p. True), fmt = (\<lambda>r. ''7'')\<rparr>"
  have d: "discover ''/in'' [''1.jpg'', ''2.mp3''] = Inr ([(''1'', ''/in/1.jpg'')], [(''2'', ''/in/2.mp3'')], [])"
    by (simp add: model_defs eval_simps)
  have "trace (create_video_with_ffmpeg E ''/in'' 1 1 1 (\<lambda>i. 0) {}) =
    [Write (py_join (py_join ''/in'' ''temp'') ''file_list.txt'') [],
     Run (concat_cmd (py_join (py_join ''/in'' ''temp'') ''file_list.txt'') (py_join ''/in'' ''output_video.mp4'')),
     Log LogDone, Dialog InfoSuccess]"
    by (rule create_video_no_pairs [OF _ d]) (simp_all add: E_def)
  then show ?thesis by (simp only: E_def)
qed

end
