(* ===== verification/Segment_Spec.thy ===== *)
theory Segment_Spec
  imports Pipeline
begin

text \<open>
  The segment loop as the specification describes it (sections 4.3--4.5), and its
  refinement by the code. Abstractly a run over the keys in order keeps the keys whose
  clip was produced, the keys whose render failed, and the progress values reported;
  whether a render succeeds is not the program's choice, so the specification is
  parameterised by one success flag per segment. The concrete loop \<open>process_from\<close>
  refines it: from related states, every completed run of the loop is related to the
  specification's run on the same keys for some success flags.
\<close>

section \<open>Definitions\<close>

record seg_abs =
  produced :: "key list"
  failed :: "key list"
  reported :: "real list"

text \<open>One segment: a produced clip is kept, a failed one is reported, and progress
  advances in both cases.\<close>

definition spec_segment :: "nat \<Rightarrow> nat \<Rightarrow> key \<times> bool \<Rightarrow> seg_abs \<Rightarrow> seg_abs" where
  "spec_segment tot i ko a =
     (case ko of (k, ok) \<Rightarrow>
        a\<lparr>produced := produced a @ (if ok then [k] else []),
          failed := failed a @ (if ok then [] else [k]),
          reported := reported a @ [real (i + 1) / real tot * 100]\<rparr>)"

fun spec_loop :: "nat \<Rightarrow> nat \<Rightarrow> (key \<times> bool) list \<Rightarrow> seg_abs \<Rightarrow> seg_abs" where
  "spec_loop tot i [] a = a"
| "spec_loop tot i (ko # kos) a = spec_loop tot (Suc i) kos (spec_segment tot i ko a)"

text \<open>A whole run over the keys from the empty state.\<close>

definition spec_run :: "key list \<Rightarrow> bool list \<Rightarrow> seg_abs" where
  "spec_run keys oks =
     spec_loop (length keys) 0 (zip keys oks) \<lparr>produced = [], failed = [], reported = []\<rparr>"

text \<open>The keys named by the failure lines of a log.\<close>

fun failed_keys :: "log_line list \<Rightarrow> key list" where
  "failed_keys [] = []"
| "failed_keys (LogFailed k # ls) = k # failed_keys ls"
| "failed_keys (_ # ls) = failed_keys ls"

text \<open>The abstraction relation: the manifest entries are those of the produced keys, the
  failure lines name the failed keys, and the progress values are the reported ones.\<close>

definition seg_rel :: "path \<Rightarrow> run_state \<Rightarrow> seg_abs \<Rightarrow> bool" where
  "seg_rel temp st a \<longleftrightarrow>
     video_parts st = map (\<lambda>k. manifest_entry (part_path temp k)) (produced a)
     \<and> failed_keys (logs_of (trace st)) = failed a
     \<and> progress_of (trace st) = reported a"

section \<open>Properties\<close>

lemma failed_keys_append [simp]: "failed_keys (xs @ ys) = failed_keys xs @ failed_keys ys"
  by (induction xs rule: failed_keys.induct) auto

lemma failed_keys_effect_log [simp]: "failed_keys (effect_log eff k # ls) = failed_keys ls"
  by (cases eff) auto

text \<open>What the specification computes.\<close>

lemma spec_loop_fields:
  "produced (spec_loop tot i kos a) = produced a @ map fst (filter snd kos)
   \<and> failed (spec_loop tot i kos a) = failed a @ map fst (filter (Not \<circ> snd) kos)
   \<and> reported (spec_loop tot i kos a) =
       reported a @ map (\<lambda>j. real (j + 1) / real tot * 100) [i..<i + length kos]"
proof (induction kos arbitrary: i a)
  case Nil
  then show ?case by simp
next
  case (Cons ko kos)
  have "[i..<i + length (ko # kos)] = i # [Suc i..<Suc i + length kos]" by (simp add: upt_rec)
  then show ?case using Cons.IH [of "Suc i" "spec_segment tot i ko a"]
    by (cases ko) (simp add: spec_segment_def)
qed

text \<open>One iteration of the loop refines one segment of the specification.\<close>

lemma process_segment_refines:
  assumes "process_segment env ctx i k st = Ok st'" "seg_rel (ctx_temp ctx) st a"
  shows "\<exists>ok. seg_rel (ctx_temp ctx) st' (spec_segment (ctx_total ctx) i (k, ok) a)"
proof -
  obtain img mp3 d fs' where
    fs: "existing st' = fs'"
    and vp: "video_parts st' = video_parts st @
        (if part_path (ctx_temp ctx) k \<in> fs' then [manifest_entry (part_path (ctx_temp ctx) k)] else [])"
    and tr: "trace st' = trace st @
        [Log (LogProcessing k), Log (effect_log (choose_effect (ctx_groups ctx) k d) k),
         Run (effect_cmd (fmt env) (choose_effect (ctx_groups ctx) k d) img mp3 d
        (part_path (ctx_temp ctx) k))] @
        (if part_path (ctx_temp ctx) k \<in> fs' then [] else [Log (LogFailed k)]) @
        [Progress (real (i + 1) / real (ctx_total ctx) * 100)]"
    using process_segment_Ok [OF assms(1)] by blast
  show ?thesis
    using assms(2) vp tr
    by (intro exI [of _ "part_path (ctx_temp ctx) k \<in> fs'"]) (simp add: seg_rel_def spec_segment_def)
qed

text \<open>The loop refines the specification: a forward simulation, by induction on the keys.\<close>

lemma process_from_simulation:
  assumes "process_from env ctx i ks st = Ok st'" "seg_rel (ctx_temp ctx) st a"
  shows "\<exists>oks. length oks = length ks \<and>
     seg_rel (ctx_temp ctx) st' (spec_loop (ctx_total ctx) i (zip ks oks) a)"
  using assms
proof (induction ks arbitrary: i st a)
  case Nil
  then show ?case by simp
next
  case (Cons k ks)
  obtain st1 where s1: "process_segment env ctx i k st = Ok st1"
    and r: "process_from env ctx (Suc i) ks st1 = Ok st'"
    using Cons.prems(1) by (rule process_from_Cons_Ok)
  obtain ok where ok: "seg_rel (ctx_temp ctx) st1 (spec_segment (ctx_total ctx) i (k, ok) a)"
    using process_segment_refines [OF s1 Cons.prems(2)] by blast
  obtain oks where "length oks = length ks"
    "seg_rel (ctx_temp ctx) st' (spec_loop (ctx_total ctx) (Suc i) (zip ks oks) (spec_segment (ctx_total ctx) i (k, ok) a))"
    using Cons.IH [OF r ok] by blast
  then show ?case by (intro exI [of _ "ok # oks"]) simp
qed

text \<open>C7: a run that reaches the end implements the specification of sections 4.3--4.5:
  for some success flags, one per segment, the manifest lists exactly the clips of the
  successful segments in key order, the failure lines name exactly the others in key
  order, and the progress values are \<open>(i+1)/n*100\<close> for every segment.\<close>

theorem create_video_refines_spec:
  assumes ls: "listdir env folder = Some files"
    and d: "discover folder files = Inr (imgs, auds, keys)"
    and mk: "can_create env (py_join folder ''temp'')"
    and wr: "can_create env (py_join (py_join folder ''temp'') ''file_list.txt'')"
    and mp3: "\<forall>k \<in> set keys. \<forall>p. dict_get auds k = Some p \<longrightarrow> mp3_length env p \<noteq> None"
    and ff: "\<forall>c fs. ffmpeg env c fs \<noteq> None"
  shows "\<exists>oks. length oks = length keys
    \<and> Write (py_join (py_join folder ''temp'') ''file_list.txt'')
        (manifest_text (map (\<lambda>k. manifest_entry (part_path (py_join folder ''temp'') k)) (produced (spec_run keys oks))))
      \<in> set (trace (create_video_with_ffmpeg env folder z p s rb fs0))
    \<and> failed_keys (logs_of (trace (create_video_with_ffmpeg env folder z p s rb fs0))) = failed (spec_run keys oks)
    \<and> progress_of (trace (create_video_with_ffmpeg env folder z p s rb fs0)) = reported (spec_run keys oks)"
proof -
  let ?temp = "py_join folder ''temp''"
  let ?ctx = "\<lparr>ctx_groups = draw_groups rb keys z p s, ctx_images = imgs, ctx_audios = auds,
         ctx_temp = ?temp, ctx_total = length keys\<rparr>"
  let ?st1 = "\<lparr>existing = insert ?temp fs0, video_parts = [], trace = []\<rparr>"
  obtain st2 :: run_state where st2: "process_from env ?ctx 0 keys ?st1 = Ok st2"
    and tr: "trace (create_video_with_ffmpeg env folder z p s rb fs0) =
      trace st2 @ [Write (py_join ?temp ''file_list.txt'') (manifest_text (video_parts st2)),
        Run (concat_cmd (py_join ?temp ''file_list.txt'') (py_join folder ''output_video.mp4'')),
        Log LogDone, Dialog InfoSuccess]"
    using create_video_success_loop [OF ls d mk wr mp3 ff] by blast
  have "seg_rel (ctx_temp ?ctx) ?st1 \<lparr>produced = [], failed = [], reported = []\<rparr>"
    by (simp add: seg_rel_def)
  then obtain oks where len: "length oks = length keys"
    and rel: "seg_rel (ctx_temp ?ctx) st2 (spec_loop (ctx_total ?ctx) 0 (zip keys oks) \<lparr>produced = [], failed = [], reported = []\<rparr>)"
    using process_from_simulation [OF st2] by blast
  then have "seg_rel ?temp st2 (spec_run keys oks)" by (simp add: spec_run_def)
  then show ?thesis using len tr by (intro exI [of _ oks]) (simp add: seg_rel_def)
qed

theorem create_video_refines_spec_witness:
  "\<exists>oks. length oks = length [''1'', ''2'']
    \<and> failed_keys (logs_of (trace (create_video_with_ffmpeg
      \<lparr>listdir = (\<lambda>p. Some [''2.mp3'', ''1.jpg'', ''2.jpg'', ''1.mp3'']), mp3_length = (\<lambda>p. Some 7),
       ffmpeg = (\<lambda>c fs. Some (if last c = ''/in/temp/part_1.mp4'' then fs else insert (last c) fs)),
       can_create = (\<lambda>p. True), fmt = (\<lambda>r. ''7'')\<rparr> ''/in'' 1 1 1 (\<lambda>i. 0) {}))) =
      failed (spec_run [''1'', ''2''] oks)"
proof -
  have "\<forall>c fs. (\<lambda>c fs. Some (if last c = ''/in/temp/part_1.mp4'' then fs else insert (last c) fs)) c fs \<noteq> (None :: fs option)"
    by simp
  from create_video_refines_spec [OF demo_ready [OF this], of 1 1 1 "\<lambda>i. 0" "{}"]
  show ?thesis by blast
qed

end
