(* ===== verification/Gui.thy ===== *)
theory Gui
  imports Pipeline
begin

text \<open>
  The GUI functions that carry logic, lines 121--151: \<open>start_process\<close> validates the
  folder and the three effect counts and starts the worker thread, and
  \<open>select_folder\<close> stores the chosen directory; and the two callbacks of lines 138--143,
  which write into the progress bar and the log widget. The widgets are fields of a
  record; a started worker is recorded with the arguments it was given, and
  \<open>apply_events\<close> replays the pipeline's trace into the widgets, which is what the
  callbacks do from the worker thread. \<open>gui_init\<close> holds the initial widget values of the
  setup in lines 158--196; the geometry and packing calls there are not modelled.
\<close>

section \<open>Definitions\<close>

datatype gui_dialog = MissingInput | InvalidNumbers

record gui =
  folder_var :: string
  zoom_entry :: string
  pan_entry :: string
  shake_entry :: string
  progress_bar :: real
  log_text :: "log_line list"
  gui_dialogs :: "gui_dialog list"
  workers :: "(path \<times> int \<times> int \<times> int) list"

text \<open>Lines 121--146. The three \<open>int()\<close> calls run in order inside one \<open>try\<close>.\<close>

definition start_process :: "gui \<Rightarrow> gui" where
  "start_process g =
     (let folder = folder_var g in
      if folder = [] then g\<lparr>gui_dialogs := gui_dialogs g @ [MissingInput]\<rparr>
      else
        (case py_int (zoom_entry g) of None \<Rightarrow> g\<lparr>gui_dialogs := gui_dialogs g @ [InvalidNumbers]\<rparr>
         | Some zoom_count \<Rightarrow>
        (case py_int (pan_entry g) of None \<Rightarrow> g\<lparr>gui_dialogs := gui_dialogs g @ [InvalidNumbers]\<rparr>
         | Some pan_count \<Rightarrow>
        (case py_int (shake_entry g) of None \<Rightarrow> g\<lparr>gui_dialogs := gui_dialogs g @ [InvalidNumbers]\<rparr>
         | Some shake_count \<Rightarrow>
            g\<lparr>progress_bar := 0, log_text := [],
              workers := workers g @ [(folder, zoom_count, pan_count, shake_count)]\<rparr>))))"

text \<open>Lines 148--151: \<open>askdirectory\<close> returns the empty string when cancelled.\<close>

definition select_folder :: "string \<Rightarrow> gui \<Rightarrow> gui" where
  "select_folder answer g = (if answer \<noteq> [] then g\<lparr>folder_var := answer\<rparr> else g)"

text \<open>Lines 138--143: \<open>progress_callback\<close> sets the bar, \<open>log_callback\<close> appends a line.\<close>

fun apply_event :: "gui \<Rightarrow> event \<Rightarrow> gui" where
  "apply_event g (Progress r) = g\<lparr>progress_bar := r\<rparr>"
| "apply_event g (Log l) = g\<lparr>log_text := log_text g @ [l]\<rparr>"
| "apply_event g _ = g"

definition apply_events :: "gui \<Rightarrow> event list \<Rightarrow> gui" where
  "apply_events g evs = foldl apply_event g evs"

text \<open>Lines 158--196, the GUI setup: \<open>folder_var\<close> is an empty \<open>StringVar\<close>, each count
  entry gets \<open>insert(0, "2")\<close>, the progress bar starts at 0 and the log is empty. The
  packing and grid calls only place the widgets.\<close>

definition gui_init :: gui where
  "gui_init = \<lparr>folder_var = [], zoom_entry = ''2'', pan_entry = ''2'', shake_entry = ''2'',
     progress_bar = 0, log_text = [], gui_dialogs = [], workers = []\<rparr>"

text \<open>Lines 154--156: \<open>root = tk.Tk()\<close> with its title and size. The root window
  carries the widgets of \<open>gui\<close> and the two attributes set on it, as an extension of the
  record.\<close>

record tk_root = gui +
  title :: string
  geometry :: string

definition root_init :: tk_root where
  "root_init = \<lparr>folder_var = [], zoom_entry = ''2'', pan_entry = ''2'', shake_entry = ''2'',
     progress_bar = 0, log_text = [], gui_dialogs = [], workers = [],
     title = ''FFmpeg Video Creator Tool'', geometry = ''700x500''\<rparr>"

declare start_process_def [model_defs] select_folder_def [model_defs] gui_init_def [model_defs] root_init_def [model_defs] apply_events_def [model_defs]

section \<open>Properties\<close>

lemma apply_events_append [simp]:
  "apply_events g (xs @ ys) = apply_events (apply_events g xs) ys"
  by (simp add: apply_events_def)

lemma apply_events_log_text:
  "log_text (apply_events g evs) = log_text g @ logs_of evs"
  by (induction evs arbitrary: g) (auto simp: apply_events_def split: event.splits)

lemma apply_events_progress:
  "progress_bar (apply_events g evs) =
     (if progress_of evs = [] then progress_bar g else last (progress_of evs))"
  by (induction evs arbitrary: g) (auto simp: apply_events_def split: event.splits)

lemma start_process_fields:
  "folder_var (start_process g) = folder_var g \<and> zoom_entry (start_process g) = zoom_entry g
   \<and> pan_entry (start_process g) = pan_entry g \<and> shake_entry (start_process g) = shake_entry g"
  by (simp add: start_process_def Let_def split: option.splits)

subsection \<open>Validation and start of the worker\<close>

text \<open>C21: with a non-empty folder and three integer literals, \<open>start_process\<close> resets the
  progress bar and the log and starts one worker with the folder and the parsed counts.\<close>

theorem start_process_starts:
  assumes "folder_var g \<noteq> []" "py_int (zoom_entry g) = Some z" "py_int (pan_entry g) = Some p"
    "py_int (shake_entry g) = Some s"
  shows "start_process g =
     g\<lparr>progress_bar := 0, log_text := [], workers := workers g @ [(folder_var g, z, p, s)]\<rparr>"
  using assms by (simp add: start_process_def)

theorem start_process_starts_witness:
  "start_process \<lparr>folder_var = ''/in'', zoom_entry = ''2'', pan_entry = '' 1 '', shake_entry = ''0'',
      progress_bar = 50, log_text = [LogDone], gui_dialogs = [], workers = []\<rparr> =
   \<lparr>folder_var = ''/in'', zoom_entry = ''2'', pan_entry = '' 1 '', shake_entry = ''0'',
      progress_bar = 0, log_text = [], gui_dialogs = [], workers = [(''/in'', 2, 1, 0)]\<rparr>"
proof -
  have "py_int ''2'' = Some 2" "py_int '' 1 '' = Some 1" "py_int ''0'' = Some 0"
    by (simp_all add: model_defs)
  then show ?thesis
    using start_process_starts [of "\<lparr>folder_var = ''/in'', zoom_entry = ''2'', pan_entry = '' 1 '', shake_entry = ''0'',
      progress_bar = 50, log_text = [LogDone], gui_dialogs = [], workers = []\<rparr>" 2 1 0] by simp
qed

text \<open>C22: an empty folder gives the missing-input warning and a count that is not an
  integer literal gives the invalid-numbers error; in both cases no worker is started.\<close>

theorem start_process_rejects:
  assumes "folder_var g = [] \<or> py_int (zoom_entry g) = None \<or> py_int (pan_entry g) = None
    \<or> py_int (shake_entry g) = None"
  shows "workers (start_process g) = workers g
    \<and> gui_dialogs (start_process g) =
        gui_dialogs g @ [if folder_var g = [] then MissingInput else InvalidNumbers]"
  using assms by (auto simp: start_process_def split: option.splits)

theorem start_process_rejects_witness:
  "workers (start_process \<lparr>folder_var = ''/in'', zoom_entry = ''two'', pan_entry = ''1'', shake_entry = ''1'',
      progress_bar = 0, log_text = [], gui_dialogs = [], workers = []\<rparr>) = []
   \<and> gui_dialogs (start_process \<lparr>folder_var = ''/in'', zoom_entry = ''two'', pan_entry = ''1'', shake_entry = ''1'',
      progress_bar = 0, log_text = [], gui_dialogs = [], workers = []\<rparr>) = [InvalidNumbers]"
proof -
  have "py_int ''two'' = None" by (simp add: model_defs)
  then show ?thesis
    using start_process_rejects [of "\<lparr>folder_var = ''/in'', zoom_entry = ''two'', pan_entry = ''1'', shake_entry = ''1'',
      progress_bar = 0, log_text = [], gui_dialogs = [], workers = []\<rparr>"] by simp
qed

text \<open>C23: nothing stops a second start while a worker runs: another click with valid
  input starts a second worker, on the folder in the entry, which is the first worker's
  folder when the user has not chosen another one.\<close>

theorem start_process_second_worker:
  assumes "workers g = [w]" "folder_var g \<noteq> []" "py_int (zoom_entry g) \<noteq> None"
    "py_int (pan_entry g) \<noteq> None" "py_int (shake_entry g) \<noteq> None"
  shows "length (workers (start_process g)) = 2 \<and> hd (workers (start_process g)) = w
    \<and> fst (last (workers (start_process g))) = folder_var g"
  using assms by (auto simp: start_process_def)

theorem start_process_second_worker_witness:
  "length (workers (start_process \<lparr>folder_var = ''/in'', zoom_entry = ''1'', pan_entry = ''1'', shake_entry = ''1'',
      progress_bar = 0, log_text = [], gui_dialogs = [], workers = [(''/in'', 1, 1, 1)]\<rparr>)) = 2
   \<and> fst (last (workers (start_process \<lparr>folder_var = ''/in'', zoom_entry = ''1'', pan_entry = ''1'', shake_entry = ''1'',
      progress_bar = 0, log_text = [], gui_dialogs = [], workers = [(''/in'', 1, 1, 1)]\<rparr>))) = ''/in''"
proof -
  have p: "py_int ''1'' = Some 1" by (simp add: model_defs)
  show ?thesis
    using start_process_second_worker [of "\<lparr>folder_var = ''/in'', zoom_entry = ''1'', pan_entry = ''1'', shake_entry = ''1'',
      progress_bar = 0, log_text = [], gui_dialogs = [], workers = [(''/in'', 1, 1, 1)]\<rparr>" "(''/in'', 1, 1, 1)"] p
    by simp
qed


end
