(* ===== verification/Workers.thy ===== *)
theory Workers
  imports Gui "HOL-Library.Sublist"
begin

text \<open>
  The window and the worker threads together. \<open>start_process\<close> starts
  \<open>create_video_with_ffmpeg\<close> on a \<open>threading.Thread\<close> (line 145) and returns; the
  worker then calls \<open>progress_callback\<close> and \<open>log_callback\<close> (lines 138--143) from its
  own thread while the user may go on clicking. The system state is the window and, per
  started worker, the events of its run not yet delivered; \<open>sys_step\<close> is one step of
  any party: a click on the start button, a folder choice, typing into the count entries
  or into the folder entry (line 163), editing the log \<open>Text\<close> widget (line 193, which
  accepts typing), or one event of one worker reaching the window (\<open>deliver_step\<close>).
  A worker's events are those of
  \<open>create_video_with_ffmpeg\<close> for its arguments, computed on the file system it
  started from; two workers on the same folder also share the temp files, which this
  view does not follow.
\<close>

section \<open>Definitions\<close>

record sys =
  win :: gui
  pending :: "event list list"

text \<open>The workers a call of \<open>start_process\<close> added.\<close>

definition started :: "gui \<Rightarrow> gui \<Rightarrow> (path \<times> int \<times> int \<times> int) list" where
  "started g g' = drop (length (workers g)) (workers g')"

text \<open>Line 145: the events of a worker started with \<open>args=(folder, zoom_count, pan_count,
  shake_count, ...)\<close>.\<close>

definition run_of :: "env \<Rightarrow> (nat \<Rightarrow> nat) \<Rightarrow> fs \<Rightarrow> path \<times> int \<times> int \<times> int \<Rightarrow> event list" where
  "run_of env rb fs0 w =
     (case w of (folder, z, p, s) \<Rightarrow> trace (create_video_with_ffmpeg env folder z p s rb fs0))"

text \<open>One callback of one worker reaching the window: the first undelivered event of
  worker \<open>i\<close> is applied by \<open>progress_callback\<close> or \<open>log_callback\<close>.\<close>

inductive deliver_step :: "sys \<Rightarrow> sys \<Rightarrow> bool" where
  deliver_one: "i < length (pending s) \<Longrightarrow> pending s ! i = e # es \<Longrightarrow>
     deliver_step s (s\<lparr>win := apply_event (win s) e, pending := (pending s)[i := es]\<rparr>)"

inductive sys_step :: "(path \<times> int \<times> int \<times> int \<Rightarrow> event list) \<Rightarrow> sys \<Rightarrow> sys \<Rightarrow> bool"
  for run where
  click: "sys_step run s
     (s\<lparr>win := start_process (win s),
        pending := pending s @ map run (started (win s) (start_process (win s)))\<rparr>)"
| choose: "sys_step run s (s\<lparr>win := select_folder a (win s)\<rparr>)"
| type_counts: "sys_step run s (s\<lparr>win := (win s)\<lparr>zoom_entry := z, pan_entry := p, shake_entry := sh\<rparr>\<rparr>)"
| type_folder: "sys_step run s (s\<lparr>win := (win s)\<lparr>folder_var := f\<rparr>\<rparr>)"
| edit_log: "sys_step run s (s\<lparr>win := (win s)\<lparr>log_text := l\<rparr>\<rparr>)"
| deliver: "deliver_step s s' \<Longrightarrow> sys_step run s s'"

section \<open>Properties\<close>

lemma apply_event_workers [simp]: "workers (apply_event g e) = workers g"
  by (cases e) auto

lemma foldl_apply_event_workers [simp]: "workers (foldl apply_event g es) = workers g"
  by (induction es arbitrary: g) auto

lemma deliver_prefix:
  "i < length (pending s) \<Longrightarrow> pending s ! i = xs @ ys \<Longrightarrow>
     (sys_step run)\<^sup>*\<^sup>* s (s\<lparr>win := apply_events (win s) xs, pending := (pending s)[i := ys]\<rparr>)"
proof (induction xs arbitrary: s)
  case Nil
  then have "(pending s)[i := ys] = pending s" by (metis append.left_neutral list_update_id)
  then show ?case by (simp add: apply_events_def)
next
  case (Cons x xs)
  let ?s1 = "s\<lparr>win := apply_event (win s) x, pending := (pending s)[i := xs @ ys]\<rparr>"
  have "sys_step run s ?s1" using Cons.prems by (intro sys_step.deliver deliver_step.intros) simp_all
  moreover have "(sys_step run)\<^sup>*\<^sup>* ?s1
      (?s1\<lparr>win := apply_events (win ?s1) xs, pending := (pending ?s1)[i := ys]\<rparr>)"
    using Cons.prems by (intro Cons.IH) simp_all
  ultimately show ?case by (simp add: apply_events_def)
qed

lemma progress_split:
  "progress_of es = r # rs \<Longrightarrow> \<exists>xs ys. es = xs @ ys \<and> progress_of xs = [r]"
proof (induction es)
  case Nil
  then show ?case by simp
next
  case (Cons e es)
  show ?case
  proof (cases "\<exists>r'. e = Progress r'")
    case True
    then show ?thesis using Cons.prems by (intro exI [of _ "[e]"] exI [of _ es]) auto
  next
    case False
    then have "progress_of es = r # rs" using Cons.prems by (cases e) auto
    then obtain xs ys where "es = xs @ ys" "progress_of xs = [r]" using Cons.IH by blast
    then show ?thesis using False by (intro exI [of _ "e # xs"] exI [of _ ys]) (cases e; auto)
  qed
qed

text \<open>C26: nothing orders the callbacks of two workers. With a folder of two pairs and
  all counts 0, two clicks start two workers; after the first worker's run has been
  delivered the progress bar shows 100, and the second worker's first report then moves
  it back to 50.\<close>

theorem second_worker_moves_progress_back:
  "\<exists>s s'. (sys_step (run_of
        \<lparr>listdir = (\<lambda>p. Some [''2.mp3'', ''1.jpg'', ''2.jpg'', ''1.mp3'']), mp3_length = (\<lambda>p. Some 7),
         ffmpeg = (\<lambda>c fs. Some (insert (last c) fs)), can_create = (\<lambda>p. True), fmt = (\<lambda>r. ''7'')\<rparr>
        (\<lambda>i. 0) {}))\<^sup>*\<^sup>*
        \<lparr>win = \<lparr>folder_var = ''/in'', zoom_entry = ''0'', pan_entry = ''0'', shake_entry = ''0'',
          progress_bar = 0, log_text = [], gui_dialogs = [], workers = []\<rparr>, pending = []\<rparr> s
     \<and> (sys_step (run_of
        \<lparr>listdir = (\<lambda>p. Some [''2.mp3'', ''1.jpg'', ''2.jpg'', ''1.mp3'']), mp3_length = (\<lambda>p. Some 7),
         ffmpeg = (\<lambda>c fs. Some (insert (last c) fs)), can_create = (\<lambda>p. True), fmt = (\<lambda>r. ''7'')\<rparr>
        (\<lambda>i. 0) {}))\<^sup>*\<^sup>* s s'
     \<and> length (workers (win s)) = 2 \<and> progress_bar (win s) = 100 \<and> progress_bar (win s') = 50"
proof -
  define E where "E = \<lparr>listdir = (\<lambda>p. Some [''2.mp3'', ''1.jpg'', ''2.jpg'', ''1.mp3'']),
     mp3_length = (\<lambda>p. Some (7::real)), ffmpeg = (\<lambda>c fs. Some (insert (last c) fs)),
     can_create = (\<lambda>p. True), fmt = (\<lambda>r. ''7'')\<rparr>"
  define run where "run = run_of E (\<lambda>i. 0) {}"
  define G0 where "G0 = \<lparr>folder_var = ''/in'', zoom_entry = ''0'', pan_entry = ''0'', shake_entry = ''0'',
          progress_bar = 0::real, log_text = [], gui_dialogs = [], workers = []\<rparr>"
  define w where "w = (''/in'', 0::int, 0::int, 0::int)"
  define R where "R = run w"
  have "\<forall>c fs. (\<lambda>c fs. Some (insert (last c) fs)) c fs \<noteq> (None :: fs option)" by simp
  note ready = demo_ready [OF this]
  obtain st2 :: run_state where tr: "R = trace st2 @ [Write (py_join (py_join ''/in'' ''temp'') ''file_list.txt'') (manifest_text (video_parts st2)),
        Run (concat_cmd (py_join (py_join ''/in'' ''temp'') ''file_list.txt'') (py_join ''/in'' ''output_video.mp4'')),
        Log LogDone, Dialog InfoSuccess]"
    and pr: "progress_of (trace st2) = map (\<lambda>j. real (j + 1) / real (length [''1'', ''2'']) * 100) [0..<length [''1'', ''2'']]"
    using create_video_success_trace [OF ready, of 0 0 0 "\<lambda>i. 0" "{}"]
    unfolding R_def run_def run_of_def w_def E_def by auto
  have pR: "progress_of R = [50, 100]" using tr pr by (simp add: upt_rec)
  have p0: "py_int ''0'' = Some 0" by (simp add: model_defs)
  have g1: "start_process G0 = G0\<lparr>workers := [w]\<rparr>"
    using p0 by (simp add: G0_def w_def start_process_def Let_def)
  have g2: "start_process (G0\<lparr>workers := [w]\<rparr>) = G0\<lparr>workers := [w, w]\<rparr>"
    using p0 by (simp add: G0_def w_def start_process_def Let_def)
  define S0 where "S0 = \<lparr>win = G0, pending = ([] :: event list list)\<rparr>"
  define S1 where "S1 = S0\<lparr>win := start_process (win S0),
      pending := pending S0 @ map run (started (win S0) (start_process (win S0)))\<rparr>"
  have st1: "sys_step run S0 S1" unfolding S1_def by (rule sys_step.click)
  have s1: "S1 = \<lparr>win = G0\<lparr>workers := [w]\<rparr>, pending = [R]\<rparr>"
    using g1 by (simp add: S1_def S0_def G0_def started_def R_def)
  define S2 where "S2 = S1\<lparr>win := start_process (win S1),
      pending := pending S1 @ map run (started (win S1) (start_process (win S1)))\<rparr>"
  have st2: "sys_step run S1 S2" unfolding S2_def by (rule sys_step.click)
  have s2: "S2 = \<lparr>win = G0\<lparr>workers := [w, w]\<rparr>, pending = [R, R]\<rparr>"
    using g2 by (simp add: S2_def s1 G0_def started_def R_def)
  define S3 where "S3 = S2\<lparr>win := apply_events (win S2) R, pending := (pending S2)[0 := []]\<rparr>"
  have r3: "(sys_step run)\<^sup>*\<^sup>* S2 S3"
    unfolding S3_def by (rule deliver_prefix) (simp_all add: s2)
  have b3: "progress_bar (win S3) = 100" using pR by (simp add: S3_def apply_events_progress)
  have w3: "length (workers (win S3)) = 2" by (simp add: S3_def s2 apply_events_def foldl_apply_event_workers)
  obtain xs ys where xs: "R = xs @ ys" "progress_of xs = [50]"
    using progress_split [OF pR] by blast
  define S4 where "S4 = S3\<lparr>win := apply_events (win S3) xs, pending := (pending S3)[1 := ys]\<rparr>"
  have r4: "(sys_step run)\<^sup>*\<^sup>* S3 S4"
    unfolding S4_def by (rule deliver_prefix) (simp_all add: S3_def s2 xs(1))
  have b4: "progress_bar (win S4) = 50" using xs(2) by (simp add: S4_def apply_events_progress)
  have "(sys_step run)\<^sup>*\<^sup>* S0 S3" using st1 st2 r3 by (meson rtranclp.rtrancl_into_rtrancl r_into_rtranclp rtranclp_trans)
  then show ?thesis using r4 b3 b4 w3 unfolding run_def E_def S0_def G0_def by blast
qed

end
