(* ===== verification/Worker_Steps.thy ===== *)
theory Worker_Steps
  imports Pipeline
begin

text \<open>
  The worker thread step by step. A worker runs the body of \<open>create_video_with_ffmpeg\<close>
  (lines 13--117) in steps: the setup of lines 15--31, one iteration of the segment loop
  of lines 33--104 per step, and the concatenation of lines 106--113; an exception ends
  it with the handler of lines 115--117. Between its steps other workers may run, and
  all of them read and write one file system (see \<open>App\<close>). The step of one segment is
  atomic here:
  the real thread can also be interrupted between \<open>subprocess.run\<close> and
  \<open>os.path.exists\<close>, which only adds interleavings.
\<close>

section \<open>Definitions\<close>

text \<open>Lines 15--31: listing, discovery, the temp folder and the effect draw.\<close>

definition pipeline_setup :: "env \<Rightarrow> path \<Rightarrow> int \<Rightarrow> int \<Rightarrow> int \<Rightarrow> (nat \<Rightarrow> nat) \<Rightarrow>
    run_state \<Rightarrow> (py_error \<times> run_state) + (seg_ctx \<times> key list \<times> run_state)" where
  "pipeline_setup env input_folder zoom_count pan_count shake_count rb st =
     (case listdir env input_folder of None \<Rightarrow> Inl (OSError input_folder, st) | Some files \<Rightarrow>
      (case discover input_folder files of Inl e \<Rightarrow> Inl (e, st) | Inr (images, audios, keys) \<Rightarrow>
       (let temp_folder = py_join input_folder ''temp'' in
        (case make_dirs env temp_folder st of Raised e st1 \<Rightarrow> Inl (e, st1) | Ok st1 \<Rightarrow>
         Inr (\<lparr>ctx_groups = draw_groups rb keys zoom_count pan_count shake_count,
                ctx_images = images, ctx_audios = audios,
                ctx_temp = temp_folder, ctx_total = length keys\<rparr>, keys, st1)))))"

text \<open>Lines 115--117: the log line and the error dialog of the handler.\<close>

definition fail_with :: "py_error \<Rightarrow> run_state \<Rightarrow> run_state" where
  "fail_with e st = emit (Dialog (ErrorDialog e)) (emit (Log (LogError e)) st)"

datatype wphase = Setup | Segments seg_ctx "key list" nat | Concat seg_ctx | Finished

record worker =
  w_args :: "path \<times> int \<times> int \<times> int"
  w_phase :: wphase
  w_st :: run_state

definition worker_init :: "path \<times> int \<times> int \<times> int \<Rightarrow> worker" where
  "worker_init args = \<lparr>w_args = args, w_phase = Setup,
     w_st = \<lparr>existing = {}, video_parts = [], trace = []\<rparr>\<rparr>"

text \<open>One step of a worker on the shared file system \<open>fs\<close>; \<open>None\<close> once it has finished.
  The worker's own state keeps its \<open>video_parts\<close> and its trace; the file system is read
  from and written back to the shared one.\<close>

definition worker_step :: "env \<Rightarrow> (nat \<Rightarrow> nat) \<Rightarrow> fs \<Rightarrow> worker \<Rightarrow> (fs \<times> worker) option" where
  "worker_step env rb fs w =
     (case w_phase w of
        Setup \<Rightarrow>
          (case w_args w of (folder, z, p, s) \<Rightarrow>
            (case pipeline_setup env folder z p s rb ((w_st w)\<lparr>existing := fs\<rparr>) of
               Inl (e, st') \<Rightarrow> Some (existing st', w\<lparr>w_phase := Finished, w_st := fail_with e st'\<rparr>)
             | Inr (ctx, keys, st') \<Rightarrow> Some (existing st', w\<lparr>w_phase := Segments ctx keys 0, w_st := st'\<rparr>)))
      | Segments ctx [] i \<Rightarrow> Some (fs, w\<lparr>w_phase := Concat ctx, w_st := (w_st w)\<lparr>existing := fs\<rparr>\<rparr>)
      | Segments ctx (k # ks) i \<Rightarrow>
          (case process_segment env ctx i k ((w_st w)\<lparr>existing := fs\<rparr>) of
             Raised e st' \<Rightarrow> Some (existing st', w\<lparr>w_phase := Finished, w_st := fail_with e st'\<rparr>)
           | Ok st' \<Rightarrow> Some (existing st', w\<lparr>w_phase := Segments ctx ks (Suc i), w_st := st'\<rparr>))
      | Concat ctx \<Rightarrow>
          (case concatenate env (fst (w_args w)) (ctx_temp ctx) ((w_st w)\<lparr>existing := fs\<rparr>) of
             Raised e st' \<Rightarrow> Some (existing st', w\<lparr>w_phase := Finished, w_st := fail_with e st'\<rparr>)
           | Ok st' \<Rightarrow> Some (existing st', w\<lparr>w_phase := Finished, w_st := st'\<rparr>))
      | Finished \<Rightarrow> None)"

declare pipeline_setup_def [model_defs] fail_with_def [model_defs] worker_init_def [model_defs]
  worker_step_def [model_defs]

section \<open>Properties\<close>

lemma worker_step_None_iff: "worker_step env rb fs w = None \<longleftrightarrow> w_phase w = Finished"
  by (auto simp: worker_step_def split: wphase.splits list.splits prod.splits sum.splits outcome.splits)

lemma worker_step_Finished: "w_phase w = Finished \<Longrightarrow> worker_step env rb fs w = None"
  by (simp add: worker_step_None_iff)

text \<open>The step of each phase.\<close>

lemma worker_step_Setup:
  "w_phase w = Setup \<Longrightarrow> w_args w = (folder, z, p, s) \<Longrightarrow>
   worker_step env rb fs w =
     (case pipeline_setup env folder z p s rb ((w_st w)\<lparr>existing := fs\<rparr>) of
        Inl (e, st') \<Rightarrow> Some (existing st', w\<lparr>w_phase := Finished, w_st := fail_with e st'\<rparr>)
      | Inr (ctx, keys, st') \<Rightarrow> Some (existing st', w\<lparr>w_phase := Segments ctx keys 0, w_st := st'\<rparr>))"
  by (simp add: worker_step_def)

lemma worker_step_Segments_Nil:
  "w_phase w = Segments ctx [] i \<Longrightarrow>
   worker_step env rb fs w = Some (fs, w\<lparr>w_phase := Concat ctx, w_st := (w_st w)\<lparr>existing := fs\<rparr>\<rparr>)"
  by (simp add: worker_step_def)

lemma worker_step_Segments_Cons:
  "w_phase w = Segments ctx (k # ks) i \<Longrightarrow>
   worker_step env rb fs w =
     (case process_segment env ctx i k ((w_st w)\<lparr>existing := fs\<rparr>) of
        Raised e st' \<Rightarrow> Some (existing st', w\<lparr>w_phase := Finished, w_st := fail_with e st'\<rparr>)
      | Ok st' \<Rightarrow> Some (existing st', w\<lparr>w_phase := Segments ctx ks (Suc i), w_st := st'\<rparr>))"
  by (simp add: worker_step_def)

lemma worker_step_Concat:
  "w_phase w = Concat ctx \<Longrightarrow>
   worker_step env rb fs w =
     (case concatenate env (fst (w_args w)) (ctx_temp ctx) ((w_st w)\<lparr>existing := fs\<rparr>) of
        Raised e st' \<Rightarrow> Some (existing st', w\<lparr>w_phase := Finished, w_st := fail_with e st'\<rparr>)
      | Ok st' \<Rightarrow> Some (existing st', w\<lparr>w_phase := Finished, w_st := st'\<rparr>))"
  by (simp add: worker_step_def)


end
