(* ===== verification/App.thy ===== *)
theory App
  imports Workers Worker_Steps
begin

text \<open>
  The whole application: the Tk window of lines 119--196 with the worker threads that
  \<open>start_process\<close> starts (line 145), on one file system. A click on the button runs
  \<open>start_process\<close> and, when it starts a worker, adds a worker at its first step; a worker
  step is one step of \<open>Worker_Steps.worker_step\<close>, and the callbacks it makes
  (\<open>progress_callback\<close>, \<open>log_callback\<close>, lines 138--143) change the window at once, since
  they run on the worker thread and write the widgets directly. The user may also type
  into the folder entry (line 163), the count entries and the log \<open>Text\<close> (line 193)
  at any time. Any number of workers may run, interleaved segment by segment on the
  shared file system.
\<close>

section \<open>Definitions\<close>

record app =
  app_win :: gui
  app_fs :: fs
  app_ws :: "worker list"

text \<open>The events a worker step added to the worker's trace.\<close>

definition new_events :: "worker \<Rightarrow> worker \<Rightarrow> event list" where
  "new_events w w' = drop (length (trace (w_st w))) (trace (w_st w'))"

inductive app_step :: "env \<Rightarrow> (nat \<Rightarrow> nat) \<Rightarrow> app \<Rightarrow> app \<Rightarrow> bool" for env rb where
  click: "app_step env rb a
     (a\<lparr>app_win := start_process (app_win a),
        app_ws := app_ws a @ map worker_init (started (app_win a) (start_process (app_win a)))\<rparr>)"
| choose: "app_step env rb a (a\<lparr>app_win := select_folder answer (app_win a)\<rparr>)"
| type_counts: "app_step env rb a (a\<lparr>app_win := (app_win a)\<lparr>zoom_entry := z, pan_entry := p, shake_entry := sh\<rparr>\<rparr>)"
| type_folder: "app_step env rb a (a\<lparr>app_win := (app_win a)\<lparr>folder_var := f\<rparr>\<rparr>)"
| edit_log: "app_step env rb a (a\<lparr>app_win := (app_win a)\<lparr>log_text := l\<rparr>\<rparr>)"
| work: "i < length (app_ws a) \<Longrightarrow> worker_step env rb (app_fs a) (app_ws a ! i) = Some (fs', w') \<Longrightarrow>
     app_step env rb a
       (a\<lparr>app_win := apply_events (app_win a) (new_events (app_ws a ! i) w'),
          app_fs := fs', app_ws := (app_ws a)[i := w']\<rparr>)"

text \<open>A worker in the segment loop has \<open>ctx_total\<close> keys in all, \<open>i\<close> of them done; every
  percentage it has reported lies in \<open>(0, 100]\<close>.\<close>

definition worker_ok :: "worker \<Rightarrow> bool" where
  "worker_ok w \<longleftrightarrow>
     (case w_phase w of Segments ctx ks i \<Rightarrow> i + length ks = ctx_total ctx | _ \<Rightarrow> True) \<and>
     list_all (\<lambda>r. 0 < r \<and> r \<le> 100) (progress_of (trace (w_st w)))"

text \<open>The bar shows 0 or a percentage one of the running workers has reported.\<close>

definition bar_from_workers :: "app \<Rightarrow> bool" where
  "bar_from_workers a \<longleftrightarrow> progress_bar (app_win a) = 0 \<or>
     (\<exists>w \<in> set (app_ws a). progress_bar (app_win a) \<in> set (progress_of (trace (w_st w))))"

section \<open>Properties\<close>

lemma pipeline_setup_trace:
  "pipeline_setup env folder z p s rb st = Inl (e, st') \<Longrightarrow> trace st' = trace st"
  "pipeline_setup env folder z p s rb st = Inr (ctx, keys, st') \<Longrightarrow> trace st' = trace st"
  by (auto simp: pipeline_setup_def make_dirs_def Let_def split: option.splits sum.splits outcome.splits if_splits)

lemma concatenate_trace:
  "\<exists>evs. trace (state_of (concatenate env f t st)) = trace st @ evs"
  by (auto simp: concatenate_def run_cmd_def write_file_def emit_def Let_def split: option.splits outcome.splits)

lemma fail_with_prefix: "prefix (trace st) (trace (fail_with e st))"
  by (simp add: fail_with_def emit_def)

lemma worker_step_trace:
  assumes "worker_step env rb fs w = Some (fs', w')"
  shows "prefix (trace (w_st w)) (trace (w_st w'))"
proof (cases "w_phase w")
  case Setup
  obtain folder z p s where ar: "w_args w = (folder, z, p, s)" by (cases "w_args w") auto
  let ?st = "(w_st w)\<lparr>existing := fs\<rparr>"
  show ?thesis
  proof (cases "pipeline_setup env folder z p s rb ?st")
    case (Inl r)
    obtain e st' where r: "r = (e, st')" by (cases r)
    have "w_st w' = fail_with e st'" "trace st' = trace (w_st w)"
      using assms Setup ar Inl r pipeline_setup_trace(1) [of env folder z p s rb ?st e st']
      by (auto simp: worker_step_Setup)
    then show ?thesis using fail_with_prefix by metis
  next
    case (Inr r)
    obtain ctx keys st' where r: "r = (ctx, keys, st')" by (cases r)
    have "w_st w' = st'" "trace st' = trace (w_st w)"
      using assms Setup ar Inr r pipeline_setup_trace(2) [of env folder z p s rb ?st ctx keys st']
      by (auto simp: worker_step_Setup)
    then show ?thesis by simp
  qed
next
  case (Segments ctx ks i)
  show ?thesis
  proof (cases ks)
    case Nil
    then show ?thesis using assms Segments by (auto simp: worker_step_Segments_Nil)
  next
    case (Cons k ks')
    let ?o = "process_segment env ctx i k ((w_st w)\<lparr>existing := fs\<rparr>)"
    have pre: "prefix (trace (w_st w)) (trace (state_of ?o))"
      using process_segment_frame [of "(w_st w)\<lparr>existing := fs\<rparr>" env ctx i k]
      by (auto simp: loop_ext_def)
    show ?thesis
    proof (cases ?o)
      case (Ok st')
      then show ?thesis using assms Segments Cons pre by (auto simp: worker_step_Segments_Cons)
    next
      case (Raised e st')
      then have "w_st w' = fail_with e st'"
        using assms Segments Cons by (auto simp: worker_step_Segments_Cons)
      then show ?thesis using pre Raised fail_with_prefix [of st' e] by (auto intro: prefix_order.trans)
    qed
  qed
next
  case (Concat ctx)
  let ?o = "concatenate env (fst (w_args w)) (ctx_temp ctx) ((w_st w)\<lparr>existing := fs\<rparr>)"
  have pre: "prefix (trace (w_st w)) (trace (state_of ?o))"
    using concatenate_trace [of env "fst (w_args w)" "ctx_temp ctx" "(w_st w)\<lparr>existing := fs\<rparr>"]
    by auto
  show ?thesis
  proof (cases ?o)
    case (Ok st')
    then show ?thesis using assms Concat pre by (auto simp: worker_step_Concat)
  next
    case (Raised e st')
    then have "w_st w' = fail_with e st'"
      using assms Concat by (auto simp: worker_step_Concat)
    then show ?thesis using pre Raised fail_with_prefix [of st' e] by (auto intro: prefix_order.trans)
  qed
next
  case Finished
  then show ?thesis using assms by (simp add: worker_step_Finished)
qed

lemma new_events_append:
  "prefix (trace (w_st w)) (trace (w_st w')) \<Longrightarrow> trace (w_st w') = trace (w_st w) @ new_events w w'"
  by (auto simp: new_events_def prefix_def)

lemma pipeline_setup_total:
  "pipeline_setup env folder z p s rb st = Inr (ctx, keys, st') \<Longrightarrow> ctx_total ctx = length keys"
  by (auto simp: pipeline_setup_def Let_def split: option.splits sum.splits outcome.splits)

lemma fail_with_progress [simp]: "progress_of (trace (fail_with e st)) = progress_of (trace st)"
  by (simp add: fail_with_def emit_def)

lemma progress_value_ok: "i < n \<Longrightarrow> 0 < real (i + 1) / real n * 100 \<and> real (i + 1) / real n * 100 \<le> 100"
  using progress_values_ok [of "Suc i" n] by (simp add: list_all_iff)

text \<open>A worker step keeps its reports, adding at most the percentage of the segment it
  has just processed.\<close>

lemma worker_step_ok:
  assumes "worker_step env rb fs w = Some (fs', w')" "worker_ok w"
  shows "worker_ok w'"
proof (cases "w_phase w")
  case Setup
  obtain folder z p s where ar: "w_args w = (folder, z, p, s)" by (cases "w_args w") auto
  let ?st = "(w_st w)\<lparr>existing := fs\<rparr>"
  show ?thesis
  proof (cases "pipeline_setup env folder z p s rb ?st")
    case (Inl r)
    obtain e st' where r: "r = (e, st')" by (cases r)
    have "w_st w' = fail_with e st'" "w_phase w' = Finished" "trace st' = trace (w_st w)"
      using assms(1) Setup ar Inl r pipeline_setup_trace(1) [of env folder z p s rb ?st e st']
      by (auto simp: worker_step_Setup)
    then show ?thesis using assms(2) by (simp add: worker_ok_def)
  next
    case (Inr r)
    obtain ctx keys st' where r: "r = (ctx, keys, st')" by (cases r)
    have "w_st w' = st'" "w_phase w' = Segments ctx keys 0" "trace st' = trace (w_st w)"
      using assms(1) Setup ar Inr r pipeline_setup_trace(2) [of env folder z p s rb ?st ctx keys st']
      by (auto simp: worker_step_Setup)
    moreover have "ctx_total ctx = length keys" using Inr r by (simp add: pipeline_setup_total)
    ultimately show ?thesis using assms(2) by (simp add: worker_ok_def)
  qed
next
  case (Segments ctx ks i)
  show ?thesis
  proof (cases ks)
    case Nil
    then show ?thesis using assms Segments by (auto simp: worker_step_Segments_Nil worker_ok_def)
  next
    case (Cons k ks')
    let ?o = "process_segment env ctx i k ((w_st w)\<lparr>existing := fs\<rparr>)"
    have tot: "i < ctx_total ctx" using assms(2) Segments Cons by (simp add: worker_ok_def)
    have old: "list_all (\<lambda>r. 0 < r \<and> r \<le> 100) (progress_of (trace (w_st w)))"
      using assms(2) by (simp add: worker_ok_def)
    have pr: "list_all (\<lambda>r. 0 < r \<and> r \<le> 100) (progress_of (trace (state_of ?o)))"
      using process_segment_progress [of env ctx i k "(w_st w)\<lparr>existing := fs\<rparr>"] old progress_value_ok [OF tot]
      by auto
    show ?thesis
    proof (cases ?o)
      case (Ok st')
      then have "w_st w' = st'" "w_phase w' = Segments ctx ks' (Suc i)"
        using assms(1) Segments Cons by (auto simp: worker_step_Segments_Cons)
      then show ?thesis using pr Ok assms(2) Segments Cons by (simp add: worker_ok_def)
    next
      case (Raised e st')
      then have "w_st w' = fail_with e st'" "w_phase w' = Finished"
        using assms(1) Segments Cons by (auto simp: worker_step_Segments_Cons)
      then show ?thesis using pr Raised by (simp add: worker_ok_def)
    qed
  qed
next
  case (Concat ctx)
  let ?o = "concatenate env (fst (w_args w)) (ctx_temp ctx) ((w_st w)\<lparr>existing := fs\<rparr>)"
  have pr: "list_all (\<lambda>r. 0 < r \<and> r \<le> 100) (progress_of (trace (state_of ?o)))"
    using assms(2) concatenate_progress [of env "fst (w_args w)" "ctx_temp ctx" "(w_st w)\<lparr>existing := fs\<rparr>"]
    by (simp add: worker_ok_def)
  show ?thesis
  proof (cases ?o)
    case (Ok st')
    then have "w_st w' = st'" "w_phase w' = Finished" using assms(1) Concat by (auto simp: worker_step_Concat)
    then show ?thesis using pr Ok by (simp add: worker_ok_def)
  next
    case (Raised e st')
    then have "w_st w' = fail_with e st'" "w_phase w' = Finished" using assms(1) Concat by (auto simp: worker_step_Concat)
    then show ?thesis using pr Raised by (simp add: worker_ok_def)
  qed
next
  case Finished
  then show ?thesis using assms(1) by (simp add: worker_step_Finished)
qed

lemma worker_init_ok [simp]: "worker_ok (worker_init x)"
  by (simp add: worker_init_def worker_ok_def)

lemma progress_prefix: "prefix xs ys \<Longrightarrow> set (progress_of xs) \<subseteq> set (progress_of ys)"
  by (auto simp: prefix_def)

lemma app_step_inv:
  assumes "app_step env rb a a'" "list_all worker_ok (app_ws a)" "bar_from_workers a"
  shows "list_all worker_ok (app_ws a') \<and> bar_from_workers a'"
  using assms
proof (induction rule: app_step.induct)
  case (click a)
  have "progress_bar (start_process (app_win a)) = 0 \<or> start_process (app_win a) = app_win a\<lparr>gui_dialogs := gui_dialogs (app_win a) @ [MissingInput]\<rparr>
      \<or> start_process (app_win a) = app_win a\<lparr>gui_dialogs := gui_dialogs (app_win a) @ [InvalidNumbers]\<rparr>"
    by (simp add: start_process_def Let_def split: option.splits)
  then show ?case using click.prems by (auto simp: bar_from_workers_def list_all_iff)
next
  case (work i a fs' w')
  let ?w = "app_ws a ! i"
  have ok: "worker_ok w'" using work.hyps(2) by (rule worker_step_ok) (use work.prems work.hyps(1) in \<open>simp add: list_all_length\<close>)
  have pre: "prefix (trace (w_st ?w)) (trace (w_st w'))" using work.hyps(2) by (rule worker_step_trace)
  have tw: "trace (w_st w') = trace (w_st ?w) @ new_events ?w w'" using pre by (rule new_events_append)
  have mem: "w' \<in> set ((app_ws a)[i := w'])" using work.hyps(1) by (simp add: set_update_memI)
  have all: "list_all worker_ok ((app_ws a)[i := w'])"
    using work.prems(1) ok work.hyps(1) by (auto simp: list_all_length nth_list_update)
  have "bar_from_workers (a\<lparr>app_win := apply_events (app_win a) (new_events ?w w'),
      app_fs := fs', app_ws := (app_ws a)[i := w']\<rparr>)"
  proof (cases "progress_of (new_events ?w w') = []")
    case False
    then have "last (progress_of (new_events ?w w')) \<in> set (progress_of (trace (w_st w')))"
      using tw by simp
    then show ?thesis using False mem by (auto simp: bar_from_workers_def apply_events_progress)
  next
    case True
    have "progress_bar (app_win a) = 0 \<or>
        (\<exists>v \<in> set ((app_ws a)[i := w']). progress_bar (app_win a) \<in> set (progress_of (trace (w_st v))))"
    proof -
      consider "progress_bar (app_win a) = 0" | v where "v \<in> set (app_ws a)"
          "progress_bar (app_win a) \<in> set (progress_of (trace (w_st v)))"
        using work.prems(2) by (auto simp: bar_from_workers_def)
      then show ?thesis
      proof cases
        case 1
        then show ?thesis by simp
      next
        case 2
        then obtain j where j: "j < length (app_ws a)" "v = app_ws a ! j" by (auto simp: in_set_conv_nth)
        show ?thesis
        proof (cases "j = i")
          case True
          then show ?thesis using 2 j mem progress_prefix [OF pre] by blast
        next
          case False
          then have "v \<in> set ((app_ws a)[i := w'])"
            using j by (metis length_list_update nth_list_update_neq nth_mem)
          then show ?thesis using 2 by blast
        qed
      qed
    qed
    then show ?thesis using True by (simp add: bar_from_workers_def apply_events_progress)
  qed
  then show ?case using all by simp
qed (simp_all add: bar_from_workers_def select_folder_def)

text \<open>C25: however the clicks, the user's edits and the steps of any number of workers
  interleave on the shared file system, the progress bar only ever shows 0 or a
  percentage one of the started workers reported, and so stays within \<open>[0, 100]\<close>.\<close>

theorem app_progress_from_workers:
  assumes "(app_step env rb)\<^sup>*\<^sup>* \<lparr>app_win = gui_init, app_fs = fs0, app_ws = []\<rparr> a"
  shows "(progress_bar (app_win a) = 0 \<or>
      (\<exists>w \<in> set (app_ws a). progress_bar (app_win a) \<in> set (progress_of (trace (w_st w)))))
    \<and> 0 \<le> progress_bar (app_win a) \<and> progress_bar (app_win a) \<le> 100"
proof -
  have "list_all worker_ok (app_ws a) \<and> bar_from_workers a"
    using assms
  proof (induction rule: rtranclp_induct)
    case base
    then show ?case by (simp add: bar_from_workers_def gui_init_def)
  next
    case (step a a')
    then show ?case using app_step_inv by blast
  qed
  then have b: "bar_from_workers a" and ok: "list_all worker_ok (app_ws a)" by blast+
  have "0 \<le> progress_bar (app_win a) \<and> progress_bar (app_win a) \<le> 100"
  proof (cases "progress_bar (app_win a) = 0")
    case False
    then obtain w where "w \<in> set (app_ws a)" "progress_bar (app_win a) \<in> set (progress_of (trace (w_st w)))"
      using b by (auto simp: bar_from_workers_def)
    then show ?thesis using ok by (fastforce simp: list_all_iff worker_ok_def)
  qed simp
  then show ?thesis using b by (simp add: bar_from_workers_def)
qed

theorem app_progress_from_workers_witness:
  "(progress_bar (start_process (select_folder ''/in'' gui_init)) = 0 \<or>
      (\<exists>w \<in> set [worker_init (''/in'', 2, 2, 2)].
         progress_bar (start_process (select_folder ''/in'' gui_init)) \<in> set (progress_of (trace (w_st w)))))
    \<and> 0 \<le> progress_bar (start_process (select_folder ''/in'' gui_init))
    \<and> progress_bar (start_process (select_folder ''/in'' gui_init)) \<le> 100"
proof -
  let ?a0 = "\<lparr>app_win = gui_init, app_fs = {}, app_ws = []\<rparr>"
  let ?a1 = "?a0\<lparr>app_win := select_folder ''/in'' (app_win ?a0)\<rparr>"
  let ?a2 = "?a1\<lparr>app_win := start_process (app_win ?a1),
     app_ws := app_ws ?a1 @ map worker_init (started (app_win ?a1) (start_process (app_win ?a1)))\<rparr>"
  have s1: "app_step (undefined :: env) (\<lambda>i. 0) ?a0 ?a1" by (rule app_step.choose)
  have s2: "app_step (undefined :: env) (\<lambda>i. 0) ?a1 ?a2" by (rule app_step.click)
  have r: "(app_step (undefined :: env) (\<lambda>i. 0))\<^sup>*\<^sup>* ?a0 ?a2"
    using s1 s2 by (rule converse_rtranclp_into_rtranclp [OF _ r_into_rtranclp])
  have "?a2 = \<lparr>app_win = start_process (select_folder ''/in'' gui_init), app_fs = {},
      app_ws = [worker_init (''/in'', 2, 2, 2)]\<rparr>"
  proof -
    have "py_int ''2'' = Some 2" by (simp add: model_defs)
    then show ?thesis by (simp add: started_def start_process_def select_folder_def gui_init_def Let_def)
  qed
  then show ?thesis using app_progress_from_workers [OF r] by simp
qed

end
