(* ===== verification/Spec2Isabelle.thy ===== *)
theory Spec2Isabelle
  imports Segment_Spec App
begin

text \<open>
  A verification model of \<open>src/GHEP-VIDEO-ANH.py\<close>, a Tk tool that pairs the
  \<open>N.jpg\<close> and \<open>N.mp3\<close> files of a folder, renders one clip per pair with ffmpeg
  (a zoom, pan or shake motion on randomly drawn pairs, a plain scale otherwise) and
  concatenates the clips in numeric order of the stems.

  \<^bold>\<open>Parts of the program and how they interact.\<close> The window (lines 119--196)
  holds a folder field and three count entries; \<open>start_process\<close> (121--146) validates
  them and starts \<open>create_video_with_ffmpeg\<close> (13--117) on a worker thread with two
  callbacks that write the progress bar and the log widget. The worker discovers the
  pairs (15--19), creates the temp folder (20--21), shuffles the keys and slices the
  zoom, pan and shake groups (23--28), renders each segment in key order (33--104),
  writes the concat manifest and runs the concatenation (106--113), and turns any
  exception into a log line and an error dialog (115--117).

  \<^bold>\<open>Theories and correspondence.\<close>
  \<^item> \<open>Prelude\<close>: type names (\<open>path\<close>, \<open>key\<close>, \<open>argv\<close>, \<open>fs\<close> the set of existing
    paths), the collections \<open>model_defs\<close> (the model's equations, for evaluation) and
    \<open>eval_simps\<close> (character and scan lemmas for evaluating string code), and shared
    lemmas on slices and on association lists used as Python dicts
    (\<open>dict_keys\<close>, \<open>AList.update\<close>).
  \<^item> \<open>PyLib\<close>: the CPython operations the script relies on, each written from CPython's
    documented behaviour: \<open>int(str)\<close> as \<open>py_int\<close> (strip, sign, digits and single
    underscores), \<open>str.lower\<close> on Latin-1 characters, \<open>str.endswith\<close>,
    \<open>os.path.splitext\<close> (its backward scan as a \<open>function\<close> with a measure),
    POSIX \<open>os.path.join\<close>, \<open>str.join\<close>, \<open>str.split\<close>, slicing with negative bounds
    (\<open>py_slice\<close>), \<open>sorted(key=int)\<close> (\<open>py_sorted_int\<close>: all keys converted first,
    the first failure raised, then a stable sort) and \<open>random.shuffle\<close> as the
    Fisher--Yates loop over a random source \<open>rb\<close> (\<open>rb i \<le> i\<close> is the draw
    \<open>randbelow(i+1)\<close>). Lemmas: the shuffle permutes, slices are sublists, splitext
    splits, the sort is sorted, stable and independent of the input order, join/split,
    and the shuffle reaches every permutation.
  \<^item> \<open>Discovery\<close>: lines 15--19 as \<open>images_of\<close>, \<open>audios_of\<close> (dict comprehensions
    as \<open>AList.update\<close> folds, so a later file with the same stem wins),
    \<open>common_keys\<close> and \<open>discover\<close> (\<open>ValueError\<close> from \<open>int\<close> as \<open>Inl\<close>).
    The enumeration order of \<open>set(images) & set(audios)\<close> is CPython's hash order; the
    model enumerates the image dict, and the lemmas show the sorted keys do not depend
    on that order except among keys of equal integer value.
  \<^item> \<open>Effects\<close>: lines 23--28 and the effect choice of lines 42--92, as
    \<open>assign_effects\<close>, \<open>draw_groups\<close> and \<open>choose_effect\<close>. Lemmas: disjointness and
    sizes of the groups for non-negative counts, saturation, overlap for negative counts.
  \<^item> \<open>Render\<close>: the loop of lines 30--104. The state \<open>run_state\<close> holds the set of
    existing paths, \<open>video_parts\<close> and the trace of observable events (log lines,
    progress values, ffmpeg runs, dialogs, file writes). \<open>process_segment\<close> is one
    iteration (the whole body, with the four ffmpeg argument vectors written out
    exactly), \<open>process_from\<close> the loop. \<open>get_duration\<close> (MP3 reading) and ffmpeg are
    oracles of the record \<open>env\<close>: ffmpeg maps an argument vector and the existing
    paths to the paths existing afterwards, or fails to spawn (\<open>OSError\<close>); its exit
    code is ignored, as in the script. An exception leaves the loop as \<open>Raised e st\<close>,
    keeping the events already emitted.
  \<^item> \<open>Pipeline\<close>: lines 13--117 as \<open>pipeline\<close> and \<open>create_video_with_ffmpeg\<close>, with
    the manifest (\<open>manifest_text\<close>) and the concat command; and the reading side of
    ffmpeg's concat demuxer after \<open>libavformat/concatdec.c\<close> (\<open>read_concat_list\<close>:
    lines end at LF, CR or NUL, empty lines are skipped, a \<open>file\<close> token is read with
    quotes and backslash escapes, and a relative path is resolved against the folder of
    the list file), used to say what the manifest means to ffmpeg.
  \<^item> \<open>Gui\<close>: \<open>start_process\<close>, \<open>select_folder\<close> and the two callbacks, on a record
    \<open>gui\<close> of the widget values (entries, bar, log, dialogs shown, workers started);
    \<open>gui_init\<close> is the window as the setup of lines 158--196 leaves it (no folder,
    counts \<open>"2"\<close>), and \<open>root_init\<close>, of the record extension \<open>tk_root\<close>, is the
    root window of lines 153--156 with its title and geometry; \<open>apply_events\<close> replays
    a run's trace into the window.
  \<^item> \<open>Workers\<close>: the Tk main loop with its worker threads as the \<open>inductive\<close> step
    relation \<open>sys_step\<close>: a click, a folder choice, typing into the count entries or the
    folder entry (line 163), editing the log \<open>Text\<close> (line 193, which accepts typing), or a
    \<open>deliver_step\<close> (one queued callback of one worker reaching the window, in any
    interleaving), with \<open>run_of\<close> giving a worker's events as the trace of
    \<open>create_video_with_ffmpeg\<close> on the file system it started from.
  \<^item> \<open>Segment_Spec\<close>: the segment loop as specification sections 4.3--4.5 describe it
    (\<open>spec_segment\<close>, \<open>spec_loop\<close>, \<open>spec_run\<close> over an abstract state of produced keys,
    failed keys and reported progress, with one success flag per segment), the
    abstraction relation \<open>seg_rel\<close>, and the forward simulation of the specification by
    \<open>process_from\<close>, lifted to whole runs.
  \<^item> \<open>Worker_Steps\<close>: the worker thread itself as a small-step machine
    (\<open>worker_step\<close>: the setup of lines 15--31 as \<open>pipeline_setup\<close>, one loop iteration
    per step, the concatenation, the handler \<open>fail_with\<close>) on a file system that other
    workers may change between its steps. A segment is one atomic step; the real thread
    can also be interrupted inside a segment, which only adds interleavings.
  \<^item> \<open>App\<close>: the whole application: a state \<open>app\<close> of the window, the shared file
    system and the running workers, and the step relation \<open>app_step\<close> (a click that runs
    \<open>start_process\<close> and adds a worker at its first step, a folder choice, typing into
    the entries, editing the log, or one \<open>worker_step\<close> of one worker, whose new events,
    \<open>new_events\<close>, reach the window through the callbacks at once). Lemmas: a worker
    step only extends its trace and keeps the invariant \<open>worker_ok\<close> (its position in
    the loop and the range of its reports), and \<open>bar_from_workers\<close> is preserved by
    every step.
  \<^item> This theory: properties that span the window, the effect draw and the run.

  \<^bold>\<open>What the properties show.\<close> By the claim ids of the manifest: discovery
  finds exactly the numeric stems with both files, sorted and distinct (C1, C20),
  independently of the enumeration order of the set intersection when the integer values
  are distinct (C17), while keys of equal value keep that hash-dependent order (C18);
  files named by the convention are found again as their keys (C27), and each stem's
  image and audio are the last listed file of that stem (C30). The effect groups
  partition the drawn keys with the sizes the spec asks for (C3), every key can be drawn
  for zoom (C15), and the choice follows the code's guard order (C4, C16). A run with
  working tools reaches the end with the progress values, the ffmpeg runs and the final
  messages in order (C5, C24) and implements the abstract segment specification (C7); on
  every run the reported progress rises strictly within (0, 100] (C6), ffmpeg is started
  at most once per pair plus once (C8), and every command is an \<open>ffmpeg -y\<close> invocation
  (C9). The manifest lists the clips of a sorted key list (C2); for an absolute folder
  without quotes, line terminators or dot components ffmpeg reads back exactly those
  clips (C13), and for an absolute folder with a quote or any relative folder it misreads
  every entry (C14). Failures: a stale clip from an earlier run taken for a fresh one
  (C10), a non-numeric key (C11), negative counts giving an empty pan group and
  overlapping zoom and shake groups (C12), a missing clip (C19), an unreadable MP3 that
  ends the run at its segment with no manifest and no concatenation (C28), and a folder
  without pairs that still reports success with no progress (C29). The window:
  validation (C21, C22) and the missing guard against a second worker (C23); with
  several workers the bar can move back (C26), and under every interleaving of clicks,
  user edits and worker steps on the shared file system it shows only 0 or a percentage
  a worker reported (C25).

  \<^bold>\<open>Modelling choices.\<close> Floats (durations, progress) are \<open>real\<close>; \<open>str(float)\<close> is
  the oracle \<open>fmt\<close>, since its digits do not matter to any property. Strings are
  character lists; the log lines are a datatype of their kinds rather than the
  formatted text, so an edit of the log widget replaces the list of lines. The random
  source is a parameter, so every property holds for every shuffle; in \<open>Workers\<close> and
  \<open>App\<close> all workers use the same source. No loop of the program needs fuel: the
  segment loop recurses on the key list and every other loop is structural or has a
  measure. \<open>py_int\<close> follows CPython's \<open>int(str)\<close> on Latin-1 text without the
  4300-digit limit of recent CPython releases, which no file key reaches.

  \<^bold>\<open>Not modelled.\<close> ffmpeg's and mutagen's own behaviour (oracles only; of ffmpeg
  only the reading of the concat list, whose normalisation of \<open>.\<close> and \<open>..\<close> components
  the theorems avoid by hypothesis); the pack and grid options, fonts and widths of lines
  158--196, which only place the widgets; interleavings inside one segment (in
  \<open>Workers\<close> each worker's events are computed from the file system it started from, in
  \<open>App\<close> the file system is shared at segment granularity); message boxes opened by a
  worker are events of its trace and do not change the window record.
\<close>

section \<open>Properties across components\<close>

lemma negative_count_pan_empty: "pan_keys (draw_groups rb keys 1 (-1) 1) = {}"
  by (simp add: draw_groups_def assign_effects_def py_slice_def py_slice_index_def Let_def)

lemma last_progress_values:
  "n > 0 \<Longrightarrow> last (map (\<lambda>j. real (j + 1) / real n * 100) [0..<n]) = 100"
  by (simp add: last_map)

text \<open>C12: the GUI accepts negative counts: with zoom 1, pan -1 and shake 1 the worker is
  started, and the pan slice \<open>[1:0]\<close> is empty while the shake slice \<open>[0:1]\<close> starts
  before the zoom slice ends, so the first shuffled key is in both the zoom and the shake
  group.\<close>

theorem gui_negative_counts_overlap:
  assumes "folder_var g \<noteq> []" "zoom_entry g = ''1''" "pan_entry g = ''-1''" "shake_entry g = ''1''"
    and "keys \<noteq> []"
  shows "\<exists>z p s. workers (start_process g) = workers g @ [(folder_var g, z, p, s)]
    \<and> pan_keys (draw_groups rb keys z p s) = {}
    \<and> zoom_keys (draw_groups rb keys z p s) \<inter> shake_keys (draw_groups rb keys z p s) \<noteq> {}"
proof -
  have "py_int ''1'' = Some 1" "py_int ''-1'' = Some (-1)" by (simp_all add: model_defs)
  then have "workers (start_process g) = workers g @ [(folder_var g, 1, -1, 1)]"
    using assms(1-4) by (simp add: start_process_def)
  then show ?thesis using negative_count_overlap [OF assms(5)] negative_count_pan_empty by blast
qed

theorem gui_negative_counts_overlap_witness:
  "\<exists>z p s. workers (start_process \<lparr>folder_var = ''/in'', zoom_entry = ''1'', pan_entry = ''-1'',
      shake_entry = ''1'', progress_bar = 0, log_text = [], gui_dialogs = [], workers = []\<rparr>) = [(''/in'', z, p, s)]
    \<and> pan_keys (draw_groups (\<lambda>i. 0) [''1'', ''2''] z p s) = {}
    \<and> zoom_keys (draw_groups (\<lambda>i. 0) [''1'', ''2''] z p s) \<inter> shake_keys (draw_groups (\<lambda>i. 0) [''1'', ''2''] z p s) \<noteq> {}"
  using gui_negative_counts_overlap [of "\<lparr>folder_var = ''/in'', zoom_entry = ''1'', pan_entry = ''-1'',
      shake_entry = ''1'', progress_bar = 0, log_text = [], gui_dialogs = [], workers = []\<rparr>"
      "[''1'', ''2'']" "\<lambda>i. 0"]
  by simp

text \<open>C24: replaying a successful run into the window through the two callbacks leaves the
  progress bar at 100 and the done line last in the log; when the folder holds no
  matched pair the run still reports success, with the bar where it was.\<close>

theorem gui_progress_after_success:
  assumes ls: "listdir env folder = Some files"
    and d: "discover folder files = Inr (imgs, auds, keys)"
    and mk: "can_create env (py_join folder ''temp'')"
    and wr: "can_create env (py_join (py_join folder ''temp'') ''file_list.txt'')"
    and mp3: "\<forall>k \<in> set keys. \<forall>p. dict_get auds k = Some p \<longrightarrow> mp3_length env p \<noteq> None"
    and ff: "\<forall>c fs. ffmpeg env c fs \<noteq> None"
  shows "progress_bar (apply_events g (trace (create_video_with_ffmpeg env folder z p s rb fs0))) =
           (if keys = [] then progress_bar g else 100)
    \<and> last (log_text (apply_events g (trace (create_video_with_ffmpeg env folder z p s rb fs0)))) = LogDone"
proof -
  obtain st2 :: run_state where tr: "trace (create_video_with_ffmpeg env folder z p s rb fs0) =
      trace st2 @ [Write (py_join (py_join folder ''temp'') ''file_list.txt'') (manifest_text (video_parts st2)),
        Run (concat_cmd (py_join (py_join folder ''temp'') ''file_list.txt'') (py_join folder ''output_video.mp4'')),
        Log LogDone, Dialog InfoSuccess]"
    and pr: "progress_of (trace st2) = map (\<lambda>j. real (j + 1) / real (length keys) * 100) [0..<length keys]"
    using create_video_success_trace [OF ls d mk wr mp3 ff, of z p s rb fs0] by blast
  show ?thesis
    using pr last_progress_values [of "length keys"]
    by (simp add: tr apply_events_progress apply_events_log_text)
qed

theorem gui_progress_after_success_witness:
  "progress_bar (apply_events \<lparr>folder_var = ''/in'', zoom_entry = ''1'', pan_entry = ''1'',
      shake_entry = ''1'', progress_bar = 0, log_text = [], gui_dialogs = [], workers = []\<rparr>
    (trace (create_video_with_ffmpeg
      \<lparr>listdir = (\<lambda>p. Some [''2.mp3'', ''1.jpg'', ''2.jpg'', ''1.mp3'']), mp3_length = (\<lambda>p. Some 7),
       ffmpeg = (\<lambda>c fs. Some (insert (last c) fs)),
       can_create = (\<lambda>p. True), fmt = (\<lambda>r. ''7'')\<rparr> ''/in'' 1 1 1 (\<lambda>i. 0) {}))) = 100"
proof -
  have "\<forall>c fs. (\<lambda>c fs. Some (insert (last c) fs)) c fs \<noteq> (None :: fs option)" by simp
  from gui_progress_after_success [OF demo_ready [OF this], of "\<lparr>folder_var = ''/in'', zoom_entry = ''1'',
      pan_entry = ''1'', shake_entry = ''1'', progress_bar = 0, log_text = [], gui_dialogs = [], workers = []\<rparr>"
      1 1 1 "\<lambda>i. 0" "{}"]
  show ?thesis by simp
qed
end
